theory Spec2Isabelle
  imports Complex_Main "HOL-Library.Sublist" "HOL-Library.Multiset"
begin

section \<open>JavaScript values and string primitives\<close>

text \<open>
  The generator and the preferences provider are TypeScript. Manifests (\<open>package.json\<close>),
  the output of \<open>yarn workspaces info\<close> and preference payloads are parsed JSON documents,
  which the code handles as values of type \<open>any\<close>. A parsed document is a \<open>json\<close> value; an
  object is the list of its own properties in the engine's property order (the keys of a
  parsed object are distinct). A property that is absent reads as \<open>undefined\<close>, modelled
  by \<open>None\<close>. Numbers are double-precision: \<open>JNum q\<close> is the finite number of value \<open>q\<close>
  other than \<open>-0\<close> (a parser gives only values that are doubles, so that the text
  \<open>12345678901234567890\<close> is read as \<open>JNum 12345678901234567168\<close>), \<open>JNegativeZero\<close> is
  \<open>-0\<close>, and \<open>JInfinity\<close> and \<open>JNegativeInfinity\<close> are what a text such as \<open>1e400\<close> or
  \<open>-1e400\<close> is read as. \<open>NaN\<close> is no value of a parsed document.
\<close>

datatype json =
    JNull
  | JBool bool
  | JNum rat
  | JNegativeZero
  | JInfinity
  | JNegativeInfinity
  | JStr string
  | JArr "json list"
  | JObj "(string \<times> json) list"

text \<open>
  What is thrown. \<open>CliError\<close>, \<open>Error\<close> and \<open>TypeError\<close> are thrown by the code of the
  repository, with the message it gives. \<open>EngineTypeError\<close> is a \<open>TypeError\<close> and
  \<open>EngineSyntaxError\<close> a \<open>SyntaxError\<close> thrown by the engine or by a Node module (a
  property of \<open>null\<close> or \<open>undefined\<close> is read or assigned, a path argument is not a string,
  a text is not JSON); their messages are the engine's and are not kept. \<open>ExternalError\<close>
  is a failure of the file system, of the network or of a command.
\<close>

datatype error =
    CliError string
  | Error string
  | TypeError string
  | EngineTypeError
  | EngineSyntaxError
  | ExternalError string

text \<open>JavaScript truthiness, as tested by \<open>if (v)\<close>, \<open>v ? a : b\<close> and \<open>v || d\<close>.\<close>

fun truthy :: "json \<Rightarrow> bool" where
  "truthy JNull = False"
| "truthy (JBool b) = b"
| "truthy (JNum n) = (n \<noteq> 0)"
| "truthy JNegativeZero = False"
| "truthy JInfinity = True"
| "truthy JNegativeInfinity = True"
| "truthy (JStr s) = (s \<noteq> [])"
| "truthy (JArr xs) = True"
| "truthy (JObj kvs) = True"

text \<open>
  A value that may be \<open>undefined\<close>, kept when it is truthy: the \<open>v\<close> of the branch taken
  by \<open>if (v)\<close>. For a value of type \<open>string | undefined\<close> the falsy ones are
  \<open>undefined\<close> and the empty string.
\<close>

definition whenTruthy :: "json option \<Rightarrow> json option" where
  "whenTruthy v = (case v of None \<Rightarrow> None | Some x \<Rightarrow> if truthy x then Some x else None)"

definition whenNonEmpty :: "string option \<Rightarrow> string option" where
  "whenNonEmpty v = (case v of None \<Rightarrow> None | Some x \<Rightarrow> if x \<noteq> [] then Some x else None)"

text \<open>\<open>v || {}\<close>.\<close>

definition orEmptyObject :: "json option \<Rightarrow> json" where
  "orEmptyObject v = (case whenTruthy v of None \<Rightarrow> JObj [] | Some x \<Rightarrow> x)"

text \<open>Decimal numerals, the names of the index properties of arrays and strings.\<close>

definition digit :: "nat \<Rightarrow> char" where
  "digit d = ''0123456789'' ! d"

function decimal :: "nat \<Rightarrow> string" where
  "decimal n = (if n < 10 then [digit n] else decimal (n div 10) @ [digit (n mod 10)])"
  by pat_completeness auto
termination
  by (relation "measure id") auto

declare decimal.simps [simp del]

fun indexed :: "nat \<Rightarrow> json list \<Rightarrow> (string \<times> json) list" where
  "indexed i [] = []"
| "indexed i (v # vs) = (decimal i, v) # indexed (Suc i) vs"

text \<open>
  The own enumerable properties of a value, with their values: \<open>Object.keys(v)\<close> is the
  list of their names and \<open>v[key]\<close>, for one of these names, the value beside it. Booleans
  and numbers have none, a string has one per character and an array one per element.
  \<open>Object.keys\<close> and \<open>Object.entries\<close> throw on \<open>null\<close> and \<open>undefined\<close>.
\<close>

fun ownProperties :: "json \<Rightarrow> (string \<times> json) list" where
  "ownProperties JNull = []"
| "ownProperties (JBool b) = []"
| "ownProperties (JNum n) = []"
| "ownProperties JNegativeZero = []"
| "ownProperties JInfinity = []"
| "ownProperties JNegativeInfinity = []"
| "ownProperties (JStr s) = indexed 0 (map (\<lambda>c. JStr [c]) s)"
| "ownProperties (JArr xs) = indexed 0 xs"
| "ownProperties (JObj kvs) = kvs"

definition Object_entries :: "json option \<Rightarrow> error + (string \<times> json) list" where
  "Object_entries v =
     (case v of
        None \<Rightarrow> Inl EngineTypeError
      | Some JNull \<Rightarrow> Inl EngineTypeError
      | Some x \<Rightarrow> Inr (ownProperties x))"

text \<open>
  \<open>v.name\<close>, for the names this code reads (\<open>dependencies\<close>, \<open>devDependencies\<close>, \<open>data\<close>,
  \<open>location\<close>, \<open>name\<close>, \<open>version\<close>, \<open>che-theia.eclipse.org/vscode-preferences\<close>): an
  object gives its own property or \<open>undefined\<close>, no other value has a property of these
  names, and reading a property of \<open>null\<close> throws.
\<close>

fun lookupProperty :: "json \<Rightarrow> string \<Rightarrow> json option" where
  "lookupProperty (JObj kvs) name = map_of kvs name"
| "lookupProperty v name = None"

definition getProperty :: "json \<Rightarrow> string \<Rightarrow> error + json option" where
  "getProperty v name = (if v = JNull then Inl EngineTypeError else Inr (lookupProperty v name))"

text \<open>
  Entries kept in insertion order: an existing key keeps its place and takes the new
  value, a new key comes last. This is \<open>Map.prototype.set\<close>, and the assignment to a
  property of a plain object whose name is no array index.
\<close>

fun setProperty :: "(string \<times> json) list \<Rightarrow> string \<Rightarrow> json \<Rightarrow> (string \<times> json) list" where
  "setProperty [] key v = [(key, v)]"
| "setProperty ((k, x) # kvs) key v =
     (if k = key then (k, v) # kvs else (k, x) # setProperty kvs key v)"

text \<open>
  The names that are array indices: the canonical decimal numerals of the numbers below
  \<open>2^32 - 1\<close> (\<open>0\<close>, \<open>7\<close>, \<open>42\<close>; not \<open>07\<close>, \<open>-1\<close> or \<open>1.5\<close>). The engine enumerates the
  properties of an object with these names first, in ascending order, and the others after
  them in the order of their creation.
\<close>

definition isDigit :: "char \<Rightarrow> bool" where
  "isDigit c = (48 \<le> (of_char c :: nat) \<and> (of_char c :: nat) \<le> 57)"

fun numeralValue :: "nat \<Rightarrow> string \<Rightarrow> nat option" where
  "numeralValue n [] = Some n"
| "numeralValue n (c # cs) =
     (if isDigit c then numeralValue (10 * n + (of_char c - 48)) cs else None)"

definition arrayIndex :: "string \<Rightarrow> nat option" where
  "arrayIndex key =
     (case key of
        [] \<Rightarrow> None
      | c # cs \<Rightarrow>
          if c = CHR ''0'' \<and> cs \<noteq> [] then None
          else (case numeralValue 0 key of
                  None \<Rightarrow> None
                | Some n \<Rightarrow> if n < 4294967295 then Some n else None))"

fun insertIndex :: "(string \<times> json) list \<Rightarrow> nat \<Rightarrow> string \<Rightarrow> json \<Rightarrow> (string \<times> json) list" where
  "insertIndex [] n key v = [(key, v)]"
| "insertIndex ((k, x) # kvs) n key v =
     (case arrayIndex k of
        Some m \<Rightarrow> if m < n then (k, x) # insertIndex kvs n key v else (key, v) # (k, x) # kvs
      | None \<Rightarrow> (key, v) # (k, x) # kvs)"

text \<open>
  \<open>o[key] = v\<close> on a plain object: an existing own property keeps its place and takes the
  new value; a new property is enumerated last, or among the index properties when its
  name is an array index. The name \<open>__proto__\<close> is the accessor inherited from
  \<open>Object.prototype\<close>: unless the object has an own property of that name (a parsed
  document can), assigning to it creates none.
\<close>

definition defineProperty :: "(string \<times> json) list \<Rightarrow> string \<Rightarrow> json \<Rightarrow> (string \<times> json) list" where
  "defineProperty obj key v =
     (case arrayIndex key of
        None \<Rightarrow> setProperty obj key v
      | Some n \<Rightarrow> if key \<in> fst ` set obj then setProperty obj key v else insertIndex obj n key v)"

definition assign :: "(string \<times> json) list \<Rightarrow> string \<Rightarrow> json \<Rightarrow> (string \<times> json) list" where
  "assign obj key v =
     (if key = ''__proto__'' \<and> key \<notin> fst ` set obj then obj else defineProperty obj key v)"

text \<open>
  \<open>v[key] = x\<close> on a value of type \<open>any\<close>. The modules are strict code, where creating a
  property on \<open>null\<close> or on a primitive value throws. A property created on an array that
  is not an index is no element of it and is not serialized.
\<close>

fun assignProperty :: "json \<Rightarrow> string \<Rightarrow> json \<Rightarrow> error + json" where
  "assignProperty (JObj kvs) key x = Inr (JObj (assign kvs key x))"
| "assignProperty (JArr xs) key x = Inr (JArr xs)"
| "assignProperty v key x = Inl EngineTypeError"

text \<open>\<open>String.prototype.startsWith\<close>, \<open>indexOf\<close> and \<open>substring\<close>.\<close>

definition startsWith :: "string \<Rightarrow> string \<Rightarrow> bool" where
  "startsWith s searchString = prefix searchString s"

fun indexOfFrom :: "nat \<Rightarrow> string \<Rightarrow> string \<Rightarrow> int" where
  "indexOfFrom i [] searchString = (if searchString = [] then int i else - 1)"
| "indexOfFrom i (c # cs) searchString =
     (if prefix searchString (c # cs) then int i else indexOfFrom (Suc i) cs searchString)"

definition indexOf :: "string \<Rightarrow> string \<Rightarrow> int" where
  "indexOf s searchString = indexOfFrom 0 s searchString"

definition clampIndex :: "string \<Rightarrow> int \<Rightarrow> nat" where
  "clampIndex s i = (if i < 0 then 0 else min (nat i) (length s))"

definition substring :: "string \<Rightarrow> int \<Rightarrow> int \<Rightarrow> string" where
  "substring s start end =
     (let a = clampIndex s start; b = clampIndex s end;
          lo = min a b; hi = max a b
      in take (hi - lo) (drop lo s))"

section \<open>The source entry and the resolver\<close>

text \<open>
  \<open>ISource\<close> is one entry of the \<open>sources\<close> list of the configuration. The YAML may omit
  \<open>checkoutTo\<close>, \<open>extensions\<close> and \<open>plugins\<close>; \<open>clonedDir\<close> and the two lists of links are
  assigned while the entry is processed and are \<open>undefined\<close> (\<open>None\<close>) before.
\<close>

record ISource =
  source :: string
  checkoutTo :: "string option"
  type :: "string option"
  extensions :: "string list option"
  plugins :: "string list option"
  clonedDir :: "string option"
  extSymbolicLinks :: "string list option"
  pluginSymbolicLinks :: "string list option"

record InitSources =
  rootFolder :: string
  packagesFolder :: string
  pluginsFolder :: string
  cheTheiaFolder :: string
  assemblyFolder :: string
  theiaVersion :: string
  sourceLocationAliases :: "string \<rightharpoonup> string"
  globalDevDependencies :: "string \<rightharpoonup> json"
  keepHistory :: bool
  extensions :: "ISource list"

definition PREFIX_PACKAGES_EXTENSIONS :: string where
  "PREFIX_PACKAGES_EXTENSIONS = ''@che-''"

definition DEFAULT_EXTENSIONS_URI :: string where
  "DEFAULT_EXTENSIONS_URI =
     ''https://raw.githubusercontent.com/eclipse-che/che-theia/main/che-theia-init-sources.yml''"

subsection \<open>\<open>updateDependency\<close>\<close>

text \<open>
  \<open>globalDevDependencies\<close> is declared \<open>Map<string, string>\<close> and filled with
  \<open>extensionPackage.devDependencies[key]\<close> of the root manifest, whatever that value is.
  \<open>const rest = this.globalDevDependencies.get(dependencyKey); if (rest) return rest;\<close>
  tests the value found for truthiness: a key that is absent gives \<open>undefined\<close>, a key
  bound to the empty string gives \<open>''\<close>, and both fall through to the next rule. The
  declared version is \<open>dependencies[key]\<close> of a manifest, a value of type \<open>any\<close>, and the
  last rule returns it as it is.
\<close>

definition updateDependency :: "InitSources \<Rightarrow> string \<Rightarrow> json \<Rightarrow> json" where
  "updateDependency this dependencyKey dependencyValue =
     (case whenTruthy (globalDevDependencies this dependencyKey) of
        Some rest \<Rightarrow> rest
      | None \<Rightarrow>
          if startsWith dependencyKey ''@theia/'' then JStr (''^'' @ theiaVersion this)
          else dependencyValue)"

subsection \<open>\<open>initSourceLocationAliases\<close>\<close>

text \<open>
  The guard \<open>if (element.indexOf('='))\<close> tests the index for truthiness: \<open>-1\<close> (no
  separator) is truthy and \<open>0\<close> (separator first) is falsy.
\<close>

definition addAlias :: "(string \<rightharpoonup> string) \<Rightarrow> string \<Rightarrow> (string \<rightharpoonup> string)" where
  "addAlias aliases element =
     (if indexOf element ''='' \<noteq> 0 then
        (let index = substring element 0 (indexOf element ''='');
             value = substring element (indexOf element ''='' + 1) (int (length element))
         in aliases(index \<mapsto> value))
      else aliases)"

definition initSourceLocationAliases :: "string list option \<Rightarrow> InitSources \<Rightarrow> InitSources" where
  "initSourceLocationAliases alias this =
     (case alias of
        None \<Rightarrow> this
      | Some elements \<Rightarrow>
          this\<lparr>sourceLocationAliases := foldl addAlias (sourceLocationAliases this) elements\<rparr>)"

section \<open>The platform: file system, network, libraries\<close>

text \<open>
  The resolver works through Node and a few libraries (\<open>path\<close>, \<open>fs-extra\<close>, \<open>read-pkg\<close>,
  \<open>child_process\<close>, \<open>tmp\<close>, \<open>axios\<close>, \<open>js-yaml\<close>) and through the modules \<open>repository\<close> and
  \<open>resolve-tsconfigs\<close> that it imports. What they do is not decided by \<open>init-sources.ts\<close>:
  they are the fields of a platform \<open>sys\<close>, over a state \<open>'w\<close> of the outside world (disk,
  network, module cache) of which nothing is assumed. An operation that can throw or reject
  returns an \<open>error\<close> beside the new world.

  \<open>readPkg sys path\<close> is \<open>readPkg(path, { normalize: false })\<close> and \<open>require sys path\<close> the
  object of the JSON module at \<open>path\<close>. \<open>JSON_stringify sys v\<close> is
  \<open>JSON.stringify(v, undefined, 2)\<close>, and \<open>String_of sys v\<close> is \<open>v.toString()\<close> for a value
  that is not a string.
  \<open>Repository_clone sys src folder ref keep\<close> stands for
  \<open>new Repository(src)\<close> followed by \<open>clone(folder, getRepositoryName(), ref, keep)\<close>.
  \<open>jsYaml_load sys text\<close> is the \<open>sources\<close> array of the document \<open>jsYaml.load(text)\<close>.
  \<open>completionOrder\<close> is the order in which the symlink operations started together by
  \<open>Promise.all\<close> complete, as a rearrangement of the order in which they were started.
\<close>

record 'w platform =
  path_resolve :: "string list \<Rightarrow> string"
  path_join :: "string list \<Rightarrow> string"
  path_basename :: "string \<Rightarrow> string"
  fs_existsSync :: "'w \<Rightarrow> string \<Rightarrow> bool"
  fs_ensureSymlink :: "string \<Rightarrow> string \<Rightarrow> 'w \<Rightarrow> error option \<times> 'w"
  fs_ensureDir :: "string \<Rightarrow> 'w \<Rightarrow> error option \<times> 'w"
  fs_readFile :: "string \<Rightarrow> 'w \<Rightarrow> error + string"
  fs_writeFile :: "string \<Rightarrow> string \<Rightarrow> 'w \<Rightarrow> error option \<times> 'w"
  readPkg :: "string \<Rightarrow> 'w \<Rightarrow> error + json"
  require :: "string \<Rightarrow> 'w \<Rightarrow> error + json"
  Repository_clone :: "string \<Rightarrow> string \<Rightarrow> string option \<Rightarrow> bool \<Rightarrow> 'w \<Rightarrow> (error + string) \<times> 'w"
  cp_execSync :: "string \<Rightarrow> string \<Rightarrow> 'w \<Rightarrow> (error + string) \<times> 'w"
  tmp_fileSync :: "'w \<Rightarrow> (error + string) \<times> 'w"
  axios_get :: "string \<Rightarrow> 'w \<Rightarrow> (error + string) \<times> 'w"
  jsYaml_load :: "string \<Rightarrow> error + ISource list option"
  JSON_parse :: "string \<Rightarrow> json option"
  JSON_stringify :: "json \<Rightarrow> string"
  String_of :: "json \<Rightarrow> string"
  os_EOL :: string
  completionOrder :: "string list \<Rightarrow> string list"
  updateTypescriptReferencesFor :: "string \<Rightarrow> string list \<Rightarrow> (string \<times> json) list \<Rightarrow> 'w \<Rightarrow> error option \<times> 'w"
  updateRootTsConfigFile :: "string \<Rightarrow> 'w \<Rightarrow> error option \<times> 'w"
  updateAssemblyTsConfigFile :: "string \<Rightarrow> string \<Rightarrow> 'w \<Rightarrow> error option \<times> 'w"

text \<open>
  What a run does to the outside is kept as the list of the calls it issued, oldest first,
  beside the world they were applied to; the messages given to \<open>Logger\<close> are among them.
  Reads (\<open>existsSync\<close>, \<open>readFile\<close>, \<open>readPkg\<close>, \<open>require\<close>) leave no entry.
\<close>

datatype call =
    Logger_info string
  | Logger_debug string
  | EnsureSymlink string string
  | EnsureDir string
  | WriteFile string string
  | RepositoryClone string string "string option" bool
  | ExecSync string string
  | TmpFileSync
  | HttpGet string
  | UpdateTypescriptReferencesFor string "string list"
  | UpdateRootTsConfigFile string
  | UpdateAssemblyTsConfigFile string string

record 'w state =
  world :: 'w
  calls :: "call list"

definition issue :: "call \<Rightarrow> 'w state \<Rightarrow> 'w state" where
  "issue c st = st\<lparr>calls := calls st @ [c]\<rparr>"

text \<open>An operation of the platform that returns nothing: the call is recorded and applied.\<close>

definition perform :: "call \<Rightarrow> ('w \<Rightarrow> error option \<times> 'w) \<Rightarrow> 'w state \<Rightarrow> (error + unit) \<times> 'w state" where
  "perform c operation st =
     (let (failure, w) = operation (world st);
          st' = (issue c st)\<lparr>world := w\<rparr>
      in case failure of Some e \<Rightarrow> (Inl e, st') | None \<Rightarrow> (Inr (), st'))"

text \<open>An operation of the platform that returns a string.\<close>

definition request :: "call \<Rightarrow> ('w \<Rightarrow> (error + string) \<times> 'w) \<Rightarrow> 'w state \<Rightarrow> (error + string) \<times> 'w state" where
  "request c operation st =
     (let (answer, w) = operation (world st)
      in (answer, (issue c st)\<lparr>world := w\<rparr>))"

definition isNetworkCall :: "call \<Rightarrow> bool" where
  "isNetworkCall c = (case c of RepositoryClone src folder ref keep \<Rightarrow> True | HttpGet uri \<Rightarrow> True | _ \<Rightarrow> False)"

text \<open>
  \<open>await Promise.all(xs.map(async x => ...))\<close>: every callback is started, in the order of
  the list, and the results are awaited together. The callbacks are run here one after the
  other in that order; \<open>Promise.all\<close> rejects with an error as soon as one callback does,
  and fulfils with all the results otherwise.
\<close>

fun mapAsync :: "('a \<Rightarrow> 's \<Rightarrow> (error + 'b) \<times> 's) \<Rightarrow> 'a list \<Rightarrow> 's \<Rightarrow> (error + 'b) list \<times> 's" where
  "mapAsync f [] st = ([], st)"
| "mapAsync f (x # xs) st =
     (let (r, st1) = f x st; (rs, st2) = mapAsync f xs st1 in (r # rs, st2))"

fun allResults :: "(error + 'b) list \<Rightarrow> error + 'b list" where
  "allResults [] = Inr []"
| "allResults (Inl e # rs) = Inl e"
| "allResults (Inr v # rs) = (case allResults rs of Inl e \<Rightarrow> Inl e | Inr vs \<Rightarrow> Inr (v # vs))"

definition Promise_all :: "('a \<Rightarrow> 's \<Rightarrow> (error + 'b) \<times> 's) \<Rightarrow> 'a list \<Rightarrow> 's \<Rightarrow> (error + 'b list) \<times> 's" where
  "Promise_all f xs st = (let (rs, st') = mapAsync f xs st in (allResults rs, st'))"

section \<open>The steps of the resolver\<close>

subsection \<open>\<open>clone\<close>\<close>

definition clone :: "'w platform \<Rightarrow> InitSources \<Rightarrow> ISource \<Rightarrow> 'w state \<Rightarrow> (error + ISource) \<times> 'w state" where
  "clone sys this extension st =
     (if fs_existsSync sys (world st) (source extension) then
        (Inr (extension\<lparr>clonedDir := Some (source extension)\<rparr>),
         issue (Logger_info (''Skipping cloning sources for '' @ source extension @ '' already provided...'')) st)
      else
        (let st1 = issue (Logger_info (''Cloning '' @ source extension @ ''...'')) st;
             (answer, st2) =
               request (RepositoryClone (source extension) (cheTheiaFolder this) (checkoutTo extension) (keepHistory this))
                 (Repository_clone sys (source extension) (cheTheiaFolder this) (checkoutTo extension) (keepHistory this)) st1
         in case answer of
              Inl e \<Rightarrow> (Inl e, st2)
            | Inr dir \<Rightarrow> (Inr (extension\<lparr>clonedDir := Some dir\<rparr>), st2)))"

subsection \<open>\<open>symlink\<close> and \<open>pluginsSymlink\<close>\<close>

text \<open>
  \<open>path.resolve\<close> and \<open>path.basename\<close> throw a \<open>TypeError\<close> on an argument that is not a
  string, here a \<open>clonedDir\<close> that was never assigned. \<open>if (source.extensions)\<close> holds for
  every array, the empty one too. The callback of each folder logs, starts
  \<open>fs.ensureSymlink\<close> and pushes \<open>dest\<close> once the link is made, so the links are recorded in
  the order of completion; \<open>source.extSymbolicLinks\<close> is assigned only when all were made.
\<close>

definition symlinkFolder :: "'w platform \<Rightarrow> InitSources \<Rightarrow> ISource \<Rightarrow> string \<Rightarrow> 'w state \<Rightarrow> (error + string) \<times> 'w state" where
  "symlinkFolder sys this src folder st =
     (case clonedDir src of
        None \<Rightarrow> (Inl EngineTypeError, st)
      | Some dir \<Rightarrow>
          (let sourceFolder = path_resolve sys [dir, folder];
               dest = path_resolve sys
                        [packagesFolder this, PREFIX_PACKAGES_EXTENSIONS @ path_basename sys sourceFolder];
               st1 = issue (Logger_info (''Creating symlink from '' @ sourceFolder @ '' to '' @ dest)) st;
               (r, st2) = perform (EnsureSymlink sourceFolder dest) (fs_ensureSymlink sys sourceFolder dest) st1
           in case r of Inl e \<Rightarrow> (Inl e, st2) | Inr u \<Rightarrow> (Inr dest, st2)))"

definition symlink :: "'w platform \<Rightarrow> InitSources \<Rightarrow> ISource \<Rightarrow> 'w state \<Rightarrow> (error + ISource) \<times> 'w state" where
  "symlink sys this src st =
     (case ISource.extensions src of
        Some folders \<Rightarrow>
          (let (r, st') = Promise_all (symlinkFolder sys this src) folders st
           in case r of
                Inl e \<Rightarrow> (Inl e, st')
              | Inr symbolicLinks \<Rightarrow>
                  (Inr (src\<lparr>extSymbolicLinks := Some (completionOrder sys symbolicLinks)\<rparr>), st'))
      | None \<Rightarrow>
          (case clonedDir src of
             None \<Rightarrow> (Inl EngineTypeError, st)
           | Some dir \<Rightarrow>
               (let dest = path_resolve sys
                             [packagesFolder this, PREFIX_PACKAGES_EXTENSIONS @ path_basename sys dir];
                    st1 = issue (Logger_info (''Creating symlink from '' @ dir @ '' to '' @ dest)) st;
                    (r, st2) = perform (EnsureSymlink dir dest) (fs_ensureSymlink sys dir dest) st1
                in case r of
                     Inl e \<Rightarrow> (Inl e, st2)
                   | Inr u \<Rightarrow> (Inr (src\<lparr>extSymbolicLinks := Some [dest]\<rparr>), st2))))"

definition pluginsSymlinkFolder :: "'w platform \<Rightarrow> InitSources \<Rightarrow> ISource \<Rightarrow> string \<Rightarrow> 'w state \<Rightarrow> (error + string) \<times> 'w state" where
  "pluginsSymlinkFolder sys this src folder st =
     (case clonedDir src of
        None \<Rightarrow> (Inl EngineTypeError, st)
      | Some dir \<Rightarrow>
          (let sourceFolder = path_resolve sys [dir, folder];
               dest = path_resolve sys [pluginsFolder this, path_basename sys sourceFolder];
               st1 = issue (Logger_info (''Creating symlink from '' @ sourceFolder @ '' to '' @ dest)) st;
               (r, st2) = perform (EnsureSymlink sourceFolder dest) (fs_ensureSymlink sys sourceFolder dest) st1
           in case r of Inl e \<Rightarrow> (Inl e, st2) | Inr u \<Rightarrow> (Inr dest, st2)))"

definition pluginsSymlink :: "'w platform \<Rightarrow> InitSources \<Rightarrow> ISource \<Rightarrow> 'w state \<Rightarrow> (error + ISource) \<times> 'w state" where
  "pluginsSymlink sys this src st =
     (case plugins src of
        Some folders \<Rightarrow>
          (let (r, st') = Promise_all (pluginsSymlinkFolder sys this src) folders st
           in case r of
                Inl e \<Rightarrow> (Inl e, st')
              | Inr symbolicLinks \<Rightarrow>
                  (Inr (src\<lparr>pluginSymbolicLinks := Some (completionOrder sys symbolicLinks)\<rparr>), st'))
      | None \<Rightarrow>
          (case clonedDir src of
             None \<Rightarrow> (Inl EngineTypeError, st)
           | Some dir \<Rightarrow>
               (let dest = path_resolve sys [pluginsFolder this, path_basename sys dir];
                    st1 = issue (Logger_info (''Creating symlink from '' @ dir @ '' to '' @ dest)) st;
                    (r, st2) = perform (EnsureSymlink dir dest) (fs_ensureSymlink sys dir dest) st1
                in case r of
                     Inl e \<Rightarrow> (Inl e, st2)
                   | Inr u \<Rightarrow> (Inr (src\<lparr>pluginSymbolicLinks := Some [dest]\<rparr>), st2))))"

subsection \<open>\<open>updateDependencies\<close>\<close>

text \<open>
  \<open>dependencies ? Object.keys(dependencies) : []\<close>, and for each key
  \<open>updated[key] = this.updateDependency(key, dependencies[key])\<close> on an object that starts
  empty.
\<close>

definition updatedDependencies :: "InitSources \<Rightarrow> json option \<Rightarrow> json" where
  "updatedDependencies this dependencies =
     JObj (foldl (\<lambda>updated (key, v). assign updated key (updateDependency this key v)) []
            (case whenTruthy dependencies of
               None \<Rightarrow> []
             | Some d \<Rightarrow> ownProperties d))"

text \<open>
  The callback of one link. \<open>extensionPackage\<close> is what \<open>readPkg\<close> parsed and
  \<open>rawExtensionPackage\<close> the object \<open>require\<close> gives for the same path; the second is
  changed in place and serialized.
\<close>

definition updatePackageJson :: "'w platform \<Rightarrow> InitSources \<Rightarrow> bool \<Rightarrow> string \<Rightarrow> 'w state \<Rightarrow> (error + unit) \<times> 'w state" where
  "updatePackageJson sys this rewrite symbolicLink st =
     (let extensionJsonPath = path_join sys [symbolicLink, ''package.json''] in
      case readPkg sys extensionJsonPath (world st) of
        Inl e \<Rightarrow> (Inl e, st)
      | Inr extensionPackage \<Rightarrow>
      (case require sys extensionJsonPath (world st) of
        Inl e \<Rightarrow> (Inl e, st)
      | Inr rawExtensionPackage \<Rightarrow>
      (case getProperty extensionPackage ''dependencies'' of
        Inl e \<Rightarrow> (Inl e, st)
      | Inr dependencies \<Rightarrow>
      (case getProperty extensionPackage ''devDependencies'' of
        Inl e \<Rightarrow> (Inl e, st)
      | Inr devDependencies \<Rightarrow>
      (case assignProperty rawExtensionPackage ''dependencies'' (updatedDependencies this dependencies) of
        Inl e \<Rightarrow> (Inl e, st)
      | Inr raw1 \<Rightarrow>
      (case assignProperty raw1 ''devDependencies'' (updatedDependencies this devDependencies) of
        Inl e \<Rightarrow> (Inl e, st)
      | Inr raw2 \<Rightarrow>
          if rewrite then
            (let json = JSON_stringify sys raw2
             in perform (WriteFile extensionJsonPath (json @ os_EOL sys))
                  (fs_writeFile sys extensionJsonPath (json @ os_EOL sys)) st)
          else (Inr (), st)))))))"

definition updateDependencies :: "'w platform \<Rightarrow> InitSources \<Rightarrow> ISource \<Rightarrow> bool \<Rightarrow> 'w state \<Rightarrow> (error + unit) \<times> 'w state" where
  "updateDependencies sys this extension rewrite st =
     (case extSymbolicLinks extension of
        None \<Rightarrow> (Inl EngineTypeError, st)
      | Some links \<Rightarrow>
          (let (r, st') = Promise_all (updatePackageJson sys this rewrite) links st
           in (case r of Inl e \<Rightarrow> Inl e | Inr us \<Rightarrow> Inr (), st')))"

text \<open>The fields of a manifest other than the two the rewriter assigns.\<close>

definition isDependencyField :: "string \<Rightarrow> bool" where
  "isDependencyField name = (name = ''dependencies'' \<or> name = ''devDependencies'')"

fun nonDependencyFields :: "json \<Rightarrow> json" where
  "nonDependencyFields (JObj kvs) = JObj (filter (\<lambda>(name, v). \<not> isDependencyField name) kvs)"
| "nonDependencyFields v = v"

subsection \<open>\<open>getYarnWorkspaces\<close>\<close>

text \<open>
  The index is a \<open>Map\<close> from package name to the workspace object, kept as the list of
  its entries in insertion order. \<open>data.toString()\<close> is the string itself for a string.
  \<open>path.join\<close> throws on an argument that is not a string, so each workspace has to be an
  object with a string \<open>location\<close>.
\<close>

definition toString :: "'w platform \<Rightarrow> json \<Rightarrow> string" where
  "toString sys v = (case v of JStr s \<Rightarrow> s | _ \<Rightarrow> String_of sys v)"

definition addWorkspace :: "'w platform \<Rightarrow> InitSources \<Rightarrow> (string \<times> json) list \<Rightarrow> string \<times> json \<Rightarrow> error + (string \<times> json) list" where
  "addWorkspace sys this yarnWorkspaces entry =
     (case entry of (packageName, workspace) \<Rightarrow>
       (case getProperty workspace ''location'' of
          Inl e \<Rightarrow> Inl e
        | Inr (Some (JStr location)) \<Rightarrow>
            (case assignProperty workspace ''location'' (JStr (path_join sys [rootFolder this, location])) of
               Inl e \<Rightarrow> Inl e
             | Inr yarnWorkspace \<Rightarrow> Inr (setProperty yarnWorkspaces packageName yarnWorkspace))
        | Inr other \<Rightarrow> Inl EngineTypeError))"

fun addWorkspaces :: "'w platform \<Rightarrow> InitSources \<Rightarrow> (string \<times> json) list \<Rightarrow> (string \<times> json) list \<Rightarrow> error + (string \<times> json) list" where
  "addWorkspaces sys this yarnWorkspaces [] = Inr yarnWorkspaces"
| "addWorkspaces sys this yarnWorkspaces (entry # entries) =
     (case addWorkspace sys this yarnWorkspaces entry of
        Inl e \<Rightarrow> Inl e
      | Inr yarnWorkspaces' \<Rightarrow> addWorkspaces sys this yarnWorkspaces' entries)"

definition readYarnWorkspaces :: "'w platform \<Rightarrow> InitSources \<Rightarrow> string \<Rightarrow> error + (string \<times> json) list" where
  "readYarnWorkspaces sys this yarnWorkspacesRawData =
     (case JSON_parse sys yarnWorkspacesRawData of
        None \<Rightarrow> Inl EngineSyntaxError
      | Some yarnWorkspacesParsedContent \<Rightarrow>
          if \<not> truthy yarnWorkspacesParsedContent then Inr []
          else
            (case whenTruthy (lookupProperty yarnWorkspacesParsedContent ''data'') of
               None \<Rightarrow> Inr []
             | Some d \<Rightarrow>
                 (case JSON_parse sys (toString sys d) of
                    None \<Rightarrow> Inl EngineSyntaxError
                  | Some yarnWorkspacesParsedData \<Rightarrow>
                      (case Object_entries (Some yarnWorkspacesParsedData) of
                         Inl e \<Rightarrow> Inl e
                       | Inr entries \<Rightarrow> addWorkspaces sys this [] entries))))"

definition getYarnWorkspaces :: "'w platform \<Rightarrow> InitSources \<Rightarrow> 'w state \<Rightarrow> (error + (string \<times> json) list) \<times> 'w state" where
  "getYarnWorkspaces sys this st =
     (let (answer, st1) =
            request (ExecSync ''yarn --json --silent workspaces info'' (rootFolder this))
              (cp_execSync sys ''yarn --json --silent workspaces info'' (rootFolder this)) st
      in case answer of
           Inl e \<Rightarrow> (Inl e, st1)
         | Inr yarnWorkspacesRawData \<Rightarrow>
             (case readYarnWorkspaces sys this yarnWorkspacesRawData of
                Inl e \<Rightarrow> (Inl e, st1)
              | Inr yarnWorkspaces \<Rightarrow>
                  if length yarnWorkspaces = 0 then (Inl (Error ''Yarn Workspaces are not found''), st1)
                  else (Inr yarnWorkspaces, st1)))"

subsection \<open>\<open>initGlobalDependencies\<close>\<close>

definition initGlobalDependencies :: "'w platform \<Rightarrow> InitSources \<Rightarrow> 'w state \<Rightarrow> (error + InitSources) \<times> 'w state" where
  "initGlobalDependencies sys this st =
     (case readPkg sys (path_join sys [rootFolder this, ''package.json'']) (world st) of
        Inl e \<Rightarrow> (Inl e, st)
      | Inr extensionPackage \<Rightarrow>
      (case getProperty extensionPackage ''devDependencies'' of
        Inl e \<Rightarrow> (Inl e, st)
      | Inr devDependencies \<Rightarrow>
      (case Object_entries devDependencies of
        Inl e \<Rightarrow> (Inl e, st)
      | Inr entries \<Rightarrow>
          (Inr (this\<lparr>globalDevDependencies :=
                  foldl (\<lambda>m (key, v). m(key \<mapsto> v)) (globalDevDependencies this) entries\<rparr>), st))))"

subsection \<open>\<open>insertExtensionIntoAssembly\<close>\<close>

text \<open>
  \<open>dependencies[extensionName] = extensionVersion\<close>, where both come from the manifest of
  the link and may be \<open>undefined\<close>: an \<open>undefined\<close> name is the key \<open>undefined\<close>, and a
  property whose value is \<open>undefined\<close> is left out by \<open>JSON.stringify\<close>. Assigning to a
  property of \<open>undefined\<close> throws.
\<close>

definition propertyKey :: "'w platform \<Rightarrow> json option \<Rightarrow> string" where
  "propertyKey sys name = (case name of None \<Rightarrow> ''undefined'' | Some v \<Rightarrow> toString sys v)"

definition assignOptional :: "json \<Rightarrow> string \<Rightarrow> json option \<Rightarrow> error + json" where
  "assignOptional d key x =
     (case x of
        Some v \<Rightarrow> assignProperty d key v
      | None \<Rightarrow>
          (case d of
             JObj kvs \<Rightarrow> Inr (JObj (filter (\<lambda>(k, y). k \<noteq> key) kvs))
           | JArr xs \<Rightarrow> Inr (JArr xs)
           | _ \<Rightarrow> Inl EngineTypeError))"

definition insertLink :: "'w platform \<Rightarrow> 'w \<Rightarrow> json option \<Rightarrow> string \<Rightarrow> error + json option" where
  "insertLink sys w dependencies extensionSymLink =
     (let resolvedPath = path_resolve sys [extensionSymLink, ''package.json''] in
      case require sys resolvedPath w of
        Inl e \<Rightarrow> Inl e
      | Inr extensionPackage \<Rightarrow>
      (case getProperty extensionPackage ''name'' of
        Inl e \<Rightarrow> Inl e
      | Inr extensionName \<Rightarrow>
      (case getProperty extensionPackage ''version'' of
        Inl e \<Rightarrow> Inl e
      | Inr extensionVersion \<Rightarrow>
      (case dependencies of
        None \<Rightarrow> Inl EngineTypeError
      | Some d \<Rightarrow>
      (case assignOptional d (propertyKey sys extensionName) extensionVersion of
        Inl e \<Rightarrow> Inl e
      | Inr d' \<Rightarrow> Inr (Some d'))))))"

fun insertLinks :: "'w platform \<Rightarrow> 'w \<Rightarrow> json option \<Rightarrow> string list \<Rightarrow> error + json option" where
  "insertLinks sys w dependencies [] = Inr dependencies"
| "insertLinks sys w dependencies (extensionSymLink # links) =
     (case insertLink sys w dependencies extensionSymLink of
        Inl e \<Rightarrow> Inl e
      | Inr dependencies' \<Rightarrow> insertLinks sys w dependencies' links)"

definition insertExtensionIntoAssembly :: "'w platform \<Rightarrow> InitSources \<Rightarrow> ISource \<Rightarrow> 'w state \<Rightarrow> (error + unit) \<times> 'w state" where
  "insertExtensionIntoAssembly sys this extension st =
     (let assemblyPackageJsonPath = path_join sys [assemblyFolder this, ''package.json''] in
      case require sys assemblyPackageJsonPath (world st) of
        Inl e \<Rightarrow> (Inl e, st)
      | Inr assemblyJsonRawContent \<Rightarrow>
      (case getProperty assemblyJsonRawContent ''dependencies'' of
        Inl e \<Rightarrow> (Inl e, st)
      | Inr dependencies \<Rightarrow>
      (case extSymbolicLinks extension of
        None \<Rightarrow> (Inl EngineTypeError, st)
      | Some links \<Rightarrow>
      (case insertLinks sys (world st) dependencies links of
        Inl e \<Rightarrow> (Inl e, st)
      | Inr dependencies' \<Rightarrow>
      (case (case dependencies' of
               None \<Rightarrow> Inr assemblyJsonRawContent
             | Some d \<Rightarrow> assignProperty assemblyJsonRawContent ''dependencies'' d) of
        Inl e \<Rightarrow> (Inl e, st)
      | Inr content \<Rightarrow>
          perform (WriteFile assemblyPackageJsonPath (JSON_stringify sys content))
            (fs_writeFile sys assemblyPackageJsonPath (JSON_stringify sys content)) st)))))"

subsection \<open>\<open>addExtension\<close>\<close>

definition addExtension :: "'w platform \<Rightarrow> InitSources \<Rightarrow> ISource \<Rightarrow> 'w state \<Rightarrow> (error + ISource) \<times> 'w state" where
  "addExtension sys this extension st =
     (let (extension0, st0) =
            (case whenNonEmpty (sourceLocationAliases this (source extension)) of
               None \<Rightarrow> (extension, st)
             | Some sourceAlias \<Rightarrow>
                 (extension\<lparr>source := sourceAlias\<rparr>,
                  issue (Logger_info (''Source alias detected for '' @ source extension
                           @ '', replacing with provided source: '' @ sourceAlias)) st))
      in case clone sys this extension0 st0 of
        (Inl e, st1) \<Rightarrow> (Inl e, st1)
      | (Inr extension1, st1) \<Rightarrow>
      (case symlink sys this extension1 st1 of
        (Inl e, st2) \<Rightarrow> (Inl e, st2)
      | (Inr extension2, st2) \<Rightarrow>
      (case updateDependencies sys this extension2 True st2 of
        (Inl e, st3) \<Rightarrow> (Inl e, st3)
      | (Inr u, st3) \<Rightarrow>
      (case insertExtensionIntoAssembly sys this extension2 st3 of
        (Inl e, st4) \<Rightarrow> (Inl e, st4)
      | (Inr u, st4) \<Rightarrow> pluginsSymlink sys this extension2 st4))))"

subsection \<open>\<open>updateTypescriptReferences\<close>\<close>

definition updateTypescriptReferencesOf :: "'w platform \<Rightarrow> (string \<times> json) list \<Rightarrow> string \<Rightarrow> 'w state \<Rightarrow> (error + unit) \<times> 'w state" where
  "updateTypescriptReferencesOf sys yarnWorkspaces symbolicLink st =
     (let extensionJsonPath = path_join sys [symbolicLink, ''package.json''] in
      case readPkg sys extensionJsonPath (world st) of
        Inl e \<Rightarrow> (Inl e, st)
      | Inr extensionPackage \<Rightarrow>
      (case getProperty extensionPackage ''dependencies'' of
        Inl e \<Rightarrow> (Inl e, st)
      | Inr dependencies \<Rightarrow>
          (let keysDependencies =
                 (case whenTruthy dependencies of
                    None \<Rightarrow> []
                  | Some d \<Rightarrow> map fst (ownProperties d))
           in perform (UpdateTypescriptReferencesFor symbolicLink keysDependencies)
                (updateTypescriptReferencesFor sys symbolicLink keysDependencies yarnWorkspaces) st)))"

definition updateTypescriptReferences :: "'w platform \<Rightarrow> (string \<times> json) list \<Rightarrow> ISource \<Rightarrow> 'w state \<Rightarrow> (error + unit) \<times> 'w state" where
  "updateTypescriptReferences sys yarnWorkspaces extension st =
     (case extSymbolicLinks extension of
        None \<Rightarrow> (Inl EngineTypeError, st)
      | Some links \<Rightarrow>
          (let (r, st') = Promise_all (updateTypescriptReferencesOf sys yarnWorkspaces) links st
           in (case r of Inl e \<Rightarrow> Inl e | Inr us \<Rightarrow> Inr (), st')))"

subsection \<open>\<open>generate\<close> and \<open>readConfigurationAndGenerate\<close>\<close>

text \<open>
  \<open>jsYaml.load\<close> gives the \<open>sources\<close> of the document, \<open>None\<close> when it has none: then
  \<open>extensionsYaml.sources.map\<close> throws, once the root manifest was read and the checkout
  folder ensured. The entries are started together; they are run here one after the
  other, and pushed onto \<open>this.extensions\<close> in that order.
\<close>

definition addSource :: "'w platform \<Rightarrow> InitSources \<Rightarrow> bool \<Rightarrow> ISource \<Rightarrow> 'w state \<Rightarrow> (error + ISource) \<times> 'w state" where
  "addSource sys this isDevMode extension st =
     addExtension sys this (if isDevMode then extension\<lparr>checkoutTo := Some ''main''\<rparr> else extension) st"

definition generate :: "'w platform \<Rightarrow> InitSources \<Rightarrow> string \<Rightarrow> bool \<Rightarrow> 'w state \<Rightarrow> (error + InitSources) \<times> 'w state" where
  "generate sys this extensionsPath isDevMode st =
     (case fs_readFile sys extensionsPath (world st) of
        Inl e \<Rightarrow> (Inl e, st)
      | Inr extensionsYamlContent \<Rightarrow>
      (case jsYaml_load sys extensionsYamlContent of
        Inl e \<Rightarrow> (Inl e, st)
      | Inr extensionsYaml \<Rightarrow>
      (case initGlobalDependencies sys this st of
        (Inl e, st1) \<Rightarrow> (Inl e, st1)
      | (Inr this1, st1) \<Rightarrow>
      (case perform (EnsureDir (cheTheiaFolder this1)) (fs_ensureDir sys (cheTheiaFolder this1)) st1 of
        (Inl e, st2) \<Rightarrow> (Inl e, st2)
      | (Inr u, st2) \<Rightarrow>
      (case extensionsYaml of
        None \<Rightarrow> (Inl EngineTypeError, st2)
      | Some sources \<Rightarrow>
      (case Promise_all (addSource sys this1 isDevMode) sources st2 of
        (Inl e, st3) \<Rightarrow> (Inl e, st3)
      | (Inr added, st3) \<Rightarrow>
      (let this2 = this1\<lparr>InitSources.extensions := InitSources.extensions this1 @ added\<rparr> in
       case getYarnWorkspaces sys this2 st3 of
        (Inl e, st4) \<Rightarrow> (Inl e, st4)
      | (Inr yarnWorkspaces, st4) \<Rightarrow>
      (case Promise_all (updateTypescriptReferences sys yarnWorkspaces) (InitSources.extensions this2) st4 of
        (Inl e, st5) \<Rightarrow> (Inl e, st5)
      | (Inr us, st5) \<Rightarrow>
      (case perform (UpdateRootTsConfigFile (rootFolder this2))
              (updateRootTsConfigFile sys (rootFolder this2)) st5 of
        (Inl e, st6) \<Rightarrow> (Inl e, st6)
      | (Inr u, st6) \<Rightarrow>
      (case perform (UpdateAssemblyTsConfigFile (rootFolder this2) (assemblyFolder this2))
              (updateAssemblyTsConfigFile sys (rootFolder this2) (assemblyFolder this2)) st6 of
        (Inl e, st7) \<Rightarrow> (Inl e, st7)
      | (Inr u, st7) \<Rightarrow> (Inr this2, st7)))))))))))"

text \<open>
  \<open>if (configPath)\<close> holds for a path that is given and is not the empty string; the
  resolved path is the one tested and read. Without a path the default list is downloaded
  into a temporary file first.
\<close>

definition readConfigurationAndGenerate :: "'w platform \<Rightarrow> InitSources \<Rightarrow> string option \<Rightarrow> bool \<Rightarrow> 'w state \<Rightarrow> (error + InitSources) \<times> 'w state" where
  "readConfigurationAndGenerate sys this configPath dev st =
     (case whenNonEmpty configPath of
        Some path \<Rightarrow>
          (let extensionsYamlPath = path_resolve sys [path] in
           if \<not> fs_existsSync sys (world st) extensionsYamlPath then
             (Inl (CliError ''Config file does not exists''), st)
           else generate sys this extensionsYamlPath dev st)
      | None \<Rightarrow>
        (let st0 = issue (Logger_debug ''Config wasn't provided, downloading default...'') st in
         case request TmpFileSync (tmp_fileSync sys) st0 of
           (Inl e, st1) \<Rightarrow> (Inl e, st1)
         | (Inr tmpFile, st1) \<Rightarrow>
         (case request (HttpGet DEFAULT_EXTENSIONS_URI) (axios_get sys DEFAULT_EXTENSIONS_URI) st1 of
           (Inl e, st2) \<Rightarrow> (Inl e, st2)
         | (Inr data, st2) \<Rightarrow>
         (case perform (WriteFile tmpFile data) (fs_writeFile sys tmpFile data) st2 of
           (Inl e, st3) \<Rightarrow> (Inl e, st3)
         | (Inr u, st3) \<Rightarrow> generate sys this tmpFile dev st3))))"

section \<open>The preferences provider\<close>

text \<open>
  \<open>PreferencesProvider\<close> runs in the browser and works through three injected services.
  \<open>DevfileService\<close> gives the devfile and the component statuses, of which the provider
  reads the fields below. \<open>PreferenceServiceImpl\<close> is read with \<open>has\<close> and written with
  \<open>set\<close>; its state is a value of type \<open>'p\<close> of which nothing is assumed.
  \<open>workspaceService.roots\<close> is a promise that may reject.
\<close>

record Plugin =
  preferences :: "json option"

record Component =
  plugin :: "Plugin option"
  attributes :: "json option"

record EnvVar =
  name :: string
  "value" :: string

record ComponentStatus =
  name :: string
  env :: "EnvVar list option"

record Devfile =
  components :: "Component list option"

datatype PreferenceScope = Default | User | Workspace | Folder

record 'p services =
  devfileService_get :: "'p \<Rightarrow> error + Devfile"
  devfileService_getComponentStatuses :: "'p \<Rightarrow> error + ComponentStatus option list"
  preferenceService_has :: "'p \<Rightarrow> string \<Rightarrow> bool"
  preferenceService_set :: "string \<Rightarrow> json \<Rightarrow> PreferenceScope \<Rightarrow> 'p \<Rightarrow> 'p"
  workspaceService_roots :: "'p \<Rightarrow> error option"
  parse :: "string \<Rightarrow> json option"
  stringOf :: "json \<Rightarrow> string"

datatype notice =
    Console_error string
  | Console_warn string json
  | PreferenceSet string json PreferenceScope

record 'p page =
  preferenceState :: 'p
  notices :: "notice list"

definition report :: "notice \<Rightarrow> 'p page \<Rightarrow> 'p page" where
  "report n st = st\<lparr>notices := notices st @ [n]\<rparr>"

subsection \<open>\<open>getPluginsProperties\<close>\<close>

definition VSCODE_PREFERENCES :: string where
  "VSCODE_PREFERENCES = ''che-theia.eclipse.org/vscode-preferences''"

definition SIDECAR_PREFERENCES :: string where
  "SIDECAR_PREFERENCES = ''CHE_THEIA_SIDECAR_PREFERENCES''"

definition devfilePluginPreference :: "Component \<Rightarrow> json" where
  "devfilePluginPreference component =
     (case plugin component of
        Some p \<Rightarrow> orEmptyObject (preferences p)
      | None \<Rightarrow> JObj [])"

definition preferencesAttribute :: "Component \<Rightarrow> json" where
  "preferencesAttribute component =
     orEmptyObject (lookupProperty (orEmptyObject (attributes component)) VSCODE_PREFERENCES)"

text \<open>\<open>Object.assign(target, ...sources)\<close> on sources that are not \<open>null\<close>.\<close>

definition Object_assign :: "(string \<times> json) list \<Rightarrow> json list \<Rightarrow> (string \<times> json) list" where
  "Object_assign target sources =
     foldl (\<lambda>t src. foldl (\<lambda>t' (key, v). assign t' key v) t (ownProperties src)) target sources"

text \<open>
  The \<open>reduce\<close> that turns a list of preference objects into pairs:
  \<open>Object.keys(preferences).forEach(key => result.push([key, preferences[key]]))\<close>.
\<close>

fun toPairs :: "(string \<times> json) list \<Rightarrow> json list \<Rightarrow> error + (string \<times> json) list" where
  "toPairs result [] = Inr result"
| "toPairs result (prefs # rest) =
     (case Object_entries (Some prefs) of
        Inl e \<Rightarrow> Inl e
      | Inr entries \<Rightarrow> toPairs (result @ entries) rest)"

text \<open>
  The callback of one component status: the value of its \<open>CHE_THEIA_SIDECAR_PREFERENCES\<close>
  variable, parsed; \<open>{}\<close> when there is no status, no \<open>env\<close>, no such variable, or when the
  value does not parse, which is reported on the console.
\<close>

definition componentStatusPreference :: "'p services \<Rightarrow> ComponentStatus option \<Rightarrow> 'p page \<Rightarrow> json \<times> 'p page" where
  "componentStatusPreference sv componentStatus st =
     (case componentStatus of
        None \<Rightarrow> (JObj [], st)
      | Some status \<Rightarrow>
      (case env status of
        None \<Rightarrow> (JObj [], st)
      | Some vars \<Rightarrow>
      (case find (\<lambda>e. EnvVar.name e = SIDECAR_PREFERENCES) vars of
        None \<Rightarrow> (JObj [], st)
      | Some preferencesEnv \<Rightarrow>
      (case parse sv (value preferencesEnv) of
        Some v \<Rightarrow> (v, st)
      | None \<Rightarrow>
          (JObj [],
           report (Console_error (''Ignoring invalid JSON value '' @ [CHR 0x27] @ value preferencesEnv
                   @ [CHR 0x27] @ '' from component '' @ ComponentStatus.name status
                   @ '' for ENV=CHE_THEIA_SIDECAR_PREFERENCES'')) st)))))"

fun componentStatusPreferences :: "'p services \<Rightarrow> ComponentStatus option list \<Rightarrow> 'p page \<Rightarrow> json list \<times> 'p page" where
  "componentStatusPreferences sv [] st = ([], st)"
| "componentStatusPreferences sv (componentStatus # rest) st =
     (let (v, st1) = componentStatusPreference sv componentStatus st;
          (vs, st2) = componentStatusPreferences sv rest st1
      in (v # vs, st2))"

definition noComponents :: error where
  "noComponents = TypeError ''Can't get \"components\" of current workspace \"devfile\" section.''"

definition getPluginsProperties :: "'p services \<Rightarrow> 'p page \<Rightarrow> (error + (string \<times> json) list) \<times> 'p page" where
  "getPluginsProperties sv st =
     (case devfileService_get sv (preferenceState st) of
        Inl e \<Rightarrow> (Inl e, st)
      | Inr devfile \<Rightarrow>
      (case devfileService_getComponentStatuses sv (preferenceState st) of
        Inl e \<Rightarrow> (Inl e, st)
      | Inr componentStatuses \<Rightarrow>
      (case components devfile of
        None \<Rightarrow> (Inl noComponents, st)
      | Some cs \<Rightarrow>
          (let devfilePluginPreferences = map devfilePluginPreference cs;
               preferencesAttributes = map preferencesAttribute cs;
               mergedPreferences = Object_assign [] preferencesAttributes
           in if length mergedPreferences > 0 then (toPairs [] preferencesAttributes, st)
              else
                (let (statusPreferences, st1) = componentStatusPreferences sv componentStatuses st
                 in (toPairs [] (devfilePluginPreferences @ statusPreferences), st1))))))"

subsection \<open>\<open>setPluginProperties\<close>, \<open>setPreferenceValue\<close>, \<open>restorePluginProperties\<close>\<close>

text \<open>
  \<open>setPreferenceValue\<close> is called without \<open>await\<close>: it tests \<open>has\<close> and starts \<open>set\<close> before
  it returns its promise, and a rejection of that promise reaches nobody. Only
  \<open>JSON.parse\<close> can throw inside the \<open>try\<close>. The effect of a \<open>set\<close> on the service is
  applied when it is started; each \<open>set\<close> is recorded with its key, value and scope.
  \<open>parse\<close> is \<open>JSON.parse\<close>, and \<open>stringOf\<close> the conversion to a string that \<open>JSON.parse\<close>
  applies to an argument that is no string.
\<close>

definition setPreferenceValue :: "'p services \<Rightarrow> string \<Rightarrow> json \<Rightarrow> 'p page \<Rightarrow> 'p page" where
  "setPreferenceValue sv key v st =
     (if \<not> preferenceService_has sv (preferenceState st) key then
        (report (PreferenceSet key v Workspace) st)
          \<lparr>preferenceState := preferenceService_set sv key v Workspace (preferenceState st)\<rparr>
      else st)"

definition setPluginProperty :: "'p services \<Rightarrow> 'p page \<Rightarrow> string \<times> json \<Rightarrow> 'p page" where
  "setPluginProperty sv st prop =
     (case prop of (key, v) \<Rightarrow>
       (case parse sv (case v of JStr s \<Rightarrow> s | _ \<Rightarrow> stringOf sv v) of
          Some parsed \<Rightarrow> setPreferenceValue sv key parsed st
        | None \<Rightarrow> setPreferenceValue sv key v (report (Console_warn key v) st)))"

definition setPluginProperties :: "'p services \<Rightarrow> (string \<times> json) list \<Rightarrow> 'p page \<Rightarrow> (error + unit) \<times> 'p page" where
  "setPluginProperties sv props st =
     (case workspaceService_roots sv (preferenceState st) of
        Some e \<Rightarrow> (Inl e, st)
      | None \<Rightarrow> (Inr (), foldl (setPluginProperty sv) st props))"

definition restorePluginProperties :: "'p services \<Rightarrow> 'p page \<Rightarrow> (error + unit) \<times> 'p page" where
  "restorePluginProperties sv st =
     (case getPluginsProperties sv st of
        (Inl e, st1) \<Rightarrow> (Inl e, st1)
      | (Inr propsTuples, st1) \<Rightarrow> setPluginProperties sv propsTuples st1)"

text \<open>
  The payload of a component status, as the provider looks it up: the value of its
  \<open>CHE_THEIA_SIDECAR_PREFERENCES\<close> variable, if the status, its \<open>env\<close> and the variable are
  there; what the payload parses to; and the message of the console for a payload that
  does not parse. They state what \<open>getPluginsProperties\<close> is compared with below.
\<close>

definition sidecarPayload :: "ComponentStatus option \<Rightarrow> EnvVar option" where
  "sidecarPayload componentStatus =
     (case componentStatus of
        None \<Rightarrow> None
      | Some status \<Rightarrow>
          (case env status of
             None \<Rightarrow> None
           | Some vars \<Rightarrow> find (\<lambda>e. EnvVar.name e = SIDECAR_PREFERENCES) vars))"

definition parsedPayload :: "'p services \<Rightarrow> ComponentStatus option \<Rightarrow> json option" where
  "parsedPayload sv componentStatus =
     (case sidecarPayload componentStatus of
        None \<Rightarrow> None
      | Some preferencesEnv \<Rightarrow> parse sv (value preferencesEnv))"

definition invalidPayloadMessage :: "'p services \<Rightarrow> ComponentStatus option \<Rightarrow> string option" where
  "invalidPayloadMessage sv componentStatus =
     (case sidecarPayload componentStatus of
        None \<Rightarrow> None
      | Some preferencesEnv \<Rightarrow>
          (case parse sv (value preferencesEnv) of
             Some v \<Rightarrow> None
           | None \<Rightarrow>
               Some (''Ignoring invalid JSON value '' @ [CHR 0x27] @ value preferencesEnv
                     @ [CHR 0x27] @ '' from component ''
                     @ (case componentStatus of Some status \<Rightarrow> ComponentStatus.name status | None \<Rightarrow> [])
                     @ '' for ENV=CHE_THEIA_SIDECAR_PREFERENCES'')))"

section \<open>A platform to evaluate the code on\<close>

text \<open>
  The resolver of the repository's tests: platform version \<open>1.2.3\<close>, no alias, and the
  build-time dependencies of the test root manifest.
\<close>

definition testResolver :: InitSources where
  "testResolver =
     \<lparr>rootFolder = ''/tmp/tmpExtensions'',
      packagesFolder = ''/tmp/tmpExtensions/packages'',
      pluginsFolder = ''/tmp/tmpExtensions/plugins'',
      cheTheiaFolder = ''/tmp/tmpExtensions/che-theia'',
      assemblyFolder = ''/tmp/tmpExtensions/assembly'',
      theiaVersion = ''1.2.3'',
      sourceLocationAliases = Map.empty,
      globalDevDependencies = [''rimraf'' \<mapsto> JStr ''5.6.7''],
      keepHistory = True,
      extensions = []\<rparr>"

text \<open>
  The printer of the platform: \<open>JSON.stringify(v, undefined, 2)\<close>. A string is quoted,
  with the double quote, the backslash and the control characters escaped; an object or
  array that is not empty has one member per line, indented by two more spaces than the
  line it opens on, and \<open>": "\<close> between a name and its value; \<open>-0\<close> is written \<open>0\<close> and
  an infinite number \<open>null\<close>. A finite number is written in decimal when it is a whole number of
  magnitude at most \<open>2^53\<close>; the examples have no other number, and the printer writes
  \<open>null\<close> for one.
\<close>

definition hexDigit :: "nat \<Rightarrow> char" where
  "hexDigit d = ''0123456789abcdef'' ! d"

definition quoteChar :: "char \<Rightarrow> string" where
  "quoteChar c =
     (if c = CHR 0x22 then [CHR 0x5C, CHR 0x22]
      else if c = CHR 0x5C then [CHR 0x5C, CHR 0x5C]
      else if c = CHR 0x08 then [CHR 0x5C, CHR ''b'']
      else if c = CHR 0x0C then [CHR 0x5C, CHR ''f'']
      else if c = CHR 0x0A then [CHR 0x5C, CHR ''n'']
      else if c = CHR 0x0D then [CHR 0x5C, CHR ''r'']
      else if c = CHR 0x09 then [CHR 0x5C, CHR ''t'']
      else if (of_char c :: nat) < 32 then
        [CHR 0x5C, CHR ''u'', CHR ''0'', CHR ''0'',
         hexDigit ((of_char c :: nat) div 16), hexDigit ((of_char c :: nat) mod 16)]
      else [c])"

definition quote :: "string \<Rightarrow> string" where
  "quote s = [CHR 0x22] @ concat (map quoteChar s) @ [CHR 0x22]"

definition numberText :: "rat \<Rightarrow> string" where
  "numberText q =
     (case quotient_of q of
        (n, d) \<Rightarrow>
          if d = 1 \<and> \<bar>n\<bar> \<le> 9007199254740992
          then (if n < 0 then ''-'' else []) @ decimal (nat \<bar>n\<bar>)
          else ''null'')"

fun joinWith :: "string \<Rightarrow> string list \<Rightarrow> string" where
  "joinWith separator [] = []"
| "joinWith separator [x] = x"
| "joinWith separator (x # y # ys) = x @ separator @ joinWith separator (y # ys)"

fun stringify :: "string \<Rightarrow> json \<Rightarrow> string"
  and stringifyElements :: "string \<Rightarrow> json list \<Rightarrow> string list"
  and stringifyMembers :: "string \<Rightarrow> (string \<times> json) list \<Rightarrow> string list" where
  "stringify indent JNull = ''null''"
| "stringify indent (JBool b) = (if b then ''true'' else ''false'')"
| "stringify indent (JNum q) = numberText q"
| "stringify indent JNegativeZero = ''0''"
| "stringify indent JInfinity = ''null''"
| "stringify indent JNegativeInfinity = ''null''"
| "stringify indent (JStr s) = quote s"
| "stringify indent (JArr xs) =
     (if xs = [] then ''[]''
      else ''['' @ [CHR 0x0A] @ indent @ ''  ''
           @ joinWith ('','' @ [CHR 0x0A] @ indent @ ''  '') (stringifyElements (indent @ ''  '') xs)
           @ [CHR 0x0A] @ indent @ '']'')"
| "stringify indent (JObj kvs) =
     (if kvs = [] then ''{}''
      else ''{'' @ [CHR 0x0A] @ indent @ ''  ''
           @ joinWith ('','' @ [CHR 0x0A] @ indent @ ''  '') (stringifyMembers (indent @ ''  '') kvs)
           @ [CHR 0x0A] @ indent @ ''}'')"
| "stringifyElements indent [] = []"
| "stringifyElements indent (x # xs) = stringify indent x # stringifyElements indent xs"
| "stringifyMembers indent [] = []"
| "stringifyMembers indent ((k, v) # kvs) =
     (quote k @ '': '' @ stringify indent v) # stringifyMembers indent kvs"

text \<open>
  A checkout at \<open>/work/che-theia\<close> with two extension folders and one plugin folder, as
  the source entry of the tests has them. The manifest of the first folder is written
  the way the printer writes; the manifest of the second is on one line and has
  neither \<open>dependencies\<close> nor \<open>devDependencies\<close>.
\<close>

definition folder1Text :: string where
  "folder1Text =
     ''{\<newline>  \"name\": \"@che-theia/sample1\",\<newline>  \"version\": \"0.1.2\",\<newline>  \"license\": \"EPL-2.0\",\<newline>  \"dependencies\": {\<newline>    \"@theia/core\": \"0.3.0\",\<newline>    \"rimraf\": \"2.0.0\",\<newline>    \"left-pad\": \"1.3.0\"\<newline>  },\<newline>  \"scripts\": {\<newline>    \"build\": \"tsc\"\<newline>  }\<newline>}\<newline>''"

definition folder1Manifest :: json where
  "folder1Manifest =
     JObj [(''name'', JStr ''@che-theia/sample1''),
           (''version'', JStr ''0.1.2''),
           (''license'', JStr ''EPL-2.0''),
           (''dependencies'', JObj [(''@theia/core'', JStr ''0.3.0''), (''rimraf'', JStr ''2.0.0''), (''left-pad'', JStr ''1.3.0'')]),
           (''scripts'', JObj [(''build'', JStr ''tsc'')])]"

definition folder2Text :: string where
  "folder2Text = ''{\"name\":\"@che-theia/sample2\",\"version\":\"6.7.8\"}''"

definition folder2Manifest :: json where
  "folder2Manifest = JObj [(''name'', JStr ''@che-theia/sample2''), (''version'', JStr ''6.7.8'')]"

text \<open>
  The texts of the two manifests once rewritten by the test resolver: the printed object
  followed by a line feed.
\<close>

definition folder1Rewritten :: string where
  "folder1Rewritten =
     ''{\<newline>  \"name\": \"@che-theia/sample1\",\<newline>  \"version\": \"0.1.2\",\<newline>  \"license\": \"EPL-2.0\",\<newline>  \"dependencies\": {\<newline>    \"@theia/core\": \"^1.2.3\",\<newline>    \"rimraf\": \"5.6.7\",\<newline>    \"left-pad\": \"1.3.0\"\<newline>  },\<newline>  \"scripts\": {\<newline>    \"build\": \"tsc\"\<newline>  },\<newline>  \"devDependencies\": {}\<newline>}\<newline>''"

definition folder2Rewritten :: string where
  "folder2Rewritten =
     ''{\<newline>  \"name\": \"@che-theia/sample2\",\<newline>  \"version\": \"6.7.8\",\<newline>  \"dependencies\": {},\<newline>  \"devDependencies\": {}\<newline>}\<newline>''"

text \<open>
  A small disk: the paths that exist, the text of the files, and what
  \<open>yarn workspaces info\<close> prints. Paths are joined with \<open>/\<close>. The parser knows the few
  texts of the examples, and the two manifests; a manifest is read by parsing the text of
  its file, and a file that is written has the text that was written. A link is made at
  a path where nothing is.
\<close>

record disk =
  present :: "string list"
  files :: "(string \<times> string) list"
  yarnOutput :: string

definition joinSegments :: "string list \<Rightarrow> string" where
  "joinSegments segments =
     (case segments of [] \<Rightarrow> ''.'' | s # ss \<Rightarrow> foldl (\<lambda>a b. a @ ''/'' @ b) s ss)"

definition lastSegment :: "string \<Rightarrow> string" where
  "lastSegment path = rev (takeWhile (\<lambda>c. c \<noteq> CHR ''/'') (rev path))"

definition workspacesText :: string where
  "workspacesText = ''{\"@theia/core\":{\"location\":\"packages/core\"}}''"

definition sampleParse :: "string \<Rightarrow> json option" where
  "sampleParse text =
     map_of
       [(''{}'', JObj []),
        (''12'', JNum 12),
        (''{\"editor.tabSize\":\"12\"}'', JObj [(''editor.tabSize'', JStr ''12'')]),
        (workspacesText, JObj [(''@theia/core'', JObj [(''location'', JStr ''packages/core'')])]),
        (''{\"type\":\"log\",\"data\":\"{}\"}'', JObj [(''type'', JStr ''log''), (''data'', JStr ''{}'')]),
        (''{\"type\":\"log\",\"data\":\"...\"}'', JObj [(''type'', JStr ''log''), (''data'', JStr workspacesText)])]
       text"

definition manifestParse :: "string \<Rightarrow> json option" where
  "manifestParse text = map_of [(folder1Text, folder1Manifest), (folder2Text, folder2Manifest)] text"

definition readManifest :: "string \<Rightarrow> disk \<Rightarrow> error + json" where
  "readManifest path d =
     (case map_of (files d) path of
        None \<Rightarrow> Inl (ExternalError ''ENOENT'')
      | Some text \<Rightarrow>
          (case manifestParse text of
             None \<Rightarrow> Inl EngineSyntaxError
           | Some v \<Rightarrow> Inr v))"

definition readText :: "string \<Rightarrow> disk \<Rightarrow> error + string" where
  "readText path d =
     (case map_of (files d) path of
        None \<Rightarrow> Inl (ExternalError ''ENOENT'')
      | Some text \<Rightarrow> Inr text)"

definition writeText :: "string \<Rightarrow> string \<Rightarrow> disk \<Rightarrow> error option \<times> disk" where
  "writeText path content d =
     (None, d\<lparr>present := path # present d, files := (path, content) # files d\<rparr>)"

definition makeLink :: "string \<Rightarrow> string \<Rightarrow> disk \<Rightarrow> error option \<times> disk" where
  "makeLink src dest d =
     (if dest \<in> set (present d) then (Some (ExternalError ''EEXIST''), d)
      else (None, d\<lparr>present := dest # present d\<rparr>))"

definition testPlatform :: "disk platform" where
  "testPlatform =
     \<lparr>path_resolve = joinSegments,
      path_join = joinSegments,
      path_basename = lastSegment,
      fs_existsSync = (\<lambda>d path. path \<in> set (present d)),
      fs_ensureSymlink = makeLink,
      fs_ensureDir = (\<lambda>path d. (None, d\<lparr>present := path # present d\<rparr>)),
      fs_readFile = readText,
      fs_writeFile = writeText,
      readPkg = readManifest,
      require = readManifest,
      Repository_clone = (\<lambda>src folder ref keep d. (Inl (ExternalError ''Network Error''), d)),
      cp_execSync = (\<lambda>command cwd d. (Inr (yarnOutput d), d)),
      tmp_fileSync = (\<lambda>d. (Inr ''/tmp/tmp-1'', d\<lparr>present := ''/tmp/tmp-1'' # present d\<rparr>)),
      axios_get = (\<lambda>uri d. (Inl (ExternalError ''Network Error''), d)),
      jsYaml_load = (\<lambda>text. Inr None),
      JSON_parse = sampleParse,
      JSON_stringify = stringify [],
      String_of = (\<lambda>v. ''?''),
      os_EOL = [CHR 0x0A],
      completionOrder = rev,
      updateTypescriptReferencesFor = (\<lambda>link keys yarnWorkspaces d. (None, d)),
      updateRootTsConfigFile = (\<lambda>root d. (None, d)),
      updateAssemblyTsConfigFile = (\<lambda>root assembly d. (None, d))\<rparr>"

definition testDisk :: disk where
  "testDisk =
     \<lparr>present = [''/work/che-theia''],
      files =
        [(''/tmp/tmpExtensions/packages/@che-folder1/package.json'', folder1Text),
         (''/tmp/tmpExtensions/packages/@che-folder2/package.json'', folder2Text)],
      yarnOutput = ''{\"type\":\"log\",\"data\":\"...\"}''\<rparr>"

definition testState :: "disk state" where
  "testState = \<lparr>world = testDisk, calls = []\<rparr>"

definition testSource :: ISource where
  "testSource =
     \<lparr>source = ''/work/che-theia'',
      checkoutTo = None,
      type = None,
      extensions = Some [''folder1'', ''folder2''],
      plugins = Some [''plugin-folder1''],
      clonedDir = None,
      extSymbolicLinks = None,
      pluginSymbolicLinks = None\<rparr>"

text \<open>
  A workspace whose devfile has one plugin with a preference and whose component
  statuses carry a payload that parses, one that does not, and none. The preference
  service is the list of the preferences it has; \<open>editor.fontSize\<close> is set already.
\<close>

definition testComponents :: "Component list" where
  "testComponents =
     [\<lparr>plugin = Some \<lparr>preferences = Some (JObj [(''java.home'', JStr ''/usr/lib/jvm'')])\<rparr>,
       attributes = None\<rparr>]"

definition testStatuses :: "ComponentStatus option list" where
  "testStatuses =
     [Some \<lparr>name = ''theia-ide'',
            env = Some [\<lparr>EnvVar.name = ''CHE_THEIA_SIDECAR_PREFERENCES'', value = ''{\"editor.tabSize\":\"12\"}''\<rparr>]\<rparr>,
      Some \<lparr>name = ''java'',
            env = Some [\<lparr>EnvVar.name = ''CHE_THEIA_SIDECAR_PREFERENCES'', value = ''{editor''\<rparr>]\<rparr>,
      None]"

definition testServices :: "(string \<times> json) list services" where
  "testServices =
     \<lparr>devfileService_get = (\<lambda>p. Inr \<lparr>components = Some testComponents\<rparr>),
      devfileService_getComponentStatuses = (\<lambda>p. Inr testStatuses),
      preferenceService_has = (\<lambda>p key. map_of p key \<noteq> None),
      preferenceService_set = (\<lambda>key v scope p. p @ [(key, v)]),
      workspaceService_roots = (\<lambda>p. None),
      parse = sampleParse,
      stringOf = (\<lambda>v. ''?'')\<rparr>"

definition testPage :: "(string \<times> json) list page" where
  "testPage = \<lparr>preferenceState = [(''editor.fontSize'', JNum 14)], notices = []\<rparr>"

section \<open>Dependency rewriting: the precedence of the rules\<close>

lemma updateDependency_global:
  assumes "globalDevDependencies this dependencyKey = Some rest" and "truthy rest"
  shows "updateDependency this dependencyKey dependencyValue = rest"
  using assms by (simp add: updateDependency_def whenTruthy_def)

lemma updateDependency_platform:
  assumes "whenTruthy (globalDevDependencies this dependencyKey) = None"
    and "startsWith dependencyKey ''@theia/''"
  shows "updateDependency this dependencyKey dependencyValue = JStr (''^'' @ theiaVersion this)"
  using assms by (simp add: updateDependency_def)

lemma updateDependency_unchanged:
  assumes "whenTruthy (globalDevDependencies this dependencyKey) = None"
    and "\<not> startsWith dependencyKey ''@theia/''"
  shows "updateDependency this dependencyKey dependencyValue = dependencyValue"
  using assms by (simp add: updateDependency_def)

lemma updateDependency_global_wins:
  "updateDependency (testResolver\<lparr>globalDevDependencies := [''@theia/core'' \<mapsto> JStr ''1.0.0'']\<rparr>)
     ''@theia/core'' (JStr ''0.3.0'') = JStr ''1.0.0''"
  by (simp add: updateDependency_def testResolver_def whenTruthy_def)

text \<open>
  C1. The precedence chain (global set, then the \<open>@theia/\<close> prefix, then the declared
  version) holds whenever the value the global set has for the name is truthy, by the three
  lemmas above. The claim makes the first rule apply to every key of the global set. The
  code tests the value, not the presence of the key: for a root manifest that declares a
  build-time dependency with the empty version string, the name is a key of the set and
  the result is not the set's value. It is the declared version for \<open>rimraf\<close>, and the
  caret range on the platform version for \<open>@theia/core\<close>.
\<close>

theorem updateDependency_empty_global_version:
  "updateDependency (testResolver\<lparr>globalDevDependencies := [''rimraf'' \<mapsto> JStr '''']\<rparr>)
     ''rimraf'' (JStr ''2.0.0'') = JStr ''2.0.0''
   \<and> updateDependency (testResolver\<lparr>globalDevDependencies := [''@theia/core'' \<mapsto> JStr '''']\<rparr>)
     ''@theia/core'' (JStr ''0.3.0'') = JStr ''^1.2.3''"
  by (simp add: updateDependency_def testResolver_def whenTruthy_def startsWith_def)

section \<open>Source location aliases\<close>

lemma indexOfFrom_absent:
  "CHR ''='' \<notin> set s \<Longrightarrow> indexOfFrom i s ''='' = - 1"
  by (induction s arbitrary: i) auto

lemma indexOfFrom_first:
  "CHR ''='' \<notin> set key \<Longrightarrow> indexOfFrom i (key @ CHR ''='' # rest) ''='' = int (i + length key)"
  by (induction key arbitrary: i) auto

text \<open>An override with a key that is not empty is split at its first \<open>=\<close>.\<close>

lemma addAlias_separated:
  assumes "CHR ''='' \<notin> set key" and "key \<noteq> []"
  shows "addAlias aliases (key @ ''='' @ v) = aliases(key \<mapsto> v)"
proof -
  have i: "indexOf (key @ ''='' @ v) ''='' = int (length key)"
    using assms(1) by (simp add: indexOf_def indexOfFrom_first)
  have nz: "int (length key) \<noteq> 0" using assms(2) by simp
  have k: "substring (key @ ''='' @ v) 0 (int (length key)) = key"
    by (simp add: substring_def clampIndex_def)
  have n: "nat (int (length key) + 1) = Suc (length key)" by simp
  have w: "substring (key @ ''='' @ v) (int (length key) + 1) (int (length (key @ ''='' @ v))) = v"
    by (simp add: substring_def clampIndex_def n)
  show ?thesis
    unfolding addAlias_def i using nz k w by (simp add: Let_def)
qed

text \<open>An override without separator is stored whole, under the empty key.\<close>

lemma addAlias_no_separator:
  assumes "CHR ''='' \<notin> set element"
  shows "addAlias aliases element = aliases([] \<mapsto> element)"
proof -
  have i: "indexOf element ''='' = - 1"
    using assms by (simp add: indexOf_def indexOfFrom_absent)
  show ?thesis
    unfolding addAlias_def i by (simp add: Let_def substring_def clampIndex_def)
qed

text \<open>An override that starts with the separator is dropped.\<close>

lemma addAlias_separator_first:
  "addAlias aliases (''='' @ v) = aliases"
  by (simp add: addAlias_def indexOf_def)

lemma initSourceLocationAliases_test_overrides:
  "map (sourceLocationAliases
          (initSourceLocationAliases
             (Some [''https://github.com/eclipse-che/che-theia=../che-theia'', ''key1=value1''])
             testResolver))
     [''https://github.com/eclipse-che/che-theia'', ''key1'', ''test'']
   = [Some ''../che-theia'', Some ''value1'', None]"
  by (simp add: initSourceLocationAliases_def testResolver_def addAlias_def indexOf_def
      substring_def clampIndex_def)

text \<open>
  C2. The claim: an override string without \<open>=\<close> leaves the alias map unchanged, and
  every string \<open>key=value\<close> is split at the first \<open>=\<close> and added. The code at the override
  \<open>abc\<close>, on a resolver that has no alias: \<open>indexOf\<close> gives \<open>-1\<close>, which is truthy, and the
  map gains the entry from the empty key to \<open>abc\<close>. At the override \<open>=abc\<close>, with its
  separator first, \<open>indexOf\<close> gives \<open>0\<close> and nothing is added.
\<close>

theorem initSourceLocationAliases_without_separator:
  "sourceLocationAliases (initSourceLocationAliases (Some [''abc'']) testResolver) = [[] \<mapsto> ''abc'']
   \<and> sourceLocationAliases (initSourceLocationAliases (Some [''=abc'']) testResolver) = Map.empty"
  by (simp add: initSourceLocationAliases_def testResolver_def addAlias_def indexOf_def
      substring_def clampIndex_def)

section \<open>Cloning\<close>

lemma calls_issue: "calls (issue c st) = calls st @ [c]"
  by (simp add: issue_def)

lemma world_issue: "world (issue c st) = world st"
  by (simp add: issue_def)

text \<open>
  C5. When the locator of an entry is an existing path, \<open>clone\<close> succeeds, sets \<open>clonedDir\<close>
  to that path, leaves the world as it was and issues no network call (it only logs);
  a second call, on the same entry or on any entry with the same locator, gives the same
  directory, again without a network call.
\<close>

theorem clone_existing_local_path:
  assumes "fs_existsSync sys (world st) (source extension)"
    and "source other = source extension"
  shows "\<exists>st1 st2.
           clone sys this extension st = (Inr (extension\<lparr>clonedDir := Some (source extension)\<rparr>), st1)
         \<and> clone sys this other st1 = (Inr (other\<lparr>clonedDir := Some (source extension)\<rparr>), st2)
         \<and> world st1 = world st \<and> world st2 = world st
         \<and> filter isNetworkCall (calls st1) = filter isNetworkCall (calls st)
         \<and> filter isNetworkCall (calls st2) = filter isNetworkCall (calls st)"
  using assms
  by (simp add: clone_def calls_issue world_issue isNetworkCall_def)

theorem clone_existing_local_path_witness:
  "fs_existsSync testPlatform (world testState) (source testSource)
   \<and> (\<exists>st1 st2.
         clone testPlatform testResolver testSource testState
           = (Inr (testSource\<lparr>clonedDir := Some ''/work/che-theia''\<rparr>), st1)
       \<and> clone testPlatform testResolver testSource st1
           = (Inr (testSource\<lparr>clonedDir := Some ''/work/che-theia''\<rparr>), st2)
       \<and> world st1 = world testState \<and> world st2 = world testState
       \<and> filter isNetworkCall (calls st1) = filter isNetworkCall (calls testState)
       \<and> filter isNetworkCall (calls st2) = filter isNetworkCall (calls testState))"
proof -
  have h: "fs_existsSync testPlatform (world testState) (source testSource)"
    by (simp add: testPlatform_def testState_def testDisk_def testSource_def)
  have s: "source testSource = ''/work/che-theia''"
    by (simp add: testSource_def)
  from clone_existing_local_path [OF h refl, of testResolver] h s show ?thesis
    by simp
qed

section \<open>A configuration path that does not exist\<close>

text \<open>
  C8. When a configuration path is given (a string that is not empty, which is what
  \<open>if (configPath)\<close> tests) and the resolved path does not exist,
  \<open>readConfigurationAndGenerate\<close> throws \<open>CliError('Config file does not exists')\<close> with
  the world untouched and no call issued: nothing is logged, downloaded, linked or written,
  and \<open>generate\<close> is not started.
\<close>

theorem readConfigurationAndGenerate_missing_config:
  assumes "configPath = Some p" and "p \<noteq> []"
    and "\<not> fs_existsSync sys (world st) (path_resolve sys [p])"
  shows "readConfigurationAndGenerate sys this configPath dev st
           = (Inl (CliError ''Config file does not exists''), st)"
  using assms by (simp add: readConfigurationAndGenerate_def whenNonEmpty_def)

theorem readConfigurationAndGenerate_missing_config_witness:
  "''some/path/foo/bar.yaml'' \<noteq> []
   \<and> \<not> fs_existsSync testPlatform (world testState) (path_resolve testPlatform [''some/path/foo/bar.yaml''])
   \<and> readConfigurationAndGenerate testPlatform testResolver (Some ''some/path/foo/bar.yaml'') False testState
       = (Inl (CliError ''Config file does not exists''), testState)"
proof -
  have n: "''some/path/foo/bar.yaml'' \<noteq> []" by simp
  have h: "\<not> fs_existsSync testPlatform (world testState) (path_resolve testPlatform [''some/path/foo/bar.yaml''])"
    by (simp add: testPlatform_def testState_def testDisk_def joinSegments_def)
  from readConfigurationAndGenerate_missing_config [OF refl n h, of testResolver False] n h
  show ?thesis by simp
qed

section \<open>Workspace links\<close>

text \<open>
  What \<open>Promise.all\<close> over a list of callbacks issues, does to the world and returns.
\<close>

lemma mapAsync_calls:
  assumes "\<And>x st. calls (snd (f x st)) = calls st @ g x"
  shows "calls (snd (mapAsync f xs st)) = calls st @ concat (map g xs)"
proof (induction xs arbitrary: st)
  case Nil
  show ?case by simp
next
  case (Cons x xs)
  obtain r st1 where s1: "f x st = (r, st1)" by (cases "f x st")
  obtain rs st2 where s2: "mapAsync f xs st1 = (rs, st2)" by (cases "mapAsync f xs st1")
  have "calls st1 = calls st @ g x" using assms [of x st] s1 by simp
  moreover have "calls st2 = calls st1 @ concat (map g xs)" using Cons.IH [of st1] s2 by simp
  ultimately show ?case using s1 s2 by simp
qed

lemma mapAsync_results:
  assumes "\<And>x st v. fst (f x st) = Inr v \<Longrightarrow> v = h x"
    and "allResults (fst (mapAsync f xs st)) = Inr vs"
  shows "vs = map h xs"
  using assms(2)
proof (induction xs arbitrary: st vs)
  case Nil
  then show ?case by simp
next
  case (Cons x xs)
  obtain r st1 where s1: "f x st = (r, st1)" by (cases "f x st")
  obtain rs st2 where s2: "mapAsync f xs st1 = (rs, st2)" by (cases "mapAsync f xs st1")
  from Cons.prems s1 s2 have a: "allResults (r # rs) = Inr vs" by simp
  then obtain v where r: "r = Inr v" by (cases r) auto
  from a r obtain ws where ws: "allResults rs = Inr ws" and vs: "vs = v # ws"
    by (cases "allResults rs") auto
  have "v = h x" using assms(1) [of x st v] s1 r by simp
  moreover have "ws = map h xs" using Cons.IH [of st1 ws] s2 ws by simp
  ultimately show ?case using vs by simp
qed

lemma mapAsync_succeeds:
  assumes "\<And>x st. \<exists>v. fst (f x st) = Inr v"
  shows "\<exists>vs. allResults (fst (mapAsync f xs st)) = Inr vs"
proof (induction xs arbitrary: st)
  case Nil
  show ?case by simp
next
  case (Cons x xs)
  obtain r st1 where s1: "f x st = (r, st1)" by (cases "f x st")
  obtain rs st2 where s2: "mapAsync f xs st1 = (rs, st2)" by (cases "mapAsync f xs st1")
  obtain v where r: "r = Inr v" using assms [of x st] s1 by auto
  obtain ws where "allResults rs = Inr ws" using Cons.IH [of st1] s2 by auto
  then show ?case using s1 s2 r by simp
qed

lemma Promise_all_calls:
  assumes "\<And>x st. calls (snd (f x st)) = calls st @ g x"
  shows "calls (snd (Promise_all f xs st)) = calls st @ concat (map g xs)"
  using mapAsync_calls [of f g xs st, OF assms]
  by (simp add: Promise_all_def case_prod_beta)

lemma Promise_all_results:
  assumes "\<And>x st v. fst (f x st) = Inr v \<Longrightarrow> v = h x"
    and "Promise_all f xs st = (Inr vs, st')"
  shows "vs = map h xs"
proof -
  from assms(2) have "allResults (fst (mapAsync f xs st)) = Inr vs"
    by (simp add: Promise_all_def case_prod_beta)
  with assms(1) show ?thesis by (rule mapAsync_results)
qed

lemma perform_fst:
  "fst (perform c operation st) = (case fst (operation (world st)) of Some e \<Rightarrow> Inl e | None \<Rightarrow> Inr ())"
  by (simp add: perform_def Let_def case_prod_beta split: option.splits)

lemma perform_snd:
  "snd (perform c operation st) = (issue c st)\<lparr>world := snd (operation (world st))\<rparr>"
  by (simp add: perform_def Let_def case_prod_beta split: option.splits)

lemma perform_calls: "calls (snd (perform c operation st)) = calls st @ [c]"
  by (simp add: perform_snd issue_def)

lemma symlinkFolder_calls:
  assumes "clonedDir src = Some dir"
  shows "calls (snd (symlinkFolder sys this src folder st)) =
           calls st @
           [Logger_info (''Creating symlink from '' @ path_resolve sys [dir, folder] @ '' to '' @
              path_resolve sys [packagesFolder this, ''@che-'' @ path_basename sys (path_resolve sys [dir, folder])]),
            EnsureSymlink (path_resolve sys [dir, folder])
              (path_resolve sys [packagesFolder this, ''@che-'' @ path_basename sys (path_resolve sys [dir, folder])])]"
  using assms
  by (simp add: symlinkFolder_def PREFIX_PACKAGES_EXTENSIONS_def Let_def case_prod_beta
      perform_fst perform_snd issue_def split: sum.splits option.splits)

lemma symlinkFolder_result:
  assumes "clonedDir src = Some dir"
    and "fst (symlinkFolder sys this src folder st) = Inr dest"
  shows "dest = path_resolve sys [packagesFolder this, ''@che-'' @ path_basename sys (path_resolve sys [dir, folder])]"
  using assms
  by (simp add: symlinkFolder_def PREFIX_PACKAGES_EXTENSIONS_def Let_def case_prod_beta
      perform_fst perform_snd issue_def split: sum.splits option.splits)

lemma pluginsSymlinkFolder_calls:
  assumes "clonedDir src = Some dir"
  shows "calls (snd (pluginsSymlinkFolder sys this src folder st)) =
           calls st @
           [Logger_info (''Creating symlink from '' @ path_resolve sys [dir, folder] @ '' to '' @
              path_resolve sys [pluginsFolder this, path_basename sys (path_resolve sys [dir, folder])]),
            EnsureSymlink (path_resolve sys [dir, folder])
              (path_resolve sys [pluginsFolder this, path_basename sys (path_resolve sys [dir, folder])])]"
  using assms
  by (simp add: pluginsSymlinkFolder_def Let_def case_prod_beta
      perform_fst perform_snd issue_def split: sum.splits option.splits)

lemma pluginsSymlinkFolder_result:
  assumes "clonedDir src = Some dir"
    and "fst (pluginsSymlinkFolder sys this src folder st) = Inr dest"
  shows "dest = path_resolve sys [pluginsFolder this, path_basename sys (path_resolve sys [dir, folder])]"
  using assms
  by (simp add: pluginsSymlinkFolder_def Let_def case_prod_beta
      perform_fst perform_snd issue_def split: sum.splits option.splits)

lemma mapAsync_world:
  assumes "\<And>x st. world (snd (f x st)) = g x (world st)"
  shows "world (snd (mapAsync f xs st)) = foldl (\<lambda>w x. g x w) (world st) xs"
proof (induction xs arbitrary: st)
  case Nil
  show ?case by simp
next
  case (Cons x xs)
  obtain r st1 where s1: "f x st = (r, st1)" by (cases "f x st")
  obtain rs st2 where s2: "mapAsync f xs st1 = (rs, st2)" by (cases "mapAsync f xs st1")
  have "world st1 = g x (world st)" using assms [of x st] s1 by simp
  moreover have "world st2 = foldl (\<lambda>w x. g x w) (world st1) xs" using Cons.IH [of st1] s2 by simp
  ultimately show ?case using s1 s2 by simp
qed

lemma mapAsync_each_succeeds:
  assumes w: "\<And>x st. world (snd (f x st)) = g x (world st)"
    and r: "\<And>x st v. fst (f x st) = Inr v \<Longrightarrow> ok x (world st)"
    and a: "allResults (fst (mapAsync f xs st)) = Inr vs"
  shows "\<forall>i<length xs. ok (xs ! i) (foldl (\<lambda>w x. g x w) (world st) (take i xs))"
  using a
proof (induction xs arbitrary: st vs)
  case Nil
  show ?case by simp
next
  case (Cons x xs)
  obtain y st1 where s1: "f x st = (y, st1)" by (cases "f x st")
  obtain rs st2 where s2: "mapAsync f xs st1 = (rs, st2)" by (cases "mapAsync f xs st1")
  from Cons.prems s1 s2 have al: "allResults (y # rs) = Inr vs" by simp
  then obtain v where y: "y = Inr v" by (cases y) auto
  from al y obtain ws where ws: "allResults rs = Inr ws" by (cases "allResults rs") auto
  have first: "ok x (world st)" using r [of x st v] s1 y by simp
  have w1: "world st1 = g x (world st)" using w [of x st] s1 by simp
  have rest: "\<forall>i<length xs. ok (xs ! i) (foldl (\<lambda>w x. g x w) (world st1) (take i xs))"
    using Cons.IH [of st1 ws] s2 ws by simp
  show ?case
  proof (intro allI impI)
    fix i assume i: "i < length (x # xs)"
    show "ok ((x # xs) ! i) (foldl (\<lambda>w x. g x w) (world st) (take i (x # xs)))"
    proof (cases i)
      case 0
      with first show ?thesis by simp
    next
      case (Suc j)
      with i rest w1 show ?thesis by simp
    qed
  qed
qed

lemma Promise_all_world:
  assumes "\<And>x st. world (snd (f x st)) = g x (world st)"
  shows "world (snd (Promise_all f xs st)) = foldl (\<lambda>w x. g x w) (world st) xs"
  using mapAsync_world [of f g xs st, OF assms]
  by (simp add: Promise_all_def case_prod_beta)

lemma Promise_all_each_succeeds:
  assumes w: "\<And>x st. world (snd (f x st)) = g x (world st)"
    and r: "\<And>x st v. fst (f x st) = Inr v \<Longrightarrow> ok x (world st)"
    and a: "Promise_all f xs st = (Inr vs, st')"
  shows "\<forall>i<length xs. ok (xs ! i) (foldl (\<lambda>w x. g x w) (world st) (take i xs))"
proof -
  from a have "allResults (fst (mapAsync f xs st)) = Inr vs"
    by (simp add: Promise_all_def case_prod_beta)
  from mapAsync_each_succeeds [of f g ok, OF w r this] show ?thesis .
qed

lemma symlinkFolder_world:
  assumes "clonedDir src = Some dir"
  shows "world (snd (symlinkFolder sys this src folder st)) =
           snd (fs_ensureSymlink sys (path_resolve sys [dir, folder])
                  (path_resolve sys [packagesFolder this, ''@che-'' @ path_basename sys (path_resolve sys [dir, folder])])
                  (world st))"
  using assms
  by (simp add: symlinkFolder_def PREFIX_PACKAGES_EXTENSIONS_def Let_def case_prod_beta
      perform_fst perform_snd issue_def split: sum.splits option.splits)

lemma symlinkFolder_made:
  assumes "clonedDir src = Some dir"
    and "fst (symlinkFolder sys this src folder st) = Inr dest"
  shows "fst (fs_ensureSymlink sys (path_resolve sys [dir, folder])
                  (path_resolve sys [packagesFolder this, ''@che-'' @ path_basename sys (path_resolve sys [dir, folder])])
                  (world st)) = None"
  using assms
  by (simp add: symlinkFolder_def PREFIX_PACKAGES_EXTENSIONS_def Let_def case_prod_beta
      perform_fst perform_snd issue_def split: sum.splits option.splits)

lemma pluginsSymlinkFolder_world:
  assumes "clonedDir src = Some dir"
  shows "world (snd (pluginsSymlinkFolder sys this src folder st)) =
           snd (fs_ensureSymlink sys (path_resolve sys [dir, folder])
                  (path_resolve sys [pluginsFolder this, path_basename sys (path_resolve sys [dir, folder])])
                  (world st))"
  using assms
  by (simp add: pluginsSymlinkFolder_def Let_def case_prod_beta
      perform_fst perform_snd issue_def split: sum.splits option.splits)

lemma pluginsSymlinkFolder_made:
  assumes "clonedDir src = Some dir"
    and "fst (pluginsSymlinkFolder sys this src folder st) = Inr dest"
  shows "fst (fs_ensureSymlink sys (path_resolve sys [dir, folder])
                  (path_resolve sys [pluginsFolder this, path_basename sys (path_resolve sys [dir, folder])])
                  (world st)) = None"
  using assms
  by (simp add: pluginsSymlinkFolder_def Let_def case_prod_beta
      perform_fst perform_snd issue_def split: sum.splits option.splits)

lemma symlink_links:
  assumes dir: "clonedDir src = Some dir"
    and S: "sourceFolder = (\<lambda>folder. path_resolve sys [dir, folder])"
    and D: "dest = (\<lambda>folder. path_resolve sys [packagesFolder this,
                      ''@che-'' @ path_basename sys (path_resolve sys [dir, folder])])"
    and R: "rootLink = path_resolve sys [packagesFolder this, ''@che-'' @ path_basename sys dir]"
    and run: "symlink sys this src st = (Inr src', st')"
  shows "case ISource.extensions src of
           Some folders \<Rightarrow>
             src' = src\<lparr>extSymbolicLinks := Some (completionOrder sys (map dest folders))\<rparr>
             \<and> calls st' = calls st @ concat (map (\<lambda>folder.
                   [Logger_info (''Creating symlink from '' @ sourceFolder folder @ '' to '' @ dest folder),
                    EnsureSymlink (sourceFolder folder) (dest folder)]) folders)
             \<and> world st' = foldl (\<lambda>w folder. snd (fs_ensureSymlink sys (sourceFolder folder) (dest folder) w))
                              (world st) folders
             \<and> (\<forall>i<length folders.
                   fst (fs_ensureSymlink sys (sourceFolder (folders ! i)) (dest (folders ! i))
                          (foldl (\<lambda>w folder. snd (fs_ensureSymlink sys (sourceFolder folder) (dest folder) w))
                             (world st) (take i folders))) = None)
         | None \<Rightarrow>
             src' = src\<lparr>extSymbolicLinks := Some [rootLink]\<rparr>
             \<and> calls st' = calls st @
                   [Logger_info (''Creating symlink from '' @ dir @ '' to '' @ rootLink),
                    EnsureSymlink dir rootLink]
             \<and> world st' = snd (fs_ensureSymlink sys dir rootLink (world st))
             \<and> fst (fs_ensureSymlink sys dir rootLink (world st)) = None"
proof (cases "ISource.extensions src")
  case None
  with dir run show ?thesis
    unfolding R
    by (auto simp: symlink_def PREFIX_PACKAGES_EXTENSIONS_def Let_def case_prod_beta
        perform_fst perform_snd issue_def split: sum.splits option.splits)
next
  case (Some folders)
  obtain r st1 where p: "Promise_all (symlinkFolder sys this src) folders st = (r, st1)"
    by (cases "Promise_all (symlinkFolder sys this src) folders st")
  from run Some p obtain links where r: "r = Inr links"
    and src': "src' = src\<lparr>extSymbolicLinks := Some (completionOrder sys links)\<rparr>" and st': "st' = st1"
    by (cases r) (auto simp: symlink_def)
  have links: "links = map dest folders"
    unfolding D using Promise_all_results [OF symlinkFolder_result [OF dir] p [unfolded r]] .
  have c: "calls st1 = calls st @ concat (map (\<lambda>folder.
           [Logger_info (''Creating symlink from '' @ sourceFolder folder @ '' to '' @ dest folder),
            EnsureSymlink (sourceFolder folder) (dest folder)]) folders)"
    unfolding S D
    using Promise_all_calls [of "symlinkFolder sys this src", OF symlinkFolder_calls [OF dir], of folders st] p
    by simp
  have w: "world st1 = foldl (\<lambda>w folder. snd (fs_ensureSymlink sys (sourceFolder folder) (dest folder) w))
                              (world st) folders"
    unfolding S D
    using Promise_all_world [of "symlinkFolder sys this src", OF symlinkFolder_world [OF dir], of folders st] p
    by simp
  have m: "\<forall>i<length folders.
                   fst (fs_ensureSymlink sys (sourceFolder (folders ! i)) (dest (folders ! i))
                          (foldl (\<lambda>w folder. snd (fs_ensureSymlink sys (sourceFolder folder) (dest folder) w))
                             (world st) (take i folders))) = None"
  proof -
    have w0: "\<And>x st. world (snd (symlinkFolder sys this src x st)) =
        (\<lambda>folder w. snd (fs_ensureSymlink sys (sourceFolder folder) (dest folder) w)) x (world st)"
      unfolding S D by (rule symlinkFolder_world [OF dir])
    have r0: "\<And>x st v. fst (symlinkFolder sys this src x st) = Inr v \<Longrightarrow>
        (\<lambda>folder w. fst (fs_ensureSymlink sys (sourceFolder folder) (dest folder) w) = None) x (world st)"
      unfolding S D by (rule symlinkFolder_made [OF dir])
    from Promise_all_each_succeeds [of "symlinkFolder sys this src"
        "\<lambda>folder w. snd (fs_ensureSymlink sys (sourceFolder folder) (dest folder) w)"
        "\<lambda>folder w. fst (fs_ensureSymlink sys (sourceFolder folder) (dest folder) w) = None",
        OF w0 r0 p [unfolded r]]
    show ?thesis by simp
  qed
  from Some src' st' links c w m show ?thesis by simp
qed

lemma pluginsSymlink_links:
  assumes dir: "clonedDir src = Some dir"
    and S: "sourceFolder = (\<lambda>folder. path_resolve sys [dir, folder])"
    and D: "dest = (\<lambda>folder. path_resolve sys [pluginsFolder this,
                      path_basename sys (path_resolve sys [dir, folder])])"
    and R: "rootLink = path_resolve sys [pluginsFolder this, path_basename sys dir]"
    and run: "pluginsSymlink sys this src st = (Inr src', st')"
  shows "case plugins src of
           Some folders \<Rightarrow>
             src' = src\<lparr>pluginSymbolicLinks := Some (completionOrder sys (map dest folders))\<rparr>
             \<and> calls st' = calls st @ concat (map (\<lambda>folder.
                   [Logger_info (''Creating symlink from '' @ sourceFolder folder @ '' to '' @ dest folder),
                    EnsureSymlink (sourceFolder folder) (dest folder)]) folders)
             \<and> world st' = foldl (\<lambda>w folder. snd (fs_ensureSymlink sys (sourceFolder folder) (dest folder) w))
                              (world st) folders
             \<and> (\<forall>i<length folders.
                   fst (fs_ensureSymlink sys (sourceFolder (folders ! i)) (dest (folders ! i))
                          (foldl (\<lambda>w folder. snd (fs_ensureSymlink sys (sourceFolder folder) (dest folder) w))
                             (world st) (take i folders))) = None)
         | None \<Rightarrow>
             src' = src\<lparr>pluginSymbolicLinks := Some [rootLink]\<rparr>
             \<and> calls st' = calls st @
                   [Logger_info (''Creating symlink from '' @ dir @ '' to '' @ rootLink),
                    EnsureSymlink dir rootLink]
             \<and> world st' = snd (fs_ensureSymlink sys dir rootLink (world st))
             \<and> fst (fs_ensureSymlink sys dir rootLink (world st)) = None"
proof (cases "plugins src")
  case None
  with dir run show ?thesis
    unfolding R
    by (auto simp: pluginsSymlink_def Let_def case_prod_beta
        perform_fst perform_snd issue_def split: sum.splits option.splits)
next
  case (Some folders)
  obtain r st1 where p: "Promise_all (pluginsSymlinkFolder sys this src) folders st = (r, st1)"
    by (cases "Promise_all (pluginsSymlinkFolder sys this src) folders st")
  from run Some p obtain links where r: "r = Inr links"
    and src': "src' = src\<lparr>pluginSymbolicLinks := Some (completionOrder sys links)\<rparr>" and st': "st' = st1"
    by (cases r) (auto simp: pluginsSymlink_def)
  have links: "links = map dest folders"
    unfolding D using Promise_all_results [OF pluginsSymlinkFolder_result [OF dir] p [unfolded r]] .
  have c: "calls st1 = calls st @ concat (map (\<lambda>folder.
           [Logger_info (''Creating symlink from '' @ sourceFolder folder @ '' to '' @ dest folder),
            EnsureSymlink (sourceFolder folder) (dest folder)]) folders)"
    unfolding S D
    using Promise_all_calls [of "pluginsSymlinkFolder sys this src", OF pluginsSymlinkFolder_calls [OF dir], of folders st] p
    by simp
  have w: "world st1 = foldl (\<lambda>w folder. snd (fs_ensureSymlink sys (sourceFolder folder) (dest folder) w))
                              (world st) folders"
    unfolding S D
    using Promise_all_world [of "pluginsSymlinkFolder sys this src", OF pluginsSymlinkFolder_world [OF dir], of folders st] p
    by simp
  have m: "\<forall>i<length folders.
                   fst (fs_ensureSymlink sys (sourceFolder (folders ! i)) (dest (folders ! i))
                          (foldl (\<lambda>w folder. snd (fs_ensureSymlink sys (sourceFolder folder) (dest folder) w))
                             (world st) (take i folders))) = None"
  proof -
    have w0: "\<And>x st. world (snd (pluginsSymlinkFolder sys this src x st)) =
        (\<lambda>folder w. snd (fs_ensureSymlink sys (sourceFolder folder) (dest folder) w)) x (world st)"
      unfolding S D by (rule pluginsSymlinkFolder_world [OF dir])
    have r0: "\<And>x st v. fst (pluginsSymlinkFolder sys this src x st) = Inr v \<Longrightarrow>
        (\<lambda>folder w. fst (fs_ensureSymlink sys (sourceFolder folder) (dest folder) w) = None) x (world st)"
      unfolding S D by (rule pluginsSymlinkFolder_made [OF dir])
    from Promise_all_each_succeeds [of "pluginsSymlinkFolder sys this src"
        "\<lambda>folder w. snd (fs_ensureSymlink sys (sourceFolder folder) (dest folder) w)"
        "\<lambda>folder w. fst (fs_ensureSymlink sys (sourceFolder folder) (dest folder) w) = None",
        OF w0 r0 p [unfolded r]]
    show ?thesis by simp
  qed
  from Some src' st' links c w m show ?thesis by simp
qed

text \<open>With a platform on which no symlink operation fails, both steps succeed.\<close>

lemma symlink_succeeds:
  assumes dir: "clonedDir src = Some dir"
    and ok: "\<And>a b w. fst (fs_ensureSymlink sys a b w) = None"
  shows "\<exists>src' st'. symlink sys this src st = (Inr src', st')"
proof (cases "ISource.extensions src")
  case None
  with dir ok show ?thesis
    by (simp add: symlink_def Let_def case_prod_beta perform_fst)
next
  case (Some folders)
  have "\<And>x st. \<exists>v. fst (symlinkFolder sys this src x st) = Inr v"
    using dir ok by (simp add: symlinkFolder_def Let_def case_prod_beta perform_fst)
  from mapAsync_succeeds [of "symlinkFolder sys this src", OF this, of folders st]
  obtain vs where "allResults (fst (mapAsync (symlinkFolder sys this src) folders st)) = Inr vs"
    by auto
  with Some show ?thesis
    by (simp add: symlink_def Promise_all_def case_prod_beta)
qed

lemma pluginsSymlink_succeeds:
  assumes dir: "clonedDir src = Some dir"
    and ok: "\<And>a b w. fst (fs_ensureSymlink sys a b w) = None"
  shows "\<exists>src' st'. pluginsSymlink sys this src st = (Inr src', st')"
proof (cases "plugins src")
  case None
  with dir ok show ?thesis
    by (simp add: pluginsSymlink_def Let_def case_prod_beta perform_fst)
next
  case (Some folders)
  have "\<And>x st. \<exists>v. fst (pluginsSymlinkFolder sys this src x st) = Inr v"
    using dir ok by (simp add: pluginsSymlinkFolder_def Let_def case_prod_beta perform_fst)
  from mapAsync_succeeds [of "pluginsSymlinkFolder sys this src", OF this, of folders st]
  obtain vs where "allResults (fst (mapAsync (pluginsSymlinkFolder sys this src) folders st)) = Inr vs"
    by auto
  with Some show ?thesis
    by (simp add: pluginsSymlink_def Promise_all_def case_prod_beta)
qed

text \<open>
  Two subfolders with one base name have one destination. On the test platform the
  second link is refused, and the step fails with one link made and none recorded.
\<close>

lemma symlink_same_base_name:
  "symlink testPlatform testResolver
     (testSource\<lparr>ISource.extensions := Some [''a/x'', ''b/x''], clonedDir := Some ''/work/che-theia''\<rparr>)
     testState =
     (Inl (ExternalError ''EEXIST''),
      \<lparr>world = testDisk\<lparr>present := [''/tmp/tmpExtensions/packages/@che-x'', ''/work/che-theia'']\<rparr>,
       calls = [Logger_info ''Creating symlink from /work/che-theia/a/x to /tmp/tmpExtensions/packages/@che-x'',
                EnsureSymlink ''/work/che-theia/a/x'' ''/tmp/tmpExtensions/packages/@che-x'',
                Logger_info ''Creating symlink from /work/che-theia/b/x to /tmp/tmpExtensions/packages/@che-x'',
                EnsureSymlink ''/work/che-theia/b/x'' ''/tmp/tmpExtensions/packages/@che-x'']\<rparr>)"
  by (simp add: symlink_def Promise_all_def symlinkFolder_def perform_def issue_def Let_def
      testPlatform_def testResolver_def testSource_def testState_def testDisk_def makeLink_def
      joinSegments_def lastSegment_def PREFIX_PACKAGES_EXTENSIONS_def)

text \<open>
  C6, as the claim states it: an entry that declares no extension subfolders gets exactly
  one prefixed link to the root of its materialized directory, and likewise one link under
  the plugins root when it declares no plugin subfolders. The code at an entry whose
  \<open>extensions\<close> and \<open>plugins\<close> are the empty list: \<open>if (source.extensions)\<close> holds for the
  empty array, the loop over the subfolders runs no callback, and each step returns with
  no call issued, the disk as it was and the empty list of links recorded. No link to the
  root is made.
\<close>

theorem symlink_empty_list:
  "symlink testPlatform testResolver
     (testSource\<lparr>ISource.extensions := Some [], clonedDir := Some ''/work/che-theia''\<rparr>) testState =
     (Inr (testSource\<lparr>ISource.extensions := Some [], clonedDir := Some ''/work/che-theia'',
             extSymbolicLinks := Some []\<rparr>),
      testState)
   \<and> pluginsSymlink testPlatform testResolver
     (testSource\<lparr>plugins := Some [], clonedDir := Some ''/work/che-theia''\<rparr>) testState =
     (Inr (testSource\<lparr>plugins := Some [], clonedDir := Some ''/work/che-theia'',
             pluginSymbolicLinks := Some []\<rparr>),
      testState)"
  by (simp add: symlink_def pluginsSymlink_def Promise_all_def testPlatform_def testSource_def)

text \<open>
  C6, amended. For an entry that is materialized (\<open>clonedDir\<close> is set) and whose listed
  subfolders have pairwise distinct destinations. When the entry has the field \<open>extensions\<close>,
  a successful \<open>symlink\<close> logs and applies exactly one \<open>ensureSymlink\<close> per listed subfolder,
  in the order of the list, from the subfolder to \<open>@che-\<close> followed by its base name under
  the packages folder, and each of them succeeded: none for the empty list. When the
  entry has no field \<open>extensions\<close>, it applies exactly one, from the materialized directory
  to its prefixed base name. The world after the step is the world before with these
  operations applied, and nothing else is issued. A successful \<open>pluginsSymlink\<close> does the
  same with the field \<open>plugins\<close>, under the plugins folder and with the base name
  unprefixed. Each step changes the entry only by recording the link paths it produced:
  they are pairwise distinct and are the destinations of the operations, in the order the
  operations completed.
\<close>

theorem workspace_links:
  assumes "clonedDir src = Some dir"
    and "\<And>links. mset (completionOrder sys links) = mset links"
    and "sourceFolder = (\<lambda>folder. path_resolve sys [dir, folder])"
    and "extensionLink = (\<lambda>folder. path_resolve sys [packagesFolder this,
                             ''@che-'' @ path_basename sys (path_resolve sys [dir, folder])])"
    and "pluginLink = (\<lambda>folder. path_resolve sys [pluginsFolder this,
                             path_basename sys (path_resolve sys [dir, folder])])"
    and "rootExtensionLink = path_resolve sys [packagesFolder this, ''@che-'' @ path_basename sys dir]"
    and "rootPluginLink = path_resolve sys [pluginsFolder this, path_basename sys dir]"
    and "\<And>folders. ISource.extensions src = Some folders \<Longrightarrow> distinct (map extensionLink folders)"
    and "\<And>folders. plugins src = Some folders \<Longrightarrow> distinct (map pluginLink folders)"
  shows
    "(symlink sys this src st = (Inr src', st') \<longrightarrow>
       (\<exists>links. src' = src\<lparr>extSymbolicLinks := Some links\<rparr> \<and> distinct links \<and>
          (case ISource.extensions src of
             Some folders \<Rightarrow>
               mset links = mset (map extensionLink folders)
               \<and> calls st' = calls st @ concat (map (\<lambda>folder.
                     [Logger_info (''Creating symlink from '' @ sourceFolder folder @ '' to '' @ extensionLink folder),
                      EnsureSymlink (sourceFolder folder) (extensionLink folder)]) folders)
               \<and> world st' = foldl (\<lambda>w folder. snd (fs_ensureSymlink sys (sourceFolder folder) (extensionLink folder) w))
                                (world st) folders
               \<and> (\<forall>i<length folders.
                     fst (fs_ensureSymlink sys (sourceFolder (folders ! i)) (extensionLink (folders ! i))
                            (foldl (\<lambda>w folder. snd (fs_ensureSymlink sys (sourceFolder folder) (extensionLink folder) w))
                               (world st) (take i folders))) = None)
           | None \<Rightarrow>
               links = [rootExtensionLink]
               \<and> calls st' = calls st @
                     [Logger_info (''Creating symlink from '' @ dir @ '' to '' @ rootExtensionLink),
                      EnsureSymlink dir rootExtensionLink]
               \<and> world st' = snd (fs_ensureSymlink sys dir rootExtensionLink (world st))
               \<and> fst (fs_ensureSymlink sys dir rootExtensionLink (world st)) = None)))
     \<and> (pluginsSymlink sys this src pst = (Inr psrc', pst') \<longrightarrow>
       (\<exists>links. psrc' = src\<lparr>pluginSymbolicLinks := Some links\<rparr> \<and> distinct links \<and>
          (case plugins src of
             Some folders \<Rightarrow>
               mset links = mset (map pluginLink folders)
               \<and> calls pst' = calls pst @ concat (map (\<lambda>folder.
                     [Logger_info (''Creating symlink from '' @ sourceFolder folder @ '' to '' @ pluginLink folder),
                      EnsureSymlink (sourceFolder folder) (pluginLink folder)]) folders)
               \<and> world pst' = foldl (\<lambda>w folder. snd (fs_ensureSymlink sys (sourceFolder folder) (pluginLink folder) w))
                                 (world pst) folders
               \<and> (\<forall>i<length folders.
                     fst (fs_ensureSymlink sys (sourceFolder (folders ! i)) (pluginLink (folders ! i))
                            (foldl (\<lambda>w folder. snd (fs_ensureSymlink sys (sourceFolder folder) (pluginLink folder) w))
                               (world pst) (take i folders))) = None)
           | None \<Rightarrow>
               links = [rootPluginLink]
               \<and> calls pst' = calls pst @
                     [Logger_info (''Creating symlink from '' @ dir @ '' to '' @ rootPluginLink),
                      EnsureSymlink dir rootPluginLink]
               \<and> world pst' = snd (fs_ensureSymlink sys dir rootPluginLink (world pst))
               \<and> fst (fs_ensureSymlink sys dir rootPluginLink (world pst)) = None)))"
proof -
  have extensionPart: "symlink sys this src st = (Inr src', st') \<longrightarrow>
       (\<exists>links. src' = src\<lparr>extSymbolicLinks := Some links\<rparr> \<and> distinct links \<and>
          (case ISource.extensions src of
             Some folders \<Rightarrow>
               mset links = mset (map extensionLink folders)
               \<and> calls st' = calls st @ concat (map (\<lambda>folder.
                     [Logger_info (''Creating symlink from '' @ sourceFolder folder @ '' to '' @ extensionLink folder),
                      EnsureSymlink (sourceFolder folder) (extensionLink folder)]) folders)
               \<and> world st' = foldl (\<lambda>w folder. snd (fs_ensureSymlink sys (sourceFolder folder) (extensionLink folder) w))
                                (world st) folders
               \<and> (\<forall>i<length folders.
                     fst (fs_ensureSymlink sys (sourceFolder (folders ! i)) (extensionLink (folders ! i))
                            (foldl (\<lambda>w folder. snd (fs_ensureSymlink sys (sourceFolder folder) (extensionLink folder) w))
                               (world st) (take i folders))) = None)
           | None \<Rightarrow>
               links = [rootExtensionLink]
               \<and> calls st' = calls st @
                     [Logger_info (''Creating symlink from '' @ dir @ '' to '' @ rootExtensionLink),
                      EnsureSymlink dir rootExtensionLink]
               \<and> world st' = snd (fs_ensureSymlink sys dir rootExtensionLink (world st))
               \<and> fst (fs_ensureSymlink sys dir rootExtensionLink (world st)) = None))"
  proof
    assume run: "symlink sys this src st = (Inr src', st')"
    note l = symlink_links [OF assms(1) assms(3) assms(4) assms(6) run]
    show "\<exists>links. src' = src\<lparr>extSymbolicLinks := Some links\<rparr> \<and> distinct links \<and>
          (case ISource.extensions src of
             Some folders \<Rightarrow>
               mset links = mset (map extensionLink folders)
               \<and> calls st' = calls st @ concat (map (\<lambda>folder.
                     [Logger_info (''Creating symlink from '' @ sourceFolder folder @ '' to '' @ extensionLink folder),
                      EnsureSymlink (sourceFolder folder) (extensionLink folder)]) folders)
               \<and> world st' = foldl (\<lambda>w folder. snd (fs_ensureSymlink sys (sourceFolder folder) (extensionLink folder) w))
                                (world st) folders
               \<and> (\<forall>i<length folders.
                     fst (fs_ensureSymlink sys (sourceFolder (folders ! i)) (extensionLink (folders ! i))
                            (foldl (\<lambda>w folder. snd (fs_ensureSymlink sys (sourceFolder folder) (extensionLink folder) w))
                               (world st) (take i folders))) = None)
           | None \<Rightarrow>
               links = [rootExtensionLink]
               \<and> calls st' = calls st @
                     [Logger_info (''Creating symlink from '' @ dir @ '' to '' @ rootExtensionLink),
                      EnsureSymlink dir rootExtensionLink]
               \<and> world st' = snd (fs_ensureSymlink sys dir rootExtensionLink (world st))
               \<and> fst (fs_ensureSymlink sys dir rootExtensionLink (world st)) = None)"
    proof (cases "ISource.extensions src")
      case None
      with l show ?thesis by simp
    next
      case (Some folders)
      have m: "mset (completionOrder sys (map extensionLink folders)) = mset (map extensionLink folders)"
        by (rule assms(2))
      have "distinct (map extensionLink folders)" using assms(8) [OF Some] .
      with m have d: "distinct (completionOrder sys (map extensionLink folders))"
        using mset_eq_imp_distinct_iff by blast
      from l Some m d show ?thesis
        by (intro exI [of _ "completionOrder sys (map extensionLink folders)"]) simp
    qed
  qed
  have pluginPart: "pluginsSymlink sys this src pst = (Inr psrc', pst') \<longrightarrow>
       (\<exists>links. psrc' = src\<lparr>pluginSymbolicLinks := Some links\<rparr> \<and> distinct links \<and>
          (case plugins src of
             Some folders \<Rightarrow>
               mset links = mset (map pluginLink folders)
               \<and> calls pst' = calls pst @ concat (map (\<lambda>folder.
                     [Logger_info (''Creating symlink from '' @ sourceFolder folder @ '' to '' @ pluginLink folder),
                      EnsureSymlink (sourceFolder folder) (pluginLink folder)]) folders)
               \<and> world pst' = foldl (\<lambda>w folder. snd (fs_ensureSymlink sys (sourceFolder folder) (pluginLink folder) w))
                                 (world pst) folders
               \<and> (\<forall>i<length folders.
                     fst (fs_ensureSymlink sys (sourceFolder (folders ! i)) (pluginLink (folders ! i))
                            (foldl (\<lambda>w folder. snd (fs_ensureSymlink sys (sourceFolder folder) (pluginLink folder) w))
                               (world pst) (take i folders))) = None)
           | None \<Rightarrow>
               links = [rootPluginLink]
               \<and> calls pst' = calls pst @
                     [Logger_info (''Creating symlink from '' @ dir @ '' to '' @ rootPluginLink),
                      EnsureSymlink dir rootPluginLink]
               \<and> world pst' = snd (fs_ensureSymlink sys dir rootPluginLink (world pst))
               \<and> fst (fs_ensureSymlink sys dir rootPluginLink (world pst)) = None))"
  proof
    assume run: "pluginsSymlink sys this src pst = (Inr psrc', pst')"
    note l = pluginsSymlink_links [OF assms(1) assms(3) assms(5) assms(7) run]
    show "\<exists>links. psrc' = src\<lparr>pluginSymbolicLinks := Some links\<rparr> \<and> distinct links \<and>
          (case plugins src of
             Some folders \<Rightarrow>
               mset links = mset (map pluginLink folders)
               \<and> calls pst' = calls pst @ concat (map (\<lambda>folder.
                     [Logger_info (''Creating symlink from '' @ sourceFolder folder @ '' to '' @ pluginLink folder),
                      EnsureSymlink (sourceFolder folder) (pluginLink folder)]) folders)
               \<and> world pst' = foldl (\<lambda>w folder. snd (fs_ensureSymlink sys (sourceFolder folder) (pluginLink folder) w))
                                 (world pst) folders
               \<and> (\<forall>i<length folders.
                     fst (fs_ensureSymlink sys (sourceFolder (folders ! i)) (pluginLink (folders ! i))
                            (foldl (\<lambda>w folder. snd (fs_ensureSymlink sys (sourceFolder folder) (pluginLink folder) w))
                               (world pst) (take i folders))) = None)
           | None \<Rightarrow>
               links = [rootPluginLink]
               \<and> calls pst' = calls pst @
                     [Logger_info (''Creating symlink from '' @ dir @ '' to '' @ rootPluginLink),
                      EnsureSymlink dir rootPluginLink]
               \<and> world pst' = snd (fs_ensureSymlink sys dir rootPluginLink (world pst))
               \<and> fst (fs_ensureSymlink sys dir rootPluginLink (world pst)) = None)"
    proof (cases "plugins src")
      case None
      with l show ?thesis by simp
    next
      case (Some folders)
      have m: "mset (completionOrder sys (map pluginLink folders)) = mset (map pluginLink folders)"
        by (rule assms(2))
      have "distinct (map pluginLink folders)" using assms(9) [OF Some] .
      with m have d: "distinct (completionOrder sys (map pluginLink folders))"
        using mset_eq_imp_distinct_iff by blast
      from l Some m d show ?thesis
        by (intro exI [of _ "completionOrder sys (map pluginLink folders)"]) simp
    qed
  qed
  from extensionPart pluginPart show ?thesis by (rule conjI)
qed

lemma symlink_test_run:
  "symlink testPlatform testResolver (testSource\<lparr>clonedDir := Some ''/work/che-theia''\<rparr>) testState =
     (Inr (testSource\<lparr>clonedDir := Some ''/work/che-theia'',
             extSymbolicLinks := Some [''/tmp/tmpExtensions/packages/@che-folder2'',
                                       ''/tmp/tmpExtensions/packages/@che-folder1'']\<rparr>),
      \<lparr>world = testDisk\<lparr>present := [''/tmp/tmpExtensions/packages/@che-folder2'',
                                     ''/tmp/tmpExtensions/packages/@che-folder1'', ''/work/che-theia'']\<rparr>,
       calls = [Logger_info ''Creating symlink from /work/che-theia/folder1 to /tmp/tmpExtensions/packages/@che-folder1'',
                EnsureSymlink ''/work/che-theia/folder1'' ''/tmp/tmpExtensions/packages/@che-folder1'',
                Logger_info ''Creating symlink from /work/che-theia/folder2 to /tmp/tmpExtensions/packages/@che-folder2'',
                EnsureSymlink ''/work/che-theia/folder2'' ''/tmp/tmpExtensions/packages/@che-folder2'']\<rparr>)"
  by (simp add: symlink_def Promise_all_def symlinkFolder_def perform_def issue_def Let_def
      testPlatform_def testResolver_def testSource_def testState_def testDisk_def makeLink_def
      joinSegments_def lastSegment_def PREFIX_PACKAGES_EXTENSIONS_def)

lemma pluginsSymlink_test_run:
  "pluginsSymlink testPlatform testResolver (testSource\<lparr>clonedDir := Some ''/work/che-theia''\<rparr>) testState =
     (Inr (testSource\<lparr>clonedDir := Some ''/work/che-theia'',
             pluginSymbolicLinks := Some [''/tmp/tmpExtensions/plugins/plugin-folder1'']\<rparr>),
      \<lparr>world = testDisk\<lparr>present := [''/tmp/tmpExtensions/plugins/plugin-folder1'', ''/work/che-theia'']\<rparr>,
       calls = [Logger_info ''Creating symlink from /work/che-theia/plugin-folder1 to /tmp/tmpExtensions/plugins/plugin-folder1'',
                EnsureSymlink ''/work/che-theia/plugin-folder1'' ''/tmp/tmpExtensions/plugins/plugin-folder1'']\<rparr>)"
  by (simp add: pluginsSymlink_def Promise_all_def pluginsSymlinkFolder_def perform_def issue_def Let_def
      testPlatform_def testResolver_def testSource_def testState_def testDisk_def makeLink_def
      joinSegments_def lastSegment_def)

theorem workspace_links_witness:
  "clonedDir (testSource\<lparr>clonedDir := Some ''/work/che-theia''\<rparr>) = Some ''/work/che-theia''
   \<and> (\<forall>links. mset (completionOrder testPlatform links) = mset links)
   \<and> (\<exists>src' st' links.
         symlink testPlatform testResolver (testSource\<lparr>clonedDir := Some ''/work/che-theia''\<rparr>) testState
           = (Inr src', st')
       \<and> src' = testSource\<lparr>clonedDir := Some ''/work/che-theia'', extSymbolicLinks := Some links\<rparr>
       \<and> distinct links
       \<and> mset links = mset [''/tmp/tmpExtensions/packages/@che-folder1'',
                             ''/tmp/tmpExtensions/packages/@che-folder2'']
       \<and> calls st' =
           [Logger_info ''Creating symlink from /work/che-theia/folder1 to /tmp/tmpExtensions/packages/@che-folder1'',
            EnsureSymlink ''/work/che-theia/folder1'' ''/tmp/tmpExtensions/packages/@che-folder1'',
            Logger_info ''Creating symlink from /work/che-theia/folder2 to /tmp/tmpExtensions/packages/@che-folder2'',
            EnsureSymlink ''/work/che-theia/folder2'' ''/tmp/tmpExtensions/packages/@che-folder2'']
       \<and> world st' = testDisk\<lparr>present := [''/tmp/tmpExtensions/packages/@che-folder2'',
                                            ''/tmp/tmpExtensions/packages/@che-folder1'', ''/work/che-theia'']\<rparr>)
   \<and> (\<exists>src' st' links.
         pluginsSymlink testPlatform testResolver (testSource\<lparr>clonedDir := Some ''/work/che-theia''\<rparr>) testState
           = (Inr src', st')
       \<and> src' = testSource\<lparr>clonedDir := Some ''/work/che-theia'', pluginSymbolicLinks := Some links\<rparr>
       \<and> distinct links
       \<and> mset links = mset [''/tmp/tmpExtensions/plugins/plugin-folder1'']
       \<and> calls st' =
           [Logger_info ''Creating symlink from /work/che-theia/plugin-folder1 to /tmp/tmpExtensions/plugins/plugin-folder1'',
            EnsureSymlink ''/work/che-theia/plugin-folder1'' ''/tmp/tmpExtensions/plugins/plugin-folder1'']
       \<and> world st' = testDisk\<lparr>present := [''/tmp/tmpExtensions/plugins/plugin-folder1'', ''/work/che-theia'']\<rparr>)"
proof -
  let ?S = "testSource\<lparr>clonedDir := Some ''/work/che-theia''\<rparr>"
  have d: "clonedDir ?S = Some ''/work/che-theia''" by simp
  have c: "\<And>links. mset (completionOrder testPlatform links) = mset links"
    by (simp add: testPlatform_def)
  have x: "ISource.extensions ?S = Some [''folder1'', ''folder2'']"
    and y: "plugins ?S = Some [''plugin-folder1'']"
    by (simp_all add: testSource_def)
  have p: "path_resolve testPlatform = joinSegments" "path_basename testPlatform = lastSegment"
    "fs_ensureSymlink testPlatform = makeLink"
    "packagesFolder testResolver = ''/tmp/tmpExtensions/packages''"
    "pluginsFolder testResolver = ''/tmp/tmpExtensions/plugins''"
    by (simp_all add: testPlatform_def testResolver_def)
  have dx: "\<And>folders. ISource.extensions ?S = Some folders \<Longrightarrow>
      distinct (map (\<lambda>folder. path_resolve testPlatform [packagesFolder testResolver,
          ''@che-'' @ path_basename testPlatform (path_resolve testPlatform [''/work/che-theia'', folder])]) folders)"
    unfolding x p by (auto simp: joinSegments_def lastSegment_def)
  have dy: "\<And>folders. plugins ?S = Some folders \<Longrightarrow>
      distinct (map (\<lambda>folder. path_resolve testPlatform [pluginsFolder testResolver,
          path_basename testPlatform (path_resolve testPlatform [''/work/che-theia'', folder])]) folders)"
    unfolding y p by (auto simp: joinSegments_def lastSegment_def)
  obtain e1 s1 where r1: "symlink testPlatform testResolver ?S testState = (Inr e1, s1)"
    using symlink_test_run by blast
  obtain e2 s2 where r2: "pluginsSymlink testPlatform testResolver ?S testState = (Inr e2, s2)"
    using pluginsSymlink_test_run by blast
  note w = workspace_links [OF d c refl refl refl refl refl dx dy, of testState e1 s1 testState e2 s2]
  from w r1 obtain l1 where a1: "e1 = ?S\<lparr>extSymbolicLinks := Some l1\<rparr>"
    and b1: "distinct l1"
    and c1: "mset l1 = mset [''/tmp/tmpExtensions/packages/@che-folder1'',
                             ''/tmp/tmpExtensions/packages/@che-folder2'']"
    and d1: "calls s1 =
           [Logger_info ''Creating symlink from /work/che-theia/folder1 to /tmp/tmpExtensions/packages/@che-folder1'',
            EnsureSymlink ''/work/che-theia/folder1'' ''/tmp/tmpExtensions/packages/@che-folder1'',
            Logger_info ''Creating symlink from /work/che-theia/folder2 to /tmp/tmpExtensions/packages/@che-folder2'',
            EnsureSymlink ''/work/che-theia/folder2'' ''/tmp/tmpExtensions/packages/@che-folder2'']"
    and f1: "world s1 = testDisk\<lparr>present := [''/tmp/tmpExtensions/packages/@che-folder2'',
                                            ''/tmp/tmpExtensions/packages/@che-folder1'', ''/work/che-theia'']\<rparr>"
    unfolding x y p
    by (auto simp: joinSegments_def lastSegment_def makeLink_def testState_def testDisk_def)
  from w r2 obtain l2 where a2: "e2 = ?S\<lparr>pluginSymbolicLinks := Some l2\<rparr>"
    and b2: "distinct l2"
    and c2: "mset l2 = mset [''/tmp/tmpExtensions/plugins/plugin-folder1'']"
    and d2: "calls s2 =
           [Logger_info ''Creating symlink from /work/che-theia/plugin-folder1 to /tmp/tmpExtensions/plugins/plugin-folder1'',
            EnsureSymlink ''/work/che-theia/plugin-folder1'' ''/tmp/tmpExtensions/plugins/plugin-folder1'']"
    and f2: "world s2 = testDisk\<lparr>present := [''/tmp/tmpExtensions/plugins/plugin-folder1'', ''/work/che-theia'']\<rparr>"
    unfolding x y p
    by (auto simp: joinSegments_def lastSegment_def makeLink_def testState_def testDisk_def)
  have g1: "e1 = testSource\<lparr>clonedDir := Some ''/work/che-theia'', extSymbolicLinks := Some l1\<rparr>"
    using a1 by simp
  have g2: "e2 = testSource\<lparr>clonedDir := Some ''/work/che-theia'', pluginSymbolicLinks := Some l2\<rparr>"
    using a2 by simp
  from d c r1 g1 b1 c1 d1 f1 r2 g2 b2 c2 d2 f2 show ?thesis by blast
qed

section \<open>Rewriting the manifests\<close>

lemma map_of_setProperty_same: "map_of (setProperty kvs key v) key = Some v"
  by (induction kvs) auto

lemma map_of_setProperty_other: "k \<noteq> key \<Longrightarrow> map_of (setProperty kvs key v) k = map_of kvs k"
  by (induction kvs) auto

lemma filter_setProperty:
  "isDependencyField key \<Longrightarrow>
     filter (\<lambda>(name, v). \<not> isDependencyField name) (setProperty kvs key x)
       = filter (\<lambda>(name, v). \<not> isDependencyField name) kvs"
proof (induction kvs)
  case Nil
  then show ?case by simp
next
  case (Cons kv kvs)
  obtain k y where kv: "kv = (k, y)" by (cases kv)
  show ?case
  proof (cases "k = key")
    case True
    with Cons.prems kv show ?thesis by simp
  next
    case False
    with Cons kv show ?thesis by simp
  qed
qed

text \<open>
  The names \<open>dependencies\<close> and \<open>devDependencies\<close> are no array indices and are not
  \<open>__proto__\<close>: assigning to them replaces the value in place or adds the field last.
\<close>

lemma assign_dependencies: "assign kvs ''dependencies'' x = setProperty kvs ''dependencies'' x"
  by (simp add: assign_def defineProperty_def arrayIndex_def isDigit_def)

lemma assign_devDependencies: "assign kvs ''devDependencies'' x = setProperty kvs ''devDependencies'' x"
  by (simp add: assign_def defineProperty_def arrayIndex_def isDigit_def)

lemma updatedDependencies_absent: "updatedDependencies this None = JObj []"
  by (simp add: updatedDependencies_def whenTruthy_def)

lemma updatedDependencies_falsy:
  "whenTruthy dependencies = None \<Longrightarrow> updatedDependencies this dependencies = JObj []"
  by (simp add: updatedDependencies_def)

text \<open>
  The callback of one link on a manifest that is an object, with rewriting on: one call,
  the write of the raw manifest after its two assignments, applied to the world.
\<close>

lemma updatePackageJson_object:
  assumes "readPkg sys (path_join sys [symbolicLink, ''package.json'']) (world st) = Inr (JObj packageFields)"
    and "require sys (path_join sys [symbolicLink, ''package.json'']) (world st) = Inr (JObj rawFields)"
  shows "updatePackageJson sys this True symbolicLink st =
           perform
             (WriteFile (path_join sys [symbolicLink, ''package.json''])
                (JSON_stringify sys
                   (JObj (assign
                            (assign rawFields ''dependencies''
                               (updatedDependencies this (map_of packageFields ''dependencies'')))
                            ''devDependencies''
                            (updatedDependencies this (map_of packageFields ''devDependencies''))))
                 @ os_EOL sys))
             (fs_writeFile sys (path_join sys [symbolicLink, ''package.json''])
                (JSON_stringify sys
                   (JObj (assign
                            (assign rawFields ''dependencies''
                               (updatedDependencies this (map_of packageFields ''dependencies'')))
                            ''devDependencies''
                            (updatedDependencies this (map_of packageFields ''devDependencies''))))
                 @ os_EOL sys))
             st"
  using assms by (simp add: updatePackageJson_def Let_def getProperty_def)

text \<open>\<open>Promise.all\<close> over a list, seen from one of its callbacks.\<close>

lemma mapAsync_append:
  "mapAsync f (xs @ ys) st =
     (case mapAsync f xs st of
        (rs, st1) \<Rightarrow> (case mapAsync f ys st1 of (rs', st2) \<Rightarrow> (rs @ rs', st2)))"
  by (induction xs arbitrary: st) (simp_all add: case_prod_beta Let_def)

lemma updateDependencies_at_link:
  assumes "extSymbolicLinks extension = Some (before @ symbolicLink # after)"
    and "mapAsync (updatePackageJson sys this rewrite) before st = (rs, st1)"
    and "updatePackageJson sys this rewrite symbolicLink st1 = (r, st2)"
    and "mapAsync (updatePackageJson sys this rewrite) after st2 = (rs', st3)"
  shows "updateDependencies sys this extension rewrite st =
           (case allResults (rs @ r # rs') of Inl e \<Rightarrow> Inl e | Inr us \<Rightarrow> Inr (), st3)"
  using assms by (simp add: updateDependencies_def Promise_all_def mapAsync_append Let_def)

text \<open>What the rewriter does at one link of an entry, in a run of \<open>updateDependencies\<close>.\<close>

lemma updateDependencies_rewrites:
  assumes links: "extSymbolicLinks extension = Some (before @ symbolicLink # after)"
    and earlier: "mapAsync (updatePackageJson sys this True) before st = (rs, st1)"
    and path: "extensionJsonPath = path_join sys [symbolicLink, ''package.json'']"
    and package: "readPkg sys extensionJsonPath (world st1) = Inr (JObj packageFields)"
    and raw: "require sys extensionJsonPath (world st1) = Inr (JObj rawFields)"
    and written: "written = assign (assign rawFields ''dependencies''
                                (updatedDependencies this (map_of packageFields ''dependencies'')))
                              ''devDependencies''
                              (updatedDependencies this (map_of packageFields ''devDependencies''))"
    and content: "content = JSON_stringify sys (JObj written) @ os_EOL sys"
    and callback: "updatePackageJson sys this True symbolicLink st1 = (r, st2)"
    and later: "mapAsync (updatePackageJson sys this True) after st2 = (rs', st3)"
  shows "r = (case fst (fs_writeFile sys extensionJsonPath content (world st1)) of
                Some e \<Rightarrow> Inl e | None \<Rightarrow> Inr ())"
    and "world st2 = snd (fs_writeFile sys extensionJsonPath content (world st1))"
    and "calls st2 = calls st1 @ [WriteFile extensionJsonPath content]"
    and "updateDependencies sys this extension True st =
           (case allResults (rs @ r # rs') of Inl e \<Rightarrow> Inl e | Inr us \<Rightarrow> Inr (), st3)"
proof -
  have p: "perform (WriteFile extensionJsonPath content) (fs_writeFile sys extensionJsonPath content) st1 = (r, st2)"
    using updatePackageJson_object [OF package [unfolded path] raw [unfolded path], of this] callback
    unfolding path content written by simp
  from p have "fst (perform (WriteFile extensionJsonPath content) (fs_writeFile sys extensionJsonPath content) st1) = r"
    and s: "snd (perform (WriteFile extensionJsonPath content) (fs_writeFile sys extensionJsonPath content) st1) = st2"
    by simp_all
  then show "r = (case fst (fs_writeFile sys extensionJsonPath content (world st1)) of
                Some e \<Rightarrow> Inl e | None \<Rightarrow> Inr ())"
    by (simp add: perform_fst)
  show "world st2 = snd (fs_writeFile sys extensionJsonPath content (world st1))"
    using s [symmetric] by (simp add: perform_snd issue_def)
  show "calls st2 = calls st1 @ [WriteFile extensionJsonPath content]"
    using s [symmetric] by (simp add: perform_calls)
  show "updateDependencies sys this extension True st =
           (case allResults (rs @ r # rs') of Inl e \<Rightarrow> Inl e | Inr us \<Rightarrow> Inr (), st3)"
    using updateDependencies_at_link [OF links earlier callback later] .
qed

text \<open>
  C3, as the claim states it: every field other than the two dependency fields has in the
  persisted result the bytes it has in the input. The code at a manifest written on one
  line, \<open>{"name":"@che-theia/sample2","version":"6.7.8"}\<close>, the only link of its entry: the
  run succeeds, and the file it leaves has each field on a line of its own, with a space
  after the colon. The bytes \<open>"name":"@che-theia/sample2"\<close> of the field \<open>name\<close> are in
  the input and nowhere in the persisted text.
\<close>

theorem updateDependencies_changes_bytes:
  "map_of (files (world testState)) ''/tmp/tmpExtensions/packages/@che-folder2/package.json'' =
     Some (''{'' @ ''\"name\":\"@che-theia/sample2\"'' @ '',\"version\":\"6.7.8\"}'')
   \<and> fst (updateDependencies testPlatform testResolver
            (testSource\<lparr>extSymbolicLinks := Some [''/tmp/tmpExtensions/packages/@che-folder2'']\<rparr>)
            True testState) = Inr ()
   \<and> map_of (files (world (snd (updateDependencies testPlatform testResolver
            (testSource\<lparr>extSymbolicLinks := Some [''/tmp/tmpExtensions/packages/@che-folder2'']\<rparr>)
            True testState))))
         ''/tmp/tmpExtensions/packages/@che-folder2/package.json'' =
     Some ''{\<newline>  \"name\": \"@che-theia/sample2\",\<newline>  \"version\": \"6.7.8\",\<newline>  \"dependencies\": {},\<newline>  \"devDependencies\": {}\<newline>}\<newline>''
   \<and> \<not> sublist ''\"name\":\"@che-theia/sample2\"''
         ''{\<newline>  \"name\": \"@che-theia/sample2\",\<newline>  \"version\": \"6.7.8\",\<newline>  \"dependencies\": {},\<newline>  \"devDependencies\": {}\<newline>}\<newline>''"
proof -
  have a: "map_of (files (world testState)) ''/tmp/tmpExtensions/packages/@che-folder2/package.json'' =
     Some (''{'' @ ''\"name\":\"@che-theia/sample2\"'' @ '',\"version\":\"6.7.8\"}'')"
    by (simp add: testState_def testDisk_def folder2Text_def)
  have b: "updateDependencies testPlatform testResolver
            (testSource\<lparr>extSymbolicLinks := Some [''/tmp/tmpExtensions/packages/@che-folder2'']\<rparr>)
            True testState =
          (Inr (),
           \<lparr>world = testDisk\<lparr>present := ''/tmp/tmpExtensions/packages/@che-folder2/package.json'' # present testDisk,
                               files := (''/tmp/tmpExtensions/packages/@che-folder2/package.json'',
                                         ''{\<newline>  \"name\": \"@che-theia/sample2\",\<newline>  \"version\": \"6.7.8\",\<newline>  \"dependencies\": {},\<newline>  \"devDependencies\": {}\<newline>}\<newline>'')
                                        # files testDisk\<rparr>,
            calls = [WriteFile ''/tmp/tmpExtensions/packages/@che-folder2/package.json''
                       ''{\<newline>  \"name\": \"@che-theia/sample2\",\<newline>  \"version\": \"6.7.8\",\<newline>  \"dependencies\": {},\<newline>  \"devDependencies\": {}\<newline>}\<newline>'']\<rparr>)"
    by (simp add: updateDependencies_def Promise_all_def updatePackageJson_def perform_def issue_def
        Let_def getProperty_def assign_def defineProperty_def arrayIndex_def isDigit_def
        updatedDependencies_def whenTruthy_def
        testPlatform_def testSource_def testState_def testDisk_def
        joinSegments_def readManifest_def manifestParse_def writeText_def
        folder1Text_def folder2Text_def folder2Manifest_def quote_def quoteChar_def)
  have c: "\<not> sublist ''\"name\":\"@che-theia/sample2\"''
         ''{\<newline>  \"name\": \"@che-theia/sample2\",\<newline>  \"version\": \"6.7.8\",\<newline>  \"dependencies\": {},\<newline>  \"devDependencies\": {}\<newline>}\<newline>''"
    by (simp add: sublist_code)
  from a b c show ?thesis by simp
qed

text \<open>
  C3, amended. In a run of \<open>updateDependencies\<close> with rewriting on, at each link of the
  entry whose manifest is an object: the callbacks of the links before it have run, the
  manifest is read in the world they left, and the callback issues exactly one call, the
  write of that manifest. What is written is the serialization, followed by the end of
  line, of the raw manifest object (the one \<open>require\<close> gives) after the assignments to
  \<open>dependencies\<close> and \<open>devDependencies\<close>, and the world after the callback is the world
  before it with this write applied. In the object written every field other than the two
  has the name and the value it has in the raw manifest, and these fields are in the same
  order. The bytes written for a field are those the serializer gives for its name and
  value; they need not be the bytes of the input.
\<close>

theorem updateDependencies_keeps_other_fields:
  assumes "extSymbolicLinks extension = Some (before @ symbolicLink # after)"
    and "mapAsync (updatePackageJson sys this True) before st = (rs, st1)"
    and "extensionJsonPath = path_join sys [symbolicLink, ''package.json'']"
    and "readPkg sys extensionJsonPath (world st1) = Inr (JObj packageFields)"
    and "require sys extensionJsonPath (world st1) = Inr (JObj rawFields)"
    and "written = assign (assign rawFields ''dependencies''
                             (updatedDependencies this (map_of packageFields ''dependencies'')))
                     ''devDependencies''
                     (updatedDependencies this (map_of packageFields ''devDependencies''))"
    and "content = JSON_stringify sys (JObj written) @ os_EOL sys"
    and "updatePackageJson sys this True symbolicLink st1 = (r, st2)"
    and "mapAsync (updatePackageJson sys this True) after st2 = (rs', st3)"
  shows "r = (case fst (fs_writeFile sys extensionJsonPath content (world st1)) of
                Some e \<Rightarrow> Inl e | None \<Rightarrow> Inr ())
       \<and> world st2 = snd (fs_writeFile sys extensionJsonPath content (world st1))
       \<and> calls st2 = calls st1 @ [WriteFile extensionJsonPath content]
       \<and> updateDependencies sys this extension True st =
           (case allResults (rs @ r # rs') of Inl e \<Rightarrow> Inl e | Inr us \<Rightarrow> Inr (), st3)
       \<and> nonDependencyFields (JObj written) = nonDependencyFields (JObj rawFields)"
proof -
  have k: "isDependencyField ''dependencies''" "isDependencyField ''devDependencies''"
    by (simp_all add: isDependencyField_def)
  have "filter (\<lambda>(name, v). \<not> isDependencyField name) written
          = filter (\<lambda>(name, v). \<not> isDependencyField name) rawFields"
    unfolding assms(6) assign_dependencies assign_devDependencies
    by (simp add: filter_setProperty [OF k(1)] filter_setProperty [OF k(2)])
  then have "nonDependencyFields (JObj written) = nonDependencyFields (JObj rawFields)" by simp
  with updateDependencies_rewrites [OF assms] show ?thesis by simp
qed

text \<open>
  C4. In a run of \<open>updateDependencies\<close> with rewriting on, at each link of the entry whose
  manifest is an object: the callback writes the manifest, the world after it is the world
  before it with the write applied, and what is written is the serialization of the raw
  manifest object after its two assignments. When the manifest read has no \<open>dependencies\<close>
  key, the object written has the field \<open>dependencies\<close> with the empty object as its
  value; likewise for \<open>devDependencies\<close>.
\<close>

theorem updateDependencies_empty_mappings:
  assumes "extSymbolicLinks extension = Some (before @ symbolicLink # after)"
    and "mapAsync (updatePackageJson sys this True) before st = (rs, st1)"
    and "extensionJsonPath = path_join sys [symbolicLink, ''package.json'']"
    and "readPkg sys extensionJsonPath (world st1) = Inr (JObj packageFields)"
    and "require sys extensionJsonPath (world st1) = Inr (JObj rawFields)"
    and "written = assign (assign rawFields ''dependencies''
                             (updatedDependencies this (map_of packageFields ''dependencies'')))
                     ''devDependencies''
                     (updatedDependencies this (map_of packageFields ''devDependencies''))"
    and "content = JSON_stringify sys (JObj written) @ os_EOL sys"
    and "updatePackageJson sys this True symbolicLink st1 = (r, st2)"
    and "mapAsync (updatePackageJson sys this True) after st2 = (rs', st3)"
  shows "r = (case fst (fs_writeFile sys extensionJsonPath content (world st1)) of
                Some e \<Rightarrow> Inl e | None \<Rightarrow> Inr ())
       \<and> world st2 = snd (fs_writeFile sys extensionJsonPath content (world st1))
       \<and> calls st2 = calls st1 @ [WriteFile extensionJsonPath content]
       \<and> updateDependencies sys this extension True st =
           (case allResults (rs @ r # rs') of Inl e \<Rightarrow> Inl e | Inr us \<Rightarrow> Inr (), st3)
       \<and> (map_of packageFields ''dependencies'' = None
            \<longrightarrow> map_of written ''dependencies'' = Some (JObj []))
       \<and> (map_of packageFields ''devDependencies'' = None
            \<longrightarrow> map_of written ''devDependencies'' = Some (JObj []))"
proof -
  have d: "map_of packageFields ''dependencies'' = None
            \<longrightarrow> map_of written ''dependencies'' = Some (JObj [])"
    unfolding assms(6) assign_dependencies assign_devDependencies
    by (simp add: map_of_setProperty_same map_of_setProperty_other updatedDependencies_absent)
  have e: "map_of packageFields ''devDependencies'' = None
            \<longrightarrow> map_of written ''devDependencies'' = Some (JObj [])"
    unfolding assms(6) assign_dependencies assign_devDependencies
    by (simp add: map_of_setProperty_same updatedDependencies_absent)
  from updateDependencies_rewrites [OF assms] d e show ?thesis by simp
qed

text \<open>
  The example entry: the rewriter at the first link and, in the world it leaves, at the
  second.
\<close>

lemma updatePackageJson_folder1:
  "updatePackageJson testPlatform testResolver True ''/tmp/tmpExtensions/packages/@che-folder1'' testState =
     (Inr (),
      \<lparr>world = testDisk\<lparr>present := [''/tmp/tmpExtensions/packages/@che-folder1/package.json'', ''/work/che-theia''],
                          files := [(''/tmp/tmpExtensions/packages/@che-folder1/package.json'', folder1Rewritten),
                                    (''/tmp/tmpExtensions/packages/@che-folder1/package.json'', folder1Text),
                                    (''/tmp/tmpExtensions/packages/@che-folder2/package.json'', folder2Text)]\<rparr>,
       calls = [WriteFile ''/tmp/tmpExtensions/packages/@che-folder1/package.json'' folder1Rewritten]\<rparr>)"
  by (simp add: updatePackageJson_def perform_def issue_def
      Let_def getProperty_def assign_def defineProperty_def arrayIndex_def isDigit_def
      updatedDependencies_def whenTruthy_def updateDependency_def startsWith_def
      testPlatform_def testResolver_def testState_def testDisk_def
      joinSegments_def readManifest_def manifestParse_def writeText_def
      folder1Text_def folder2Text_def folder1Manifest_def folder1Rewritten_def quote_def quoteChar_def)

lemma updatePackageJson_folder2:
  "updatePackageJson testPlatform testResolver True ''/tmp/tmpExtensions/packages/@che-folder2''
     \<lparr>world = testDisk\<lparr>present := [''/tmp/tmpExtensions/packages/@che-folder1/package.json'', ''/work/che-theia''],
                         files := [(''/tmp/tmpExtensions/packages/@che-folder1/package.json'', folder1Rewritten),
                                   (''/tmp/tmpExtensions/packages/@che-folder1/package.json'', folder1Text),
                                   (''/tmp/tmpExtensions/packages/@che-folder2/package.json'', folder2Text)]\<rparr>,
      calls = [WriteFile ''/tmp/tmpExtensions/packages/@che-folder1/package.json'' folder1Rewritten]\<rparr> =
     (Inr (),
      \<lparr>world = testDisk\<lparr>present := [''/tmp/tmpExtensions/packages/@che-folder2/package.json'',
                                     ''/tmp/tmpExtensions/packages/@che-folder1/package.json'', ''/work/che-theia''],
                          files := [(''/tmp/tmpExtensions/packages/@che-folder2/package.json'', folder2Rewritten),
                                    (''/tmp/tmpExtensions/packages/@che-folder1/package.json'', folder1Rewritten),
                                    (''/tmp/tmpExtensions/packages/@che-folder1/package.json'', folder1Text),
                                    (''/tmp/tmpExtensions/packages/@che-folder2/package.json'', folder2Text)]\<rparr>,
       calls = [WriteFile ''/tmp/tmpExtensions/packages/@che-folder1/package.json'' folder1Rewritten,
                WriteFile ''/tmp/tmpExtensions/packages/@che-folder2/package.json'' folder2Rewritten]\<rparr>)"
  by (simp add: updatePackageJson_def perform_def issue_def
      Let_def getProperty_def assign_def defineProperty_def arrayIndex_def isDigit_def
      updatedDependencies_def whenTruthy_def
      testPlatform_def testDisk_def
      joinSegments_def readManifest_def manifestParse_def writeText_def
      folder1Text_def folder2Text_def folder2Manifest_def folder2Rewritten_def quote_def quoteChar_def)

theorem updateDependencies_keeps_other_fields_witness:
  "require testPlatform ''/tmp/tmpExtensions/packages/@che-folder1/package.json'' (world testState)
     = Inr folder1Manifest
   \<and> updateDependencies testPlatform testResolver
        (testSource\<lparr>extSymbolicLinks := Some [''/tmp/tmpExtensions/packages/@che-folder1'',
                                               ''/tmp/tmpExtensions/packages/@che-folder2'']\<rparr>)
        True testState =
       (Inr (),
        \<lparr>world = testDisk\<lparr>present := [''/tmp/tmpExtensions/packages/@che-folder2/package.json'',
                                       ''/tmp/tmpExtensions/packages/@che-folder1/package.json'', ''/work/che-theia''],
                            files := [(''/tmp/tmpExtensions/packages/@che-folder2/package.json'', folder2Rewritten),
                                      (''/tmp/tmpExtensions/packages/@che-folder1/package.json'', folder1Rewritten),
                                      (''/tmp/tmpExtensions/packages/@che-folder1/package.json'', folder1Text),
                                      (''/tmp/tmpExtensions/packages/@che-folder2/package.json'', folder2Text)]\<rparr>,
         calls = [WriteFile ''/tmp/tmpExtensions/packages/@che-folder1/package.json'' folder1Rewritten,
                  WriteFile ''/tmp/tmpExtensions/packages/@che-folder2/package.json'' folder2Rewritten]\<rparr>)
   \<and> folder1Rewritten =
       JSON_stringify testPlatform
         (JObj [(''name'', JStr ''@che-theia/sample1''),
                (''version'', JStr ''0.1.2''),
                (''license'', JStr ''EPL-2.0''),
                (''dependencies'', JObj [(''@theia/core'', JStr ''^1.2.3''), (''rimraf'', JStr ''5.6.7''),
                                         (''left-pad'', JStr ''1.3.0'')]),
                (''scripts'', JObj [(''build'', JStr ''tsc'')]),
                (''devDependencies'', JObj [])])
       @ os_EOL testPlatform
   \<and> nonDependencyFields
         (JObj [(''name'', JStr ''@che-theia/sample1''),
                (''version'', JStr ''0.1.2''),
                (''license'', JStr ''EPL-2.0''),
                (''dependencies'', JObj [(''@theia/core'', JStr ''^1.2.3''), (''rimraf'', JStr ''5.6.7''),
                                         (''left-pad'', JStr ''1.3.0'')]),
                (''scripts'', JObj [(''build'', JStr ''tsc'')]),
                (''devDependencies'', JObj [])])
       = nonDependencyFields folder1Manifest
   \<and> nonDependencyFields folder1Manifest =
       JObj [(''name'', JStr ''@che-theia/sample1''),
             (''version'', JStr ''0.1.2''),
             (''license'', JStr ''EPL-2.0''),
             (''scripts'', JObj [(''build'', JStr ''tsc'')])]"
proof -
  let ?p1 = "''/tmp/tmpExtensions/packages/@che-folder1/package.json''"
  let ?p2 = "''/tmp/tmpExtensions/packages/@che-folder2/package.json''"
  let ?fields = "[(''name'', JStr ''@che-theia/sample1''),
                  (''version'', JStr ''0.1.2''),
                  (''license'', JStr ''EPL-2.0''),
                  (''dependencies'', JObj [(''@theia/core'', JStr ''0.3.0''), (''rimraf'', JStr ''2.0.0''),
                                           (''left-pad'', JStr ''1.3.0'')]),
                  (''scripts'', JObj [(''build'', JStr ''tsc'')])]"
  let ?written = "[(''name'', JStr ''@che-theia/sample1''),
                   (''version'', JStr ''0.1.2''),
                   (''license'', JStr ''EPL-2.0''),
                   (''dependencies'', JObj [(''@theia/core'', JStr ''^1.2.3''), (''rimraf'', JStr ''5.6.7''),
                                            (''left-pad'', JStr ''1.3.0'')]),
                   (''scripts'', JObj [(''build'', JStr ''tsc'')]),
                   (''devDependencies'', JObj [])]"
  let ?st1 = "\<lparr>world = testDisk\<lparr>present := [?p1, ''/work/che-theia''],
                          files := [(?p1, folder1Rewritten), (?p1, folder1Text), (?p2, folder2Text)]\<rparr>,
               calls = [WriteFile ?p1 folder1Rewritten]\<rparr>"
  let ?st2 = "\<lparr>world = testDisk\<lparr>present := [?p2, ?p1, ''/work/che-theia''],
                          files := [(?p2, folder2Rewritten), (?p1, folder1Rewritten),
                                    (?p1, folder1Text), (?p2, folder2Text)]\<rparr>,
               calls = [WriteFile ?p1 folder1Rewritten, WriteFile ?p2 folder2Rewritten]\<rparr>"
  have links: "extSymbolicLinks (testSource\<lparr>extSymbolicLinks := Some [''/tmp/tmpExtensions/packages/@che-folder1'',
                                               ''/tmp/tmpExtensions/packages/@che-folder2'']\<rparr>)
      = Some ([] @ ''/tmp/tmpExtensions/packages/@che-folder1'' # [''/tmp/tmpExtensions/packages/@che-folder2''])"
    by simp
  have earlier: "mapAsync (updatePackageJson testPlatform testResolver True) [] testState = ([], testState)"
    by simp
  have path: "?p1 = path_join testPlatform [''/tmp/tmpExtensions/packages/@che-folder1'', ''package.json'']"
    by (simp add: testPlatform_def joinSegments_def)
  have package: "readPkg testPlatform ?p1 (world testState) = Inr (JObj ?fields)"
    by (simp add: testPlatform_def testState_def testDisk_def readManifest_def manifestParse_def
        folder1Manifest_def)
  have raw: "require testPlatform ?p1 (world testState) = Inr (JObj ?fields)"
    by (simp add: testPlatform_def testState_def testDisk_def readManifest_def manifestParse_def
        folder1Manifest_def)
  have callback: "updatePackageJson testPlatform testResolver True ''/tmp/tmpExtensions/packages/@che-folder1'' testState
      = (Inr (), ?st1)"
    by (rule updatePackageJson_folder1)
  have later: "mapAsync (updatePackageJson testPlatform testResolver True)
      [''/tmp/tmpExtensions/packages/@che-folder2''] ?st1 = ([Inr ()], ?st2)"
    by (simp add: updatePackageJson_folder2)
  have written: "assign (assign ?fields ''dependencies''
                             (updatedDependencies testResolver (map_of ?fields ''dependencies'')))
                     ''devDependencies''
                     (updatedDependencies testResolver (map_of ?fields ''devDependencies'')) = ?written"
    by (simp add: assign_def defineProperty_def arrayIndex_def isDigit_def
        updatedDependencies_def whenTruthy_def updateDependency_def startsWith_def testResolver_def)
  note w = updateDependencies_keeps_other_fields [OF links earlier path package raw refl refl callback later]
  from w have run: "updateDependencies testPlatform testResolver
        (testSource\<lparr>extSymbolicLinks := Some [''/tmp/tmpExtensions/packages/@che-folder1'',
                                               ''/tmp/tmpExtensions/packages/@che-folder2'']\<rparr>)
        True testState = (Inr (), ?st2)"
    by simp
  from w have kept: "nonDependencyFields (JObj ?written) = nonDependencyFields folder1Manifest"
    unfolding written by (simp add: folder1Manifest_def)
  have printed: "folder1Rewritten = JSON_stringify testPlatform (JObj ?written) @ os_EOL testPlatform"
    by (simp add: testPlatform_def folder1Rewritten_def quote_def quoteChar_def)
  have other: "nonDependencyFields folder1Manifest =
       JObj [(''name'', JStr ''@che-theia/sample1''),
             (''version'', JStr ''0.1.2''),
             (''license'', JStr ''EPL-2.0''),
             (''scripts'', JObj [(''build'', JStr ''tsc'')])]"
    by (simp add: folder1Manifest_def isDependencyField_def)
  have raw': "require testPlatform ?p1 (world testState) = Inr folder1Manifest"
    using raw by (simp add: folder1Manifest_def)
  from raw' run printed kept other show ?thesis by blast
qed

theorem updateDependencies_empty_mappings_witness:
  "readPkg testPlatform ''/tmp/tmpExtensions/packages/@che-folder2/package.json''
       (world (snd (updatePackageJson testPlatform testResolver True
                      ''/tmp/tmpExtensions/packages/@che-folder1'' testState)))
     = Inr folder2Manifest
   \<and> lookupProperty folder2Manifest ''dependencies'' = None
   \<and> lookupProperty folder2Manifest ''devDependencies'' = None
   \<and> updateDependencies testPlatform testResolver
        (testSource\<lparr>extSymbolicLinks := Some [''/tmp/tmpExtensions/packages/@che-folder1'',
                                               ''/tmp/tmpExtensions/packages/@che-folder2'']\<rparr>)
        True testState =
       (Inr (),
        \<lparr>world = testDisk\<lparr>present := [''/tmp/tmpExtensions/packages/@che-folder2/package.json'',
                                       ''/tmp/tmpExtensions/packages/@che-folder1/package.json'', ''/work/che-theia''],
                            files := [(''/tmp/tmpExtensions/packages/@che-folder2/package.json'', folder2Rewritten),
                                      (''/tmp/tmpExtensions/packages/@che-folder1/package.json'', folder1Rewritten),
                                      (''/tmp/tmpExtensions/packages/@che-folder1/package.json'', folder1Text),
                                      (''/tmp/tmpExtensions/packages/@che-folder2/package.json'', folder2Text)]\<rparr>,
         calls = [WriteFile ''/tmp/tmpExtensions/packages/@che-folder1/package.json'' folder1Rewritten,
                  WriteFile ''/tmp/tmpExtensions/packages/@che-folder2/package.json'' folder2Rewritten]\<rparr>)
   \<and> folder2Rewritten =
       JSON_stringify testPlatform
         (JObj [(''name'', JStr ''@che-theia/sample2''), (''version'', JStr ''6.7.8''),
                (''dependencies'', JObj []), (''devDependencies'', JObj [])])
       @ os_EOL testPlatform
   \<and> map_of [(''name'', JStr ''@che-theia/sample2''), (''version'', JStr ''6.7.8''),
              (''dependencies'', JObj []), (''devDependencies'', JObj [])] ''dependencies'' = Some (JObj [])
   \<and> map_of [(''name'', JStr ''@che-theia/sample2''), (''version'', JStr ''6.7.8''),
              (''dependencies'', JObj []), (''devDependencies'', JObj [])] ''devDependencies'' = Some (JObj [])"
proof -
  let ?p1 = "''/tmp/tmpExtensions/packages/@che-folder1/package.json''"
  let ?p2 = "''/tmp/tmpExtensions/packages/@che-folder2/package.json''"
  let ?fields = "[(''name'', JStr ''@che-theia/sample2''), (''version'', JStr ''6.7.8'')]"
  let ?written = "[(''name'', JStr ''@che-theia/sample2''), (''version'', JStr ''6.7.8''),
                   (''dependencies'', JObj []), (''devDependencies'', JObj [])]"
  let ?st1 = "\<lparr>world = testDisk\<lparr>present := [?p1, ''/work/che-theia''],
                          files := [(?p1, folder1Rewritten), (?p1, folder1Text), (?p2, folder2Text)]\<rparr>,
               calls = [WriteFile ?p1 folder1Rewritten]\<rparr>"
  let ?st2 = "\<lparr>world = testDisk\<lparr>present := [?p2, ?p1, ''/work/che-theia''],
                          files := [(?p2, folder2Rewritten), (?p1, folder1Rewritten),
                                    (?p1, folder1Text), (?p2, folder2Text)]\<rparr>,
               calls = [WriteFile ?p1 folder1Rewritten, WriteFile ?p2 folder2Rewritten]\<rparr>"
  have links: "extSymbolicLinks (testSource\<lparr>extSymbolicLinks := Some [''/tmp/tmpExtensions/packages/@che-folder1'',
                                               ''/tmp/tmpExtensions/packages/@che-folder2'']\<rparr>)
      = Some ([''/tmp/tmpExtensions/packages/@che-folder1''] @ ''/tmp/tmpExtensions/packages/@che-folder2'' # [])"
    by simp
  have earlier: "mapAsync (updatePackageJson testPlatform testResolver True)
      [''/tmp/tmpExtensions/packages/@che-folder1''] testState = ([Inr ()], ?st1)"
    by (simp add: updatePackageJson_folder1)
  have path: "?p2 = path_join testPlatform [''/tmp/tmpExtensions/packages/@che-folder2'', ''package.json'']"
    by (simp add: testPlatform_def joinSegments_def)
  have package: "readPkg testPlatform ?p2 (world ?st1) = Inr (JObj ?fields)"
    by (simp add: testPlatform_def testDisk_def readManifest_def manifestParse_def
        folder1Text_def folder2Text_def folder2Manifest_def)
  have raw: "require testPlatform ?p2 (world ?st1) = Inr (JObj ?fields)"
    by (simp add: testPlatform_def testDisk_def readManifest_def manifestParse_def
        folder1Text_def folder2Text_def folder2Manifest_def)
  have callback: "updatePackageJson testPlatform testResolver True ''/tmp/tmpExtensions/packages/@che-folder2'' ?st1
      = (Inr (), ?st2)"
    by (rule updatePackageJson_folder2)
  have later: "mapAsync (updatePackageJson testPlatform testResolver True) [] ?st2 = ([], ?st2)"
    by simp
  have written: "assign (assign ?fields ''dependencies''
                             (updatedDependencies testResolver (map_of ?fields ''dependencies'')))
                     ''devDependencies''
                     (updatedDependencies testResolver (map_of ?fields ''devDependencies'')) = ?written"
    by (simp add: assign_def defineProperty_def arrayIndex_def isDigit_def
        updatedDependencies_def whenTruthy_def)
  note w = updateDependencies_empty_mappings [OF links earlier path package raw refl refl callback later]
  from w have run: "updateDependencies testPlatform testResolver
        (testSource\<lparr>extSymbolicLinks := Some [''/tmp/tmpExtensions/packages/@che-folder1'',
                                               ''/tmp/tmpExtensions/packages/@che-folder2'']\<rparr>)
        True testState = (Inr (), ?st2)"
    by simp
  from w have empty: "map_of ?written ''dependencies'' = Some (JObj [])"
    "map_of ?written ''devDependencies'' = Some (JObj [])"
    unfolding written by simp_all
  have printed: "folder2Rewritten = JSON_stringify testPlatform (JObj ?written) @ os_EOL testPlatform"
    by (simp add: testPlatform_def folder2Rewritten_def quote_def quoteChar_def)
  have absent: "lookupProperty folder2Manifest ''dependencies'' = None"
    "lookupProperty folder2Manifest ''devDependencies'' = None"
    by (simp_all add: folder2Manifest_def)
  have package': "readPkg testPlatform ?p2
       (world (snd (updatePackageJson testPlatform testResolver True
                      ''/tmp/tmpExtensions/packages/@che-folder1'' testState)))
     = Inr folder2Manifest"
    using package by (simp add: updatePackageJson_folder1 folder2Manifest_def)
  from package' absent run printed empty show ?thesis by blast
qed

section \<open>The workspace index\<close>

lemma setProperty_not_empty: "setProperty kvs key v \<noteq> []"
  by (cases kvs) (auto split: if_splits)

lemma addWorkspace_not_empty:
  "addWorkspace sys this yarnWorkspaces entry = Inr yarnWorkspaces' \<Longrightarrow> yarnWorkspaces' \<noteq> []"
  by (auto simp: addWorkspace_def setProperty_not_empty
      split: prod.splits sum.splits option.splits json.splits)

lemma addWorkspaces_not_empty:
  "addWorkspaces sys this yarnWorkspaces entries = Inr yarnWorkspaces'
     \<Longrightarrow> yarnWorkspaces \<noteq> [] \<or> entries \<noteq> [] \<Longrightarrow> yarnWorkspaces' \<noteq> []"
proof (induction entries arbitrary: yarnWorkspaces)
  case Nil
  then show ?case by simp
next
  case (Cons entry entries)
  from Cons.prems(1) obtain ws where a: "addWorkspace sys this yarnWorkspaces entry = Inr ws"
    and b: "addWorkspaces sys this ws entries = Inr yarnWorkspaces'"
    by (auto split: sum.splits)
  from a have "ws \<noteq> []" by (rule addWorkspace_not_empty)
  with Cons.IH [OF b] show ?case by simp
qed

text \<open>
  When discovery finds nothing: the output of yarn has no truthy \<open>data\<close>, or its \<open>data\<close>
  is a document without entries. Any entry that is read gives a package.
\<close>

lemma readYarnWorkspaces_no_data:
  assumes "JSON_parse sys yarnWorkspacesRawData = Some parsed"
    and "whenTruthy (lookupProperty parsed ''data'') = None"
  shows "readYarnWorkspaces sys this yarnWorkspacesRawData = Inr []"
  using assms by (simp add: readYarnWorkspaces_def)

lemma readYarnWorkspaces_no_entries:
  assumes "JSON_parse sys yarnWorkspacesRawData = Some parsed" and "truthy parsed"
    and "whenTruthy (lookupProperty parsed ''data'') = Some d"
    and "JSON_parse sys (toString sys d) = Some parsedData"
    and "Object_entries (Some parsedData) = Inr []"
  shows "readYarnWorkspaces sys this yarnWorkspacesRawData = Inr []"
  using assms by (simp add: readYarnWorkspaces_def)

lemma readYarnWorkspaces_entries:
  assumes "JSON_parse sys yarnWorkspacesRawData = Some parsed" and "truthy parsed"
    and "whenTruthy (lookupProperty parsed ''data'') = Some d"
    and "JSON_parse sys (toString sys d) = Some parsedData"
    and "Object_entries (Some parsedData) = Inr entries" and "entries \<noteq> []"
    and "readYarnWorkspaces sys this yarnWorkspacesRawData = Inr yarnWorkspaces"
  shows "yarnWorkspaces \<noteq> []"
proof -
  from assms have "addWorkspaces sys this [] entries = Inr yarnWorkspaces"
    by (simp add: readYarnWorkspaces_def)
  from addWorkspaces_not_empty [OF this] assms(6) show ?thesis by simp
qed

text \<open>
  C7. \<open>getYarnWorkspaces\<close> never returns an empty index: the index of every successful
  return has at least one package. When yarn ran and discovery (the reading of its output
  into the index) gave no package, the call throws
  \<open>Error('Yarn Workspaces are not found')\<close>.
\<close>

theorem getYarnWorkspaces_never_empty:
  "(getYarnWorkspaces sys this st = (Inr yarnWorkspaces, st') \<longrightarrow> yarnWorkspaces \<noteq> [])
   \<and> (cp_execSync sys ''yarn --json --silent workspaces info'' (rootFolder this) (world st)
          = (Inr yarnWorkspacesRawData, w)
        \<and> readYarnWorkspaces sys this yarnWorkspacesRawData = Inr []
      \<longrightarrow> fst (getYarnWorkspaces sys this st) = Inl (Error ''Yarn Workspaces are not found''))"
  by (auto simp: getYarnWorkspaces_def request_def Let_def split: prod.splits sum.splits if_splits)

lemma getYarnWorkspaces_test_run:
  "fst (getYarnWorkspaces testPlatform testResolver testState) =
     Inr [(''@theia/core'', JObj [(''location'', JStr ''/tmp/tmpExtensions/packages/core'')])]"
  by (simp add: getYarnWorkspaces_def request_def readYarnWorkspaces_def Let_def
      testPlatform_def testResolver_def testState_def testDisk_def sampleParse_def workspacesText_def
      whenTruthy_def toString_def Object_entries_def addWorkspace_def getProperty_def assign_def
      defineProperty_def arrayIndex_def isDigit_def joinSegments_def issue_def)

theorem getYarnWorkspaces_never_empty_witness:
  "(\<exists>yarnWorkspaces st'. getYarnWorkspaces testPlatform testResolver testState = (Inr yarnWorkspaces, st')
       \<and> yarnWorkspaces \<noteq> [])
   \<and> cp_execSync testPlatform ''yarn --json --silent workspaces info'' (rootFolder testResolver)
        (world (testState\<lparr>world := testDisk\<lparr>yarnOutput := ''{\"type\":\"log\",\"data\":\"{}\"}''\<rparr>\<rparr>))
        = (Inr ''{\"type\":\"log\",\"data\":\"{}\"}'', testDisk\<lparr>yarnOutput := ''{\"type\":\"log\",\"data\":\"{}\"}''\<rparr>)
   \<and> readYarnWorkspaces testPlatform testResolver ''{\"type\":\"log\",\"data\":\"{}\"}'' = Inr []
   \<and> fst (getYarnWorkspaces testPlatform testResolver
             (testState\<lparr>world := testDisk\<lparr>yarnOutput := ''{\"type\":\"log\",\"data\":\"{}\"}''\<rparr>\<rparr>))
        = Inl (Error ''Yarn Workspaces are not found'')"
proof -
  obtain ws st1 where r: "getYarnWorkspaces testPlatform testResolver testState = (Inr ws, st1)"
    using getYarnWorkspaces_test_run by (cases "getYarnWorkspaces testPlatform testResolver testState") auto
  have a: "ws \<noteq> []"
    using getYarnWorkspaces_never_empty [of testPlatform testResolver testState ws st1] r by blast
  let ?out = "''{\"type\":\"log\",\"data\":\"{}\"}''"
  let ?st = "testState\<lparr>world := testDisk\<lparr>yarnOutput := ?out\<rparr>\<rparr>"
  have e: "cp_execSync testPlatform ''yarn --json --silent workspaces info'' (rootFolder testResolver) (world ?st)
        = (Inr ?out, testDisk\<lparr>yarnOutput := ?out\<rparr>)"
    by (simp add: testPlatform_def)
  have z: "readYarnWorkspaces testPlatform testResolver ?out = Inr []"
    by (simp add: readYarnWorkspaces_def testPlatform_def sampleParse_def workspacesText_def
        whenTruthy_def toString_def Object_entries_def)
  have b: "fst (getYarnWorkspaces testPlatform testResolver ?st) = Inl (Error ''Yarn Workspaces are not found'')"
    using getYarnWorkspaces_never_empty [of testPlatform testResolver ?st _ _ ?out "testDisk\<lparr>yarnOutput := ?out\<rparr>"] e z
    by blast
  from r a e z b show ?thesis by blast
qed

section \<open>Preferences that are set already\<close>

lemma setPreferenceValue_notices:
  "notices (setPreferenceValue sv k v st) =
     notices st @ (if preferenceService_has sv (preferenceState st) k then [] else [PreferenceSet k v Workspace])"
  by (simp add: setPreferenceValue_def report_def)

lemma setPreferenceValue_state:
  "preferenceState (setPreferenceValue sv k v st) =
     (if preferenceService_has sv (preferenceState st) k then preferenceState st
      else preferenceService_set sv k v Workspace (preferenceState st))"
  by (simp add: setPreferenceValue_def report_def)

text \<open>
  One pair: the state of the service changes by at most one \<open>set\<close>, of a key it does
  not have; the notices grow by the warning, if any, and the record of that \<open>set\<close>.
\<close>

lemma setPluginProperty_step:
  "\<exists>v' ws.
     preferenceState (setPluginProperty sv st (k, v)) =
       (if preferenceService_has sv (preferenceState st) k then preferenceState st
        else preferenceService_set sv k v' Workspace (preferenceState st))
   \<and> notices (setPluginProperty sv st (k, v)) =
       notices st @ ws @ (if preferenceService_has sv (preferenceState st) k then []
                          else [PreferenceSet k v' Workspace])
   \<and> (\<forall>n\<in>set ws. \<exists>key x. n = Console_warn key x)"
proof (cases "parse sv (case v of JStr s \<Rightarrow> s | _ \<Rightarrow> stringOf sv v)")
  case None
  then show ?thesis
    by (intro exI [of _ v] exI [of _ "[Console_warn k v]"])
       (simp add: setPluginProperty_def setPreferenceValue_notices setPreferenceValue_state report_def)
next
  case (Some parsed)
  then show ?thesis
    by (intro exI [of _ parsed] exI [of _ "[]"])
       (simp add: setPluginProperty_def setPreferenceValue_notices setPreferenceValue_state)
qed

lemma setPluginProperty_has:
  assumes stay: "\<And>p k k' v. k \<noteq> k' \<Longrightarrow> preferenceService_has sv p k'
                   \<Longrightarrow> preferenceService_has sv (preferenceService_set sv k v Workspace p) k'"
    and "preferenceService_has sv (preferenceState st) k'"
  shows "preferenceService_has sv (preferenceState (setPluginProperty sv st (k, v))) k'"
proof -
  from setPluginProperty_step [of sv st k v] obtain v' where
    s: "preferenceState (setPluginProperty sv st (k, v)) =
       (if preferenceService_has sv (preferenceState st) k then preferenceState st
        else preferenceService_set sv k v' Workspace (preferenceState st))"
    by blast
  show ?thesis
  proof (cases "preferenceService_has sv (preferenceState st) k")
    case True
    with s assms(2) show ?thesis by simp
  next
    case False
    with assms(2) have "k \<noteq> k'" by auto
    from stay [OF this assms(2)] s False show ?thesis by simp
  qed
qed

text \<open>The loop over the pairs, from any state of the page.\<close>

lemma setPluginProperties_loop:
  assumes stay: "\<And>p k k' v. k \<noteq> k' \<Longrightarrow> preferenceService_has sv p k'
                   \<Longrightarrow> preferenceService_has sv (preferenceService_set sv k v Workspace p) k'"
  shows "\<exists>ns. notices (foldl (setPluginProperty sv) st props) = notices st @ ns
           \<and> (\<forall>k v scope. PreferenceSet k v scope \<in> set ns \<longrightarrow>
                 scope = Workspace \<and> \<not> preferenceService_has sv (preferenceState st) k)"
proof (induction props arbitrary: st)
  case Nil
  show ?case by simp
next
  case (Cons pair props)
  obtain k v where pair: "pair = (k, v)" by (cases pair)
  let ?st1 = "setPluginProperty sv st (k, v)"
  from setPluginProperty_step [of sv st k v] obtain v' ws where
    n1: "notices ?st1 = notices st @ ws @ (if preferenceService_has sv (preferenceState st) k then []
                          else [PreferenceSet k v' Workspace])"
    and ws: "\<forall>n\<in>set ws. \<exists>key x. n = Console_warn key x"
    by blast
  from Cons.IH [of ?st1] obtain ns where
    n2: "notices (foldl (setPluginProperty sv) ?st1 props) = notices ?st1 @ ns"
    and p2: "\<forall>k v scope. PreferenceSet k v scope \<in> set ns \<longrightarrow>
                 scope = Workspace \<and> \<not> preferenceService_has sv (preferenceState ?st1) k"
    by blast
  have p2': "\<forall>k' x scope. PreferenceSet k' x scope \<in> set ns \<longrightarrow>
                 scope = Workspace \<and> \<not> preferenceService_has sv (preferenceState st) k'"
    using p2 setPluginProperty_has [of sv st _ k v, OF stay] by blast
  let ?ms = "ws @ (if preferenceService_has sv (preferenceState st) k then []
                          else [PreferenceSet k v' Workspace]) @ ns"
  have "notices (foldl (setPluginProperty sv) st (pair # props)) = notices st @ ?ms"
    using pair n1 n2 by simp
  moreover have "\<forall>k' x scope. PreferenceSet k' x scope \<in> set ?ms \<longrightarrow>
                 scope = Workspace \<and> \<not> preferenceService_has sv (preferenceState st) k'"
    using ws p2' by auto
  ultimately show ?case by blast
qed

lemma setPluginProperties_loop_frame:
  assumes stay: "\<And>p k k' v. k \<noteq> k' \<Longrightarrow> preferenceService_has sv p k'
                   \<Longrightarrow> preferenceService_has sv (preferenceService_set sv k v Workspace p) k'"
    and frame: "\<And>p k v. k \<noteq> key \<Longrightarrow> observe (preferenceService_set sv k v Workspace p) = observe p"
    and has: "preferenceService_has sv (preferenceState st) key"
  shows "observe (preferenceState (foldl (setPluginProperty sv) st props)) = observe (preferenceState st)"
  using has
proof (induction props arbitrary: st)
  case Nil
  show ?case by simp
next
  case (Cons pair props)
  obtain k v where pair: "pair = (k, v)" by (cases pair)
  let ?st1 = "setPluginProperty sv st (k, v)"
  from setPluginProperty_step [of sv st k v] obtain v' where
    s: "preferenceState ?st1 =
       (if preferenceService_has sv (preferenceState st) k then preferenceState st
        else preferenceService_set sv k v' Workspace (preferenceState st))"
    by blast
  have o: "observe (preferenceState ?st1) = observe (preferenceState st)"
  proof (cases "preferenceService_has sv (preferenceState st) k")
    case True
    with s show ?thesis by simp
  next
    case False
    with Cons.prems have "k \<noteq> key" by auto
    from frame [OF this] s False show ?thesis by simp
  qed
  have "preferenceService_has sv (preferenceState ?st1) key"
    using setPluginProperty_has [of sv st key k v, OF stay Cons.prems] .
  from Cons.IH [OF this] o pair show ?case by simp
qed

text \<open>\<open>getPluginsProperties\<close> reads the services and writes to the console only.\<close>

lemma componentStatusPreference_page:
  "preferenceState (snd (componentStatusPreference sv componentStatus st)) = preferenceState st
   \<and> (\<exists>ns. notices (snd (componentStatusPreference sv componentStatus st)) = notices st @ ns
          \<and> (\<forall>n\<in>set ns. \<exists>m. n = Console_error m))"
  by (simp add: componentStatusPreference_def report_def split: option.splits)

lemma componentStatusPreferences_page:
  "preferenceState (snd (componentStatusPreferences sv statuses st)) = preferenceState st
   \<and> (\<exists>ns. notices (snd (componentStatusPreferences sv statuses st)) = notices st @ ns
          \<and> (\<forall>n\<in>set ns. \<exists>m. n = Console_error m))"
proof (induction statuses arbitrary: st)
  case Nil
  show ?case by simp
next
  case (Cons componentStatus statuses)
  let ?st1 = "snd (componentStatusPreference sv componentStatus st)"
  from componentStatusPreference_page [of sv componentStatus st] obtain ns1 where
    a: "preferenceState ?st1 = preferenceState st" and b: "notices ?st1 = notices st @ ns1"
    and c: "\<forall>n\<in>set ns1. \<exists>m. n = Console_error m" by blast
  from Cons.IH [of ?st1] obtain ns2 where
    d: "preferenceState (snd (componentStatusPreferences sv statuses ?st1)) = preferenceState ?st1"
    and e: "notices (snd (componentStatusPreferences sv statuses ?st1)) = notices ?st1 @ ns2"
    and f: "\<forall>n\<in>set ns2. \<exists>m. n = Console_error m" by blast
  have "preferenceState (snd (componentStatusPreferences sv (componentStatus # statuses) st)) = preferenceState st"
    using a d by (simp add: case_prod_beta)
  moreover have "notices (snd (componentStatusPreferences sv (componentStatus # statuses) st)) = notices st @ (ns1 @ ns2)"
    using b e by (simp add: case_prod_beta)
  moreover have "\<forall>n\<in>set (ns1 @ ns2). \<exists>m. n = Console_error m" using c f by auto
  ultimately show ?case by blast
qed

lemma getPluginsProperties_page:
  "preferenceState (snd (getPluginsProperties sv st)) = preferenceState st
   \<and> (\<exists>ns. notices (snd (getPluginsProperties sv st)) = notices st @ ns
          \<and> (\<forall>n\<in>set ns. \<exists>m. n = Console_error m))"
  using componentStatusPreferences_page [of sv _ st]
  by (auto simp: getPluginsProperties_def Let_def case_prod_beta split: sum.splits option.splits)

lemma setPluginProperties_writes:
  assumes stay: "\<And>p k k' v. k \<noteq> k' \<Longrightarrow> preferenceService_has sv p k'
                   \<Longrightarrow> preferenceService_has sv (preferenceService_set sv k v Workspace p) k'"
  shows "\<exists>ns. notices (snd (setPluginProperties sv props st)) = notices st @ ns
           \<and> (\<forall>k v scope. PreferenceSet k v scope \<in> set ns \<longrightarrow>
                 scope = Workspace \<and> \<not> preferenceService_has sv (preferenceState st) k)"
proof (cases "workspaceService_roots sv (preferenceState st)")
  case None
  with setPluginProperties_loop [of sv st props, OF stay] show ?thesis
    by (simp add: setPluginProperties_def)
next
  case (Some e)
  then show ?thesis by (simp add: setPluginProperties_def)
qed

lemma setPluginProperties_frame:
  assumes stay: "\<And>p k k' v. k \<noteq> k' \<Longrightarrow> preferenceService_has sv p k'
                   \<Longrightarrow> preferenceService_has sv (preferenceService_set sv k v Workspace p) k'"
    and frame: "\<And>p k v. k \<noteq> key \<Longrightarrow> observe (preferenceService_set sv k v Workspace p) = observe p"
    and present: "preferenceService_has sv (preferenceState st) key"
  shows "observe (preferenceState (snd (setPluginProperties sv props st))) = observe (preferenceState st)"
proof (cases "workspaceService_roots sv (preferenceState st)")
  case None
  with setPluginProperties_loop_frame [of sv key observe st props, OF stay frame present] show ?thesis
    by (simp add: setPluginProperties_def)
next
  case (Some e)
  then show ?thesis by (simp add: setPluginProperties_def)
qed

lemma restorePluginProperties_writes:
  assumes stay: "\<And>p k k' v. k \<noteq> k' \<Longrightarrow> preferenceService_has sv p k'
                   \<Longrightarrow> preferenceService_has sv (preferenceService_set sv k v Workspace p) k'"
  shows "\<exists>ns. notices (snd (restorePluginProperties sv st)) = notices st @ ns
           \<and> (\<forall>k v scope. PreferenceSet k v scope \<in> set ns \<longrightarrow>
                 scope = Workspace \<and> \<not> preferenceService_has sv (preferenceState st) k)"
proof -
  obtain r st1 where g: "getPluginsProperties sv st = (r, st1)"
    by (cases "getPluginsProperties sv st")
  from getPluginsProperties_page [of sv st] g obtain ns1 where
    a: "preferenceState st1 = preferenceState st" and b: "notices st1 = notices st @ ns1"
    and c: "\<forall>n\<in>set ns1. \<exists>m. n = Console_error m" by auto
  show ?thesis
  proof (cases r)
    case (Inl e)
    with g b c show ?thesis by (auto simp: restorePluginProperties_def)
  next
    case (Inr propsTuples)
    from setPluginProperties_writes [of sv propsTuples st1, OF stay] obtain ns2 where
      d: "notices (snd (setPluginProperties sv propsTuples st1)) = notices st1 @ ns2"
      and e: "\<forall>k v scope. PreferenceSet k v scope \<in> set ns2 \<longrightarrow>
                 scope = Workspace \<and> \<not> preferenceService_has sv (preferenceState st1) k"
      by blast
    have "notices (snd (restorePluginProperties sv st)) = notices st @ (ns1 @ ns2)"
      using g Inr b d by (simp add: restorePluginProperties_def)
    moreover have "\<forall>k v scope. PreferenceSet k v scope \<in> set (ns1 @ ns2) \<longrightarrow>
                 scope = Workspace \<and> \<not> preferenceService_has sv (preferenceState st) k"
      using c e a by auto
    ultimately show ?thesis by blast
  qed
qed

lemma restorePluginProperties_frame:
  assumes stay: "\<And>p k k' v. k \<noteq> k' \<Longrightarrow> preferenceService_has sv p k'
                   \<Longrightarrow> preferenceService_has sv (preferenceService_set sv k v Workspace p) k'"
    and frame: "\<And>p k v. k \<noteq> key \<Longrightarrow> observe (preferenceService_set sv k v Workspace p) = observe p"
    and present: "preferenceService_has sv (preferenceState st) key"
  shows "observe (preferenceState (snd (restorePluginProperties sv st))) = observe (preferenceState st)"
proof -
  obtain r st1 where g: "getPluginsProperties sv st = (r, st1)"
    by (cases "getPluginsProperties sv st")
  from getPluginsProperties_page [of sv st] g have a: "preferenceState st1 = preferenceState st"
    by auto
  show ?thesis
  proof (cases r)
    case (Inl e)
    with g a show ?thesis by (simp add: restorePluginProperties_def)
  next
    case (Inr propsTuples)
    have "preferenceService_has sv (preferenceState st1) key" using present a by simp
    from setPluginProperties_frame [of sv key observe st1 propsTuples, OF stay frame this]
    show ?thesis using g Inr a by (simp add: restorePluginProperties_def)
  qed
qed

text \<open>
  C10. The preference service is any service in which setting one key removes no other
  key. Every \<open>set\<close> that \<open>setPluginProperties\<close> issues, and every one that
  \<open>restorePluginProperties\<close> issues, is at Workspace scope and for a key the service did
  not have when the call began. For a key the service had, whatever can be observed of
  the service that sets of other keys leave alone (the value of that key) is after the
  call what it was before.
\<close>

theorem setPluginProperties_keeps_existing:
  assumes stay: "\<And>p k k' v. k \<noteq> k' \<Longrightarrow> preferenceService_has sv p k'
                   \<Longrightarrow> preferenceService_has sv (preferenceService_set sv k v Workspace p) k'"
    and frame: "\<And>p k v. k \<noteq> key \<Longrightarrow> observe (preferenceService_set sv k v Workspace p) = observe p"
  shows
    "(PreferenceSet k v scope \<in> set (drop (length (notices st)) (notices (snd (setPluginProperties sv props st))))
        \<longrightarrow> scope = Workspace \<and> \<not> preferenceService_has sv (preferenceState st) k)
     \<and> (preferenceService_has sv (preferenceState st) key
        \<longrightarrow> observe (preferenceState (snd (setPluginProperties sv props st))) = observe (preferenceState st))
     \<and> (PreferenceSet k v scope \<in> set (drop (length (notices st)) (notices (snd (restorePluginProperties sv st))))
        \<longrightarrow> scope = Workspace \<and> \<not> preferenceService_has sv (preferenceState st) k)
     \<and> (preferenceService_has sv (preferenceState st) key
        \<longrightarrow> observe (preferenceState (snd (restorePluginProperties sv st))) = observe (preferenceState st))"
proof -
  have a: "PreferenceSet k v scope \<in> set (drop (length (notices st)) (notices (snd (setPluginProperties sv props st))))
        \<longrightarrow> scope = Workspace \<and> \<not> preferenceService_has sv (preferenceState st) k"
    using setPluginProperties_writes [of sv props st, OF stay] by auto
  have b: "preferenceService_has sv (preferenceState st) key
        \<longrightarrow> observe (preferenceState (snd (setPluginProperties sv props st))) = observe (preferenceState st)"
    using setPluginProperties_frame [of sv key observe st props, OF stay frame] by blast
  have c: "PreferenceSet k v scope \<in> set (drop (length (notices st)) (notices (snd (restorePluginProperties sv st))))
        \<longrightarrow> scope = Workspace \<and> \<not> preferenceService_has sv (preferenceState st) k"
    using restorePluginProperties_writes [of sv st, OF stay] by auto
  have d: "preferenceService_has sv (preferenceState st) key
        \<longrightarrow> observe (preferenceState (snd (restorePluginProperties sv st))) = observe (preferenceState st)"
    using restorePluginProperties_frame [of sv key observe st, OF stay frame] by blast
  from a b c d show ?thesis by blast
qed

lemma setPluginProperties_test_run:
  "setPluginProperties testServices
     [(''workbench.colorTheme'', JStr ''dark''), (''editor.fontSize'', JStr ''12''), (''editor.tabSize'', JStr ''12'')]
     testPage =
     (Inr (),
      \<lparr>preferenceState = [(''editor.fontSize'', JNum 14), (''workbench.colorTheme'', JStr ''dark''),
                          (''editor.tabSize'', JNum 12)],
       notices = [Console_warn ''workbench.colorTheme'' (JStr ''dark''),
                  PreferenceSet ''workbench.colorTheme'' (JStr ''dark'') Workspace,
                  PreferenceSet ''editor.tabSize'' (JNum 12) Workspace]\<rparr>)"
  by (simp add: setPluginProperties_def setPluginProperty_def setPreferenceValue_def report_def
      testServices_def testPage_def sampleParse_def workspacesText_def)

lemma restorePluginProperties_test_run:
  "fst (restorePluginProperties testServices testPage) = Inr ()
   \<and> preferenceState (snd (restorePluginProperties testServices testPage)) =
       [(''editor.fontSize'', JNum 14), (''java.home'', JStr ''/usr/lib/jvm''), (''editor.tabSize'', JNum 12)]
   \<and> drop 1 (notices (snd (restorePluginProperties testServices testPage))) =
       [Console_warn ''java.home'' (JStr ''/usr/lib/jvm''),
        PreferenceSet ''java.home'' (JStr ''/usr/lib/jvm'') Workspace,
        PreferenceSet ''editor.tabSize'' (JNum 12) Workspace]"
  by (simp add: restorePluginProperties_def getPluginsProperties_def Let_def
      devfilePluginPreference_def preferencesAttribute_def orEmptyObject_def whenTruthy_def
      Object_assign_def Object_entries_def componentStatusPreference_def
      SIDECAR_PREFERENCES_def VSCODE_PREFERENCES_def
      setPluginProperties_def setPluginProperty_def setPreferenceValue_def report_def
      testServices_def testComponents_def testStatuses_def testPage_def sampleParse_def
      workspacesText_def)

theorem setPluginProperties_keeps_existing_witness:
  "preferenceService_has testServices (preferenceState testPage) ''editor.fontSize''
   \<and> PreferenceSet ''editor.tabSize'' (JNum 12) Workspace
        \<in> set (drop (length (notices testPage)) (notices (snd (setPluginProperties testServices
             [(''workbench.colorTheme'', JStr ''dark''), (''editor.fontSize'', JStr ''12''),
              (''editor.tabSize'', JStr ''12'')] testPage))))
   \<and> \<not> preferenceService_has testServices (preferenceState testPage) ''editor.tabSize''
   \<and> map_of (preferenceState (snd (setPluginProperties testServices
             [(''workbench.colorTheme'', JStr ''dark''), (''editor.fontSize'', JStr ''12''),
              (''editor.tabSize'', JStr ''12'')] testPage))) ''editor.fontSize''
       = map_of (preferenceState testPage) ''editor.fontSize''
   \<and> PreferenceSet ''editor.tabSize'' (JNum 12) Workspace
        \<in> set (drop (length (notices testPage)) (notices (snd (restorePluginProperties testServices testPage))))
   \<and> map_of (preferenceState (snd (restorePluginProperties testServices testPage))) ''editor.fontSize''
       = map_of (preferenceState testPage) ''editor.fontSize''"
proof -
  let ?props = "[(''workbench.colorTheme'', JStr ''dark''), (''editor.fontSize'', JStr ''12''),
              (''editor.tabSize'', JStr ''12'')]"
  have stay: "\<And>p k k' v. k \<noteq> k' \<Longrightarrow> preferenceService_has testServices p k'
        \<Longrightarrow> preferenceService_has testServices (preferenceService_set testServices k v Workspace p) k'"
    by (auto simp: testServices_def)
  have frame: "\<And>p k v. k \<noteq> ''editor.fontSize''
        \<Longrightarrow> map_of (preferenceService_set testServices k v Workspace p) ''editor.fontSize''
            = map_of p ''editor.fontSize''"
    by (auto simp: testServices_def map_add_def split: option.splits)
  have present: "preferenceService_has testServices (preferenceState testPage) ''editor.fontSize''"
    by (simp add: testServices_def testPage_def)
  have issued: "PreferenceSet ''editor.tabSize'' (JNum 12) Workspace
        \<in> set (drop (length (notices testPage)) (notices (snd (setPluginProperties testServices ?props testPage))))"
    unfolding setPluginProperties_test_run by (simp add: testPage_def)
  have restored: "PreferenceSet ''editor.tabSize'' (JNum 12) Workspace
        \<in> set (drop (length (notices testPage)) (notices (snd (restorePluginProperties testServices testPage))))"
  proof -
    have "length (notices testPage) = 0" by (simp add: testPage_def)
    moreover have "PreferenceSet ''editor.tabSize'' (JNum 12) Workspace
        \<in> set (drop 1 (notices (snd (restorePluginProperties testServices testPage))))"
      using restorePluginProperties_test_run by simp
    ultimately show ?thesis by (auto dest: in_set_dropD)
  qed
  note w = setPluginProperties_keeps_existing [of testServices "''editor.fontSize''"
      "\<lambda>p. map_of p ''editor.fontSize''" "''editor.tabSize''" "JNum 12" Workspace testPage ?props,
      OF stay frame]
  from w issued have absent: "\<not> preferenceService_has testServices (preferenceState testPage) ''editor.tabSize''"
    by blast
  from w present have kept: "map_of (preferenceState (snd (setPluginProperties testServices ?props testPage)))
      ''editor.fontSize'' = map_of (preferenceState testPage) ''editor.fontSize''"
    by blast
  from w present have kept': "map_of (preferenceState (snd (restorePluginProperties testServices testPage)))
      ''editor.fontSize'' = map_of (preferenceState testPage) ''editor.fontSize''"
    by blast
  from present issued absent kept restored kept' show ?thesis by blast
qed

section \<open>Payloads that do not parse\<close>

lemma toPairs_skip_empty:
  "toPairs result (filter (\<lambda>v. v \<noteq> JObj []) xs) = toPairs result xs"
  by (induction xs arbitrary: result) (auto simp: Object_entries_def split: sum.splits json.splits)

lemma toPairs_same_objects:
  assumes "filter (\<lambda>v. v \<noteq> JObj []) xs = filter (\<lambda>v. v \<noteq> JObj []) ys"
  shows "toPairs result xs = toPairs result ys"
  using assms toPairs_skip_empty [of result xs] toPairs_skip_empty [of result ys] by simp

text \<open>
  The callbacks of the component statuses: each gives what its payload parses to, or
  \<open>{}\<close>, and the console gets one message per payload that does not parse.
\<close>

lemma componentStatusPreference_payload:
  "componentStatusPreference sv componentStatus st =
     (case parsedPayload sv componentStatus of Some v \<Rightarrow> v | None \<Rightarrow> JObj [],
      st\<lparr>notices := notices st @
            (case invalidPayloadMessage sv componentStatus of Some m \<Rightarrow> [Console_error m] | None \<Rightarrow> [])\<rparr>)"
  by (simp add: componentStatusPreference_def parsedPayload_def invalidPayloadMessage_def
      sidecarPayload_def report_def split: option.splits)

lemma componentStatusPreferences_payloads:
  "componentStatusPreferences sv statuses st =
     (map (\<lambda>componentStatus. case parsedPayload sv componentStatus of Some v \<Rightarrow> v | None \<Rightarrow> JObj []) statuses,
      st\<lparr>notices := notices st @ map Console_error (List.map_filter (invalidPayloadMessage sv) statuses)\<rparr>)"
proof (induction statuses arbitrary: st)
  case Nil
  show ?case by (simp add: map_filter_simps)
next
  case (Cons componentStatus statuses)
  show ?case
    by (simp add: componentStatusPreference_payload Cons.IH map_filter_simps split: option.splits)
qed

lemma parsed_payloads_objects:
  "filter (\<lambda>v. v \<noteq> JObj [])
     (map (\<lambda>componentStatus. case parsedPayload sv componentStatus of Some v \<Rightarrow> v | None \<Rightarrow> JObj []) statuses)
   = filter (\<lambda>v. v \<noteq> JObj []) (List.map_filter (parsedPayload sv) statuses)"
  by (induction statuses) (auto simp: map_filter_simps split: option.splits)

lemma getPluginsProperties_payloads:
  assumes "devfileService_get sv (preferenceState st) = Inr devfile"
    and "components devfile = Some comps"
    and "Object_assign [] (map preferencesAttribute comps) = []"
    and "devfileService_getComponentStatuses sv (preferenceState st) = Inr statuses"
  shows "getPluginsProperties sv st =
           (toPairs [] (map devfilePluginPreference comps @ List.map_filter (parsedPayload sv) statuses),
            st\<lparr>notices := notices st @ map Console_error (List.map_filter (invalidPayloadMessage sv) statuses)\<rparr>)"
proof -
  have "toPairs [] (map devfilePluginPreference comps @
          map (\<lambda>componentStatus. case parsedPayload sv componentStatus of Some v \<Rightarrow> v | None \<Rightarrow> JObj []) statuses)
        = toPairs [] (map devfilePluginPreference comps @ List.map_filter (parsedPayload sv) statuses)"
    by (rule toPairs_same_objects) (simp add: parsed_payloads_objects)
  with assms show ?thesis
    by (simp add: getPluginsProperties_def Let_def componentStatusPreferences_payloads)
qed

lemma setPluginProperties_unparsed:
  assumes "workspaceService_roots sv (preferenceState st) = None"
    and "parse sv (case v of JStr s \<Rightarrow> s | _ \<Rightarrow> stringOf sv v) = None"
  shows "setPluginProperties sv (before @ (key, v) # after) st =
           (Inr (), foldl (setPluginProperty sv)
                      (setPreferenceValue sv key v
                         (report (Console_warn key v) (foldl (setPluginProperty sv) st before)))
                      after)"
  using assms by (simp add: setPluginProperties_def setPluginProperty_def)

text \<open>
  C9, as the claim states it: a preference value that does not parse is skipped. The
  code at the pair \<open>workbench.colorTheme\<close>, \<open>dark\<close>, on a service that has no such
  preference: \<open>dark\<close> is no JSON text, the console is warned, and the string \<open>dark\<close> is
  written as the value of the preference.
\<close>

theorem setPluginProperties_unparsed_value_written:
  "parse testServices ''dark'' = None
   \<and> setPluginProperties testServices [(''workbench.colorTheme'', JStr ''dark'')] testPage =
       (Inr (),
        \<lparr>preferenceState = [(''editor.fontSize'', JNum 14), (''workbench.colorTheme'', JStr ''dark'')],
         notices = [Console_warn ''workbench.colorTheme'' (JStr ''dark''),
                    PreferenceSet ''workbench.colorTheme'' (JStr ''dark'') Workspace]\<rparr>)"
  by (simp add: setPluginProperties_def setPluginProperty_def setPreferenceValue_def report_def
      testServices_def testPage_def sampleParse_def workspacesText_def)

text \<open>
  C9, amended. For a workspace without annotation preferences (the case in which the
  variables are read): \<open>getPluginsProperties\<close> returns the pairs of the devfile plugin
  preferences followed by those of the payloads that parse, those that do not parse
  contribute nothing, and the console gets one error message for each of them; nothing
  else changes. In \<open>setPluginProperties\<close>, once the workspace roots are there, a value that
  does not parse is not skipped: the console is warned, \<open>setPreferenceValue\<close> is called
  with the value as it is, the pairs after it are processed, and the call does not fail.
\<close>

theorem unparsed_payloads:
  assumes "devfileService_get sv (preferenceState st) = Inr devfile"
    and "components devfile = Some comps"
    and "Object_assign [] (map preferencesAttribute comps) = []"
    and "devfileService_getComponentStatuses sv (preferenceState st) = Inr statuses"
    and "workspaceService_roots sv (preferenceState pst) = None"
    and "parse sv (case v of JStr s \<Rightarrow> s | _ \<Rightarrow> stringOf sv v) = None"
  shows "fst (getPluginsProperties sv st) =
           toPairs [] (map devfilePluginPreference comps @ List.map_filter (parsedPayload sv) statuses)
       \<and> snd (getPluginsProperties sv st) =
           st\<lparr>notices := notices st @ map Console_error (List.map_filter (invalidPayloadMessage sv) statuses)\<rparr>
       \<and> setPluginProperties sv (before @ (key, v) # after) pst =
           (Inr (), foldl (setPluginProperty sv)
                      (setPreferenceValue sv key v
                         (report (Console_warn key v) (foldl (setPluginProperty sv) pst before)))
                      after)"
  using getPluginsProperties_payloads [OF assms(1-4)] setPluginProperties_unparsed [OF assms(5,6)]
  by simp

theorem unparsed_payloads_witness:
  "devfileService_get testServices (preferenceState testPage) = Inr \<lparr>components = Some testComponents\<rparr>
   \<and> Object_assign [] (map preferencesAttribute testComponents) = []
   \<and> devfileService_getComponentStatuses testServices (preferenceState testPage) = Inr testStatuses
   \<and> workspaceService_roots testServices (preferenceState testPage) = None
   \<and> parse testServices ''dark'' = None
   \<and> fst (getPluginsProperties testServices testPage) =
       Inr [(''java.home'', JStr ''/usr/lib/jvm''), (''editor.tabSize'', JStr ''12'')]
   \<and> snd (getPluginsProperties testServices testPage) =
       testPage\<lparr>notices := [Console_error
          ''Ignoring invalid JSON value '{editor' from component java for ENV=CHE_THEIA_SIDECAR_PREFERENCES'']\<rparr>
   \<and> setPluginProperties testServices
        [(''workbench.colorTheme'', JStr ''dark''), (''editor.tabSize'', JStr ''12'')] testPage =
       (Inr (),
        \<lparr>preferenceState = [(''editor.fontSize'', JNum 14), (''workbench.colorTheme'', JStr ''dark''),
                            (''editor.tabSize'', JNum 12)],
         notices = [Console_warn ''workbench.colorTheme'' (JStr ''dark''),
                    PreferenceSet ''workbench.colorTheme'' (JStr ''dark'') Workspace,
                    PreferenceSet ''editor.tabSize'' (JNum 12) Workspace]\<rparr>)"
proof -
  have h1: "devfileService_get testServices (preferenceState testPage) = Inr \<lparr>components = Some testComponents\<rparr>"
    by (simp add: testServices_def)
  have h2: "components \<lparr>components = Some testComponents\<rparr> = Some testComponents" by simp
  have h3: "Object_assign [] (map preferencesAttribute testComponents) = []"
    by (simp add: Object_assign_def preferencesAttribute_def testComponents_def orEmptyObject_def
        whenTruthy_def)
  have h4: "devfileService_getComponentStatuses testServices (preferenceState testPage) = Inr testStatuses"
    by (simp add: testServices_def)
  have h5: "workspaceService_roots testServices (preferenceState testPage) = None"
    by (simp add: testServices_def)
  have h6: "parse testServices (case JStr ''dark'' of JStr s \<Rightarrow> s | _ \<Rightarrow> stringOf testServices (JStr ''dark'')) = None"
    by (simp add: testServices_def sampleParse_def workspacesText_def)
  have p: "parse testServices ''dark'' = None" using h6 by simp
  note w = unparsed_payloads [OF h1 h2 h3 h4 h5 h6, of "[]" "''workbench.colorTheme''"
      "[(''editor.tabSize'', JStr ''12'')]"]
  have a: "toPairs [] (map devfilePluginPreference testComponents @ List.map_filter (parsedPayload testServices) testStatuses)
      = Inr [(''java.home'', JStr ''/usr/lib/jvm''), (''editor.tabSize'', JStr ''12'')]"
    by (simp add: testComponents_def testStatuses_def devfilePluginPreference_def orEmptyObject_def
        whenTruthy_def map_filter_simps parsedPayload_def sidecarPayload_def SIDECAR_PREFERENCES_def
        testServices_def sampleParse_def workspacesText_def Object_entries_def)
  have b: "map Console_error (List.map_filter (invalidPayloadMessage testServices) testStatuses) =
      [Console_error ''Ignoring invalid JSON value '{editor' from component java for ENV=CHE_THEIA_SIDECAR_PREFERENCES'']"
    by (simp add: testStatuses_def map_filter_simps invalidPayloadMessage_def sidecarPayload_def
        SIDECAR_PREFERENCES_def testServices_def sampleParse_def workspacesText_def)
  have c: "foldl (setPluginProperty testServices)
             (setPreferenceValue testServices ''workbench.colorTheme'' (JStr ''dark'')
                (report (Console_warn ''workbench.colorTheme'' (JStr ''dark''))
                   (foldl (setPluginProperty testServices) testPage [])))
             [(''editor.tabSize'', JStr ''12'')] =
       \<lparr>preferenceState = [(''editor.fontSize'', JNum 14), (''workbench.colorTheme'', JStr ''dark''),
                            (''editor.tabSize'', JNum 12)],
         notices = [Console_warn ''workbench.colorTheme'' (JStr ''dark''),
                    PreferenceSet ''workbench.colorTheme'' (JStr ''dark'') Workspace,
                    PreferenceSet ''editor.tabSize'' (JNum 12) Workspace]\<rparr>"
    by (simp add: setPluginProperty_def setPreferenceValue_def report_def
        testServices_def testPage_def sampleParse_def workspacesText_def)
  have n: "notices testPage = []" by (simp add: testPage_def)
  from w a b c n h1 h3 h4 h5 p show ?thesis by simp
qed

end
